theory Spec2Isabelle
  imports Main "HOL-Library.Word"
begin

unbundle bit_operations_syntax

section \<open>The FARSITE v.4 landscape (LCP) driver: data model\<close>

text \<open>
  A shallow embedding of \<^verbatim>\<open>frmts/raw/lcpdataset.cpp\<close>: the header reader
  (\<^verbatim>\<open>Identify\<close>, \<^verbatim>\<open>Open\<close>, \<^verbatim>\<open>GetGeoTransform\<close>), the band classifier
  (\<^verbatim>\<open>ClassifyBandData\<close>) and the header writer (\<^verbatim>\<open>CreateCopy\<close>).
  C integers that the code only compares or copies are \<open>int\<close>; values that are laid
  out in the file are words of their width; a \<^verbatim>\<open>double\<close> is its IEEE-754 bit
  pattern, and the floating-point operations the code applies are parameters.
\<close>

type_synonym GByte = "8 word"
type_synonym GInt16 = "16 word"
type_synonym GInt32 = "32 word"
type_synonym double = "64 word"

definition LCP_HEADER_SIZE :: nat where "LCP_HEADER_SIZE = 7316"
definition LCP_MAX_BANDS :: nat where "LCP_MAX_BANDS = 10"
definition LCP_MAX_PATH :: nat where "LCP_MAX_PATH = 256"
definition LCP_MAX_DESC :: nat where "LCP_MAX_DESC = 512"
definition LCP_MAX_CLASSES :: nat where "LCP_MAX_CLASSES = 100"

datatype CPLErr = CE_None | CE_Debug | CE_Warning | CE_Failure | CE_Fatal

section \<open>Bytes, strings and files\<close>

text \<open>
  Modelled from the spec: the byte source and sink with "little-endian fixed-width
  integer and float accessors" (the macros \<^verbatim>\<open>CPL_LSBSINT32PTR\<close>,
  \<^verbatim>\<open>CPL_LSBUINT16PTR\<close>, \<^verbatim>\<open>CPL_LSBPTR32\<close> and \<^verbatim>\<open>CPL_LSBPTR64\<close> of
  \<^verbatim>\<open>cpl_port.h\<close>, which is not among the sources). A buffer is a function from
  byte index to byte; the least significant byte comes first.
\<close>

fun lsb_word :: "GByte list \<Rightarrow> 'a::len word" where
  "lsb_word [] = 0"
| "lsb_word (b # bs) = ucast b OR push_bit 8 (lsb_word bs)"

definition CPL_LSBSINT32PTR :: "(nat \<Rightarrow> GByte) \<Rightarrow> nat \<Rightarrow> int" where
  "CPL_LSBSINT32PTR p off =
     sint (lsb_word [p off, p (off + 1), p (off + 2), p (off + 3)] :: GInt32)"

definition CPL_LSBUINT16PTR :: "(nat \<Rightarrow> GByte) \<Rightarrow> nat \<Rightarrow> int" where
  "CPL_LSBUINT16PTR p off = uint (lsb_word [p off, p (off + 1)] :: GInt16)"

text \<open>\<^verbatim>\<open>memcpy(&df, p + off, sizeof(double)); CPL_LSBPTR64(&df);\<close>\<close>

definition LSBPTR64_at :: "(nat \<Rightarrow> GByte) \<Rightarrow> nat \<Rightarrow> double" where
  "LSBPTR64_at p off =
     lsb_word [p off, p (off + 1), p (off + 2), p (off + 3),
               p (off + 4), p (off + 5), p (off + 6), p (off + 7)]"

text \<open>The bytes \<^verbatim>\<open>VSIFWriteL\<close> sends after \<^verbatim>\<open>CPL_LSBPTR32\<close> and its siblings.\<close>

definition lsb16 :: "GInt16 \<Rightarrow> GByte list" where
  "lsb16 w = [ucast w, ucast (drop_bit 8 w)]"

definition lsb32 :: "GInt32 \<Rightarrow> GByte list" where
  "lsb32 w = [ucast w, ucast (drop_bit 8 w), ucast (drop_bit 16 w), ucast (drop_bit 24 w)]"

definition lsb64 :: "double \<Rightarrow> GByte list" where
  "lsb64 w = [ucast w, ucast (drop_bit 8 w), ucast (drop_bit 16 w), ucast (drop_bit 24 w),
              ucast (drop_bit 32 w), ucast (drop_bit 40 w), ucast (drop_bit 48 w),
              ucast (drop_bit 56 w)]"

text \<open>
  Modelled from the spec: option values are matched against the enumerated names
  (section 4.1) with the macros \<^verbatim>\<open>EQUAL\<close> and \<^verbatim>\<open>STARTS_WITH_CI\<close> of
  \<^verbatim>\<open>cpl_port.h\<close>, which compare without regard to the case of ASCII letters.
\<close>

definition toupper :: "char \<Rightarrow> char" where
  "toupper c =
     (case map_of (zip ''abcdefghijklmnopqrstuvwxyz'' ''ABCDEFGHIJKLMNOPQRSTUVWXYZ'') c of
        None \<Rightarrow> c
      | Some u \<Rightarrow> u)"

definition EQUAL :: "string \<Rightarrow> string \<Rightarrow> bool" where
  "EQUAL a b = (map toupper a = map toupper b)"

definition STARTS_WITH_CI :: "string \<Rightarrow> string \<Rightarrow> bool" where
  "STARTS_WITH_CI a b = EQUAL (take (length b) a) b"

text \<open>
  Modelled from the spec: the write options are a key-value list
  (\<^verbatim>\<open>CSLFetchNameValue\<close>, \<^verbatim>\<open>CSLFetchNameValueDef\<close>, \<^verbatim>\<open>CPLFetchBool\<close> and
  \<^verbatim>\<open>CPLStrnlen\<close> of \<^verbatim>\<open>cpl_string.h\<close>, which is not among the sources). The
  first entry whose key matches wins; a boolean option is false for the values NO,
  FALSE, OFF and 0 and true for every other value.
\<close>

fun CSLFetchNameValue :: "(string \<times> string) list \<Rightarrow> string \<Rightarrow> string option" where
  "CSLFetchNameValue [] pszName = None"
| "CSLFetchNameValue ((k, v) # papszStrList) pszName =
     (if EQUAL k pszName then Some v else CSLFetchNameValue papszStrList pszName)"

definition CSLFetchNameValueDef :: "(string \<times> string) list \<Rightarrow> string \<Rightarrow> string \<Rightarrow> string" where
  "CSLFetchNameValueDef papszStrList pszName pszDefault =
     (case CSLFetchNameValue papszStrList pszName of None \<Rightarrow> pszDefault | Some v \<Rightarrow> v)"

definition CPLTestBool :: "string \<Rightarrow> bool" where
  "CPLTestBool v =
     (if EQUAL v ''NO'' \<or> EQUAL v ''FALSE'' \<or> EQUAL v ''OFF'' \<or> EQUAL v ''0''
      then False else True)"

definition CPLFetchBool :: "(string \<times> string) list \<Rightarrow> string \<Rightarrow> bool \<Rightarrow> bool" where
  "CPLFetchBool papszStrList pszKey bDefault =
     (case CSLFetchNameValue papszStrList pszKey of
        None \<Rightarrow> bDefault
      | Some v \<Rightarrow> CPLTestBool v)"

definition CPLStrnlen :: "string \<Rightarrow> nat \<Rightarrow> nat" where
  "CPLStrnlen s n = min (length s) n"

text \<open>
  The C library's \<^verbatim>\<open>atoi\<close>, which is \<^verbatim>\<open>(int) strtol(nptr, NULL, 10)\<close>: leading
  white space, an optional sign, then the decimal digits up to the first other
  character (0 when there are none). \<^verbatim>\<open>strtol\<close> holds a value outside of \<^verbatim>\<open>long\<close>
  (64 bits) at \<^verbatim>\<open>LONG_MAX\<close> or \<^verbatim>\<open>LONG_MIN\<close>, and the conversion to \<^verbatim>\<open>int\<close> keeps
  the low 32 bits.
\<close>

definition isspace :: "char \<Rightarrow> bool" where
  "isspace c = (c \<in> set [CHR '' '', CHR 0x09, CHR 0x0A, CHR 0x0B, CHR 0x0C, CHR 0x0D])"

definition digit_value :: "char \<Rightarrow> int option" where
  "digit_value c = map_of (zip ''0123456789'' [0, 1, 2, 3, 4, 5, 6, 7, 8, 9]) c"

fun atoi_digits :: "string \<Rightarrow> int \<Rightarrow> int" where
  "atoi_digits [] acc = acc"
| "atoi_digits (c # cs) acc =
     (case digit_value c of None \<Rightarrow> acc | Some d \<Rightarrow> atoi_digits cs (acc * 10 + d))"

definition LONG_MAX :: int where "LONG_MAX = 9223372036854775807"
definition LONG_MIN :: int where "LONG_MIN = - 9223372036854775808"

definition strtol :: "string \<Rightarrow> int" where
  "strtol s =
     (let v = (case dropWhile isspace s of
                 [] \<Rightarrow> 0
               | c # cs \<Rightarrow>
                   if c = CHR ''-'' then - atoi_digits cs 0
                   else if c = CHR ''+'' then atoi_digits cs 0
                   else atoi_digits (c # cs) 0)
      in if v > LONG_MAX then LONG_MAX else if v < LONG_MIN then LONG_MIN else v)"

definition atoi :: "string \<Rightarrow> int" where
  "atoi s = sint (word_of_int (strtol s) :: GInt32)"

text \<open>\<^verbatim>\<open>snprintf(szTemp, sizeof(szTemp), "%d", nTemp)\<close>: the decimal digits of an int.\<close>

definition digit_char :: "nat \<Rightarrow> char" where
  "digit_char d = ''0123456789'' ! (d mod 10)"

function dec_digits :: "nat \<Rightarrow> string" where
  "dec_digits n = (if n < 10 then [digit_char n] else dec_digits (n div 10) @ [digit_char n])"
  by pat_completeness auto
termination
  by (relation "measure id") auto

definition snprintf_d :: "int \<Rightarrow> string" where
  "snprintf_d n = (if n < 0 then CHR ''-'' # dec_digits (nat (- n)) else dec_digits (nat n))"

text \<open>
  Modelled from the spec: the byte sink with "seek-to-offset, read-N-bytes,
  write-N-bytes, tell-position" (\<^verbatim>\<open>VSILFILE\<close> of \<^verbatim>\<open>cpl_vsi.h\<close>, which is not
  among the sources). A file is its bytes, its size and the position of the cursor;
  a write past the end fills the gap with zero bytes, and every write succeeds (the
  writer ignores what \<^verbatim>\<open>VSIFWriteL\<close> and \<^verbatim>\<open>VSIFSeekL\<close> return).
\<close>

record VSILFILE =
  vsi_data :: "nat \<Rightarrow> GByte"
  vsi_size :: nat
  vsi_offset :: nat

definition VSIFOpenL_wb :: VSILFILE where
  "VSIFOpenL_wb = \<lparr>vsi_data = (\<lambda>i. 0), vsi_size = 0, vsi_offset = 0\<rparr>"

definition VSIFSeekL_SET :: "nat \<Rightarrow> VSILFILE \<Rightarrow> VSILFILE" where
  "VSIFSeekL_SET off f = f\<lparr>vsi_offset := off\<rparr>"

definition VSIFSeekL_CUR :: "nat \<Rightarrow> VSILFILE \<Rightarrow> VSILFILE" where
  "VSIFSeekL_CUR n f = f\<lparr>vsi_offset := vsi_offset f + n\<rparr>"

definition VSIFTellL :: "VSILFILE \<Rightarrow> nat" where
  "VSIFTellL f = vsi_offset f"

definition VSIFWriteL :: "GByte list \<Rightarrow> VSILFILE \<Rightarrow> VSILFILE" where
  "VSIFWriteL bs f =
     (if bs = [] then f
      else \<lparr>vsi_data = (\<lambda>i. if vsi_offset f \<le> i \<and> i < vsi_offset f + length bs
                              then bs ! (i - vsi_offset f) else vsi_data f i),
            vsi_size = max (vsi_size f) (vsi_offset f + length bs),
            vsi_offset = vsi_offset f + length bs\<rparr>)"

text \<open>
  \<^verbatim>\<open>VSIFReadL(buf, 1, n, fp)\<close> into a zeroed buffer: the number of bytes read and
  the buffer afterwards.
\<close>

definition VSIFReadL :: "nat \<Rightarrow> VSILFILE \<Rightarrow> nat \<times> (nat \<Rightarrow> GByte)" where
  "VSIFReadL n f =
     (let got = min n (vsi_size f - vsi_offset f)
      in (got, \<lambda>i. if i < got then vsi_data f (vsi_offset f + i) else 0))"

text \<open>The bytes of a C string, and the C string that starts at an index of a buffer.\<close>

definition bytes_of_string :: "string \<Rightarrow> GByte list" where
  "bytes_of_string s = map (\<lambda>c. word_of_nat (of_char c)) s"

definition string_at :: "(nat \<Rightarrow> GByte) \<Rightarrow> nat \<Rightarrow> nat \<Rightarrow> string" where
  "string_at p off bound = map (\<lambda>i. char_of (unat (p i))) (takeWhile (\<lambda>i. p i \<noteq> 0) [off..<bound])"

section \<open>External collaborators\<close>

datatype GDALAccess = GA_ReadOnly | GA_Update

datatype GDALDataType =
  GDT_Unknown | GDT_Byte | GDT_UInt16 | GDT_Int16 | GDT_UInt32 | GDT_Int32
  | GDT_Float32 | GDT_Float64

text \<open>
  A spatial reference, as far as \<^verbatim>\<open>CreateCopy\<close> asks it: the two children of its
  \<^verbatim>\<open>UNIT\<close> node, \<^verbatim>\<open>GetAttrValue("UNIT", 0)\<close> and \<^verbatim>\<open>GetAttrValue("UNIT", 1)\<close>.
\<close>

record OGRSpatialReference =
  UNIT_0 :: "string option"
  UNIT_1 :: "string option"

text \<open>
  What the driver calls and the sources do not define, as parameters: the arithmetic
  of \<^verbatim>\<open>double\<close> (on bit patterns) and \<^verbatim>\<open>CPLAtof\<close>; \<^verbatim>\<open>RawRasterBand::Create\<close>
  (true when it returns a band, for the band number, image offset, pixel offset and
  line offset it is given); \<^verbatim>\<open>OGRCreateCoordinateTransformation\<close> to EPSG:4269
  (\<open>None\<close> for \<^verbatim>\<open>nullptr\<close>; the transformation maps a point to \<open>None\<close> when
  \<^verbatim>\<open>Transform\<close> fails); whether \<^verbatim>\<open>VSIFOpenL(pszFilename, "wb")\<close> returns a file;
  the progress callback; and whether the build is a debug build, where
  \<^verbatim>\<open>CPLAssert\<close> is active.
\<close>

record services =
  fp_add :: "double \<Rightarrow> double \<Rightarrow> double"
  fp_mul :: "double \<Rightarrow> double \<Rightarrow> double"
  fp_div :: "double \<Rightarrow> double \<Rightarrow> double"
  fp_fabs :: "double \<Rightarrow> double"
  fp_of_int :: "int \<Rightarrow> double"
  fp_to_GInt32 :: "double \<Rightarrow> GInt32"
  CPLAtof :: "string \<Rightarrow> double"
  RawRasterBand_Create :: "int \<Rightarrow> int \<Rightarrow> int \<Rightarrow> int \<Rightarrow> bool"
  OGRCreateCoordinateTransformation ::
    "OGRSpatialReference \<Rightarrow> (double \<Rightarrow> double \<Rightarrow> (double \<times> double) option) option"
  VSIFOpenL_succeeds :: "string \<Rightarrow> bool"
  pfnProgress :: "double \<Rightarrow> bool"
  CPLAssert_active :: bool

text \<open>The bit patterns of the \<^verbatim>\<open>double\<close> literals 0.5 and 1.0.\<close>

definition double_half :: double where "double_half = 0x3FE0000000000000"
definition double_one :: double where "double_one = 0x3FF0000000000000"

section \<open>Identify, Open and GetGeoTransform\<close>

text \<open>
  \<^verbatim>\<open>GDALOpenInfo\<close>: the extension of the file name, the requested access, the
  first \<^verbatim>\<open>nHeaderBytes\<close> bytes of the file in \<^verbatim>\<open>pabyHeader\<close>, and the open file
  (\<open>None\<close> for \<^verbatim>\<open>nullptr\<close>).
\<close>

record GDALOpenInfo =
  osExtension :: string
  eAccess :: GDALAccess
  nHeaderBytes :: int
  pabyHeader :: "nat \<Rightarrow> GByte"
  fpL :: "VSILFILE option"

definition Identify :: "GDALOpenInfo \<Rightarrow> bool" where
  "Identify poOpenInfo =
     (if nHeaderBytes poOpenInfo < 50 then False
      else if (CPL_LSBSINT32PTR (pabyHeader poOpenInfo) 0 \<noteq> 20
               \<and> CPL_LSBSINT32PTR (pabyHeader poOpenInfo) 0 \<noteq> 21)
            \<or> (CPL_LSBSINT32PTR (pabyHeader poOpenInfo) 4 \<noteq> 20
               \<and> CPL_LSBSINT32PTR (pabyHeader poOpenInfo) 4 \<noteq> 21)
            \<or> (CPL_LSBSINT32PTR (pabyHeader poOpenInfo) 8 < - 90
               \<or> CPL_LSBSINT32PTR (pabyHeader poOpenInfo) 8 > 90)
        then False
      else if EQUAL (osExtension poOpenInfo) ''lcp'' then True
      else False)"

text \<open>
  Modelled from the spec: \<^verbatim>\<open>GDALCheckDatasetDimensions\<close> (not among the sources)
  refuses a declared raster width or height that is not positive.
\<close>

definition GDALCheckDatasetDimensions :: "int \<Rightarrow> int \<Rightarrow> bool" where
  "GDALCheckDatasetDimensions nXSize nYSize = (if nXSize \<le> 0 \<or> nYSize \<le> 0 then False else True)"

definition CPL_TO_BOOL :: "int \<Rightarrow> bool" where
  "CPL_TO_BOOL x = (x \<noteq> 0)"

definition INT_MAX :: int where "INT_MAX = 2147483647"

text \<open>
  The metadata of a dataset or band: \<^verbatim>\<open>SetMetadataItem\<close> replaces the value of a
  name that is there and adds the item otherwise.
\<close>

fun SetMetadataItem :: "string \<Rightarrow> string \<Rightarrow> (string \<times> string) list \<Rightarrow> (string \<times> string) list" where
  "SetMetadataItem k v [] = [(k, v)]"
| "SetMetadataItem k v ((k', v') # md) =
     (if k' = k then (k, v) # md else (k', v') # SetMetadataItem k v md)"

definition GetMetadataItem :: "(string \<times> string) list \<Rightarrow> string \<Rightarrow> string option" where
  "GetMetadataItem md k = map_of md k"

record LCPBand =
  band_description :: string
  band_metadata :: "(string \<times> string) list"
  nImgOffset :: int
  nPixelOffset :: int
  nLineOffset :: int

record LCPDataset =
  pachHeader :: "nat \<Rightarrow> GByte"
  nRasterXSize :: int
  nRasterYSize :: int
  papoBands :: "LCPBand list"
  ds_metadata :: "(string \<times> string) list"
  fpImage :: VSILFILE

definition GetRasterCount :: "LCPDataset \<Rightarrow> int" where
  "GetRasterCount poDS = int (length (papoBands poDS))"

text \<open>
  The four kinds of item every case of the band \<^verbatim>\<open>switch\<close> sets: the unit or
  option code read with \<^verbatim>\<open>CPL_LSBUINT16PTR\<close> and its name when the code has one; the
  minimum, maximum and number of classes; and the source file name, read after the
  last byte of its 256-byte slot is set to \<^verbatim>\<open>'\0'\<close> in the header itself.
\<close>

definition band_unit ::
  "(nat \<Rightarrow> GByte) \<Rightarrow> string \<Rightarrow> nat \<Rightarrow> string \<Rightarrow> (int \<times> string) list
     \<Rightarrow> (string \<times> string) list \<Rightarrow> (string \<times> string) list" where
  "band_unit h unit_key off name_key names md =
     (let nTemp = CPL_LSBUINT16PTR h off;
          md1 = SetMetadataItem unit_key (snprintf_d nTemp) md
      in fold (\<lambda>cn m. if nTemp = fst cn then SetMetadataItem name_key (snd cn) m else m)
              names md1)"

definition band_stats ::
  "(nat \<Rightarrow> GByte) \<Rightarrow> string \<Rightarrow> nat \<Rightarrow> (string \<times> string) list \<Rightarrow> (string \<times> string) list" where
  "band_stats h prefix off md =
     SetMetadataItem (prefix @ ''_NUM_CLASSES'') (snprintf_d (CPL_LSBSINT32PTR h (off + 8)))
       (SetMetadataItem (prefix @ ''_MAX'') (snprintf_d (CPL_LSBSINT32PTR h (off + 4)))
          (SetMetadataItem (prefix @ ''_MIN'') (snprintf_d (CPL_LSBSINT32PTR h off)) md))"

definition band_file ::
  "(nat \<Rightarrow> GByte) \<Rightarrow> string \<Rightarrow> nat \<Rightarrow> (string \<times> string) list
     \<Rightarrow> (nat \<Rightarrow> GByte) \<times> (string \<times> string) list" where
  "band_file h file_key off md =
     (let h' = h(off + 255 := 0)
      in (h', SetMetadataItem file_key (string_at h' off LCP_HEADER_SIZE) md))"

text \<open>The loop of case 4 that collects \<^verbatim>\<open>FUEL_MODEL_VALUES\<close>.\<close>

definition fuel_model_values :: "(nat \<Rightarrow> GByte) \<Rightarrow> int \<Rightarrow> int \<Rightarrow> int \<Rightarrow> string" where
  "fuel_model_values h nMinFM nMaxFM nTemp =
     (if nTemp > 0 \<and> nTemp \<le> 100
      then fold (\<lambda>i osValues.
                   let nTemp2 = CPL_LSBSINT32PTR h (1292 + i * 4)
                   in if nTemp2 \<ge> nMinFM \<and> nTemp2 \<le> nMaxFM
                      then (if osValues \<noteq> [] then osValues @ '','' else osValues)
                             @ snprintf_d nTemp2
                      else osValues)
                [0..<nat nTemp + 1] []
      else [])"

definition plain_band ::
  "(nat \<Rightarrow> GByte) \<Rightarrow> string \<Rightarrow> string \<Rightarrow> nat \<Rightarrow> string \<Rightarrow> (int \<times> string) list
     \<Rightarrow> string \<Rightarrow> nat \<Rightarrow> string \<Rightarrow> nat
     \<Rightarrow> (nat \<Rightarrow> GByte) \<times> string \<times> (string \<times> string) list" where
  "plain_band h desc unit_key unit_off name_key names prefix stats_off file_key file_off =
     (let md = band_stats h prefix stats_off (band_unit h unit_key unit_off name_key names []);
          r = band_file h file_key file_off md
      in (fst r, desc, snd r))"

text \<open>
  The body of the \<^verbatim>\<open>switch (iBand)\<close>: the header after the case, the band's
  description and its metadata.
\<close>

definition Open_band ::
  "bool \<Rightarrow> nat \<Rightarrow> (nat \<Rightarrow> GByte) \<Rightarrow> (nat \<Rightarrow> GByte) \<times> string \<times> (string \<times> string) list" where
  "Open_band bHaveCrownFuels iBand h =
     (if iBand = 1 then
        plain_band h ''Elevation'' ''ELEVATION_UNIT'' 4224 ''ELEVATION_UNIT_NAME''
          [(0, ''Meters''), (1, ''Feet'')] ''ELEVATION'' 44 ''ELEVATION_FILE'' 4244
      else if iBand = 2 then
        plain_band h ''Slope'' ''SLOPE_UNIT'' 4226 ''SLOPE_UNIT_NAME''
          [(0, ''Degrees''), (1, ''Percent'')] ''SLOPE'' 456 ''SLOPE_FILE'' 4500
      else if iBand = 3 then
        plain_band h ''Aspect'' ''ASPECT_UNIT'' 4228 ''ASPECT_UNIT_NAME''
          [(0, ''Grass categories''), (1, ''Grass degrees''), (2, ''Azimuth degrees'')]
          ''ASPECT'' 868 ''ASPECT_FILE'' 4756
      else if iBand = 4 then
        (let md = band_stats h ''FUEL_MODEL'' 1280
                    (band_unit h ''FUEL_MODEL_OPTION'' 4230 ''FUEL_MODEL_OPTION_DESC''
                       [(0, ''no custom models AND no conversion file needed''),
                        (1, ''custom models BUT no conversion file needed''),
                        (2, ''no custom models BUT conversion file needed''),
                        (3, ''custom models AND conversion file needed'')] []);
             md' = SetMetadataItem ''FUEL_MODEL_VALUES''
                     (fuel_model_values h (CPL_LSBSINT32PTR h 1280) (CPL_LSBSINT32PTR h 1284)
                        (CPL_LSBSINT32PTR h 1288)) md;
             r = band_file h ''FUEL_MODEL_FILE'' 5012 md'
         in (fst r, ''Fuel models'', snd r))
      else if iBand = 5 then
        plain_band h ''Canopy cover'' ''CANOPY_COV_UNIT'' 4232 ''CANOPY_COV_UNIT_NAME''
          [(0, ''Categories (0-4)''), (1, ''Percent'')] ''CANOPY_COV'' 1692
          ''CANOPY_COV_FILE'' 5268
      else if iBand = 6 then
        (if bHaveCrownFuels then
           plain_band h ''Canopy height'' ''CANOPY_HT_UNIT'' 4234 ''CANOPY_HT_UNIT_NAME''
             [(1, ''Meters''), (2, ''Feet''), (3, ''Meters x 10''), (4, ''Feet x 10'')]
             ''CANOPY_HT'' 2104 ''CANOPY_HT_FILE'' 5524
         else
           plain_band h ''Duff'' ''DUFF_UNIT'' 4240 ''DUFF_UNIT_NAME''
             [(1, ''Mg/ha''), (2, ''t/ac'')] ''DUFF'' 3340 ''DUFF_FILE'' 6292)
      else if iBand = 7 then
        (if bHaveCrownFuels then
           plain_band h ''Canopy base height'' ''CBH_UNIT'' 4236 ''CBH_UNIT_NAME''
             [(1, ''Meters''), (2, ''Feet''), (3, ''Meters x 10''), (4, ''Feet x 10'')]
             ''CBH'' 2516 ''CBH_FILE'' 5780
         else
           plain_band h ''Coarse woody debris'' ''CWD_OPTION'' 4242 ''CWD_UNIT_DESC''
             [] ''CWD'' 3752 ''CWD_FILE'' 6548)
      else if iBand = 8 then
        plain_band h ''Canopy bulk density'' ''CBD_UNIT'' 4238 ''CBD_UNIT_NAME''
          [(1, ''kg/m^3''), (2, ''lb/ft^3''), (3, ''kg/m^3 x 100''), (4, ''lb/ft^3 x 1000'')]
          ''CBD'' 2928 ''CBD_FILE'' 6036
      else if iBand = 9 then
        plain_band h ''Duff'' ''DUFF_UNIT'' 4240 ''DUFF_UNIT_NAME''
          [(1, ''Mg/ha''), (2, ''t/ac'')] ''DUFF'' 3340 ''DUFF_FILE'' 6292
      else if iBand = 10 then
        plain_band h ''Coarse woody debris'' ''CWD_OPTION'' 4242 ''CWD_UNIT_DESC''
          [] ''CWD'' 3752 ''CWD_FILE'' 6548
      else (h, [], []))"

text \<open>
  The band loop of \<^verbatim>\<open>Open\<close>, over the band numbers still to create: \<open>None\<close> when
  \<^verbatim>\<open>RawRasterBand::Create\<close> returns no band.
\<close>

fun Open_bands ::
  "services \<Rightarrow> bool \<Rightarrow> int \<Rightarrow> int \<Rightarrow> nat list \<Rightarrow> (nat \<Rightarrow> GByte) \<Rightarrow> LCPBand list
     \<Rightarrow> ((nat \<Rightarrow> GByte) \<times> LCPBand list) option" where
  "Open_bands sv bHaveCrownFuels iPixelSize nWidth [] h bands = Some (h, bands)"
| "Open_bands sv bHaveCrownFuels iPixelSize nWidth (iBand # rest) h bands =
     (if RawRasterBand_Create sv (int iBand) (int LCP_HEADER_SIZE + (int iBand - 1) * 2)
           iPixelSize (iPixelSize * nWidth)
      then (let r = Open_band bHaveCrownFuels iBand h
            in Open_bands sv bHaveCrownFuels iPixelSize nWidth rest (fst r)
                 (bands @ [\<lparr>band_description = fst (snd r),
                             band_metadata = snd (snd r),
                             nImgOffset = int LCP_HEADER_SIZE + (int iBand - 1) * 2,
                             nPixelOffset = iPixelSize,
                             nLineOffset = iPixelSize * nWidth\<rparr>]))
      else None)"

text \<open>The number of bands \<^verbatim>\<open>Open\<close> derives from the two flags.\<close>

definition Open_nBands :: "bool \<Rightarrow> bool \<Rightarrow> int" where
  "Open_nBands bHaveCrownFuels bHaveGroundFuels =
     (if bHaveCrownFuels
      then (if bHaveGroundFuels then 10 else 8)
      else (if bHaveGroundFuels then 7 else 5))"

text \<open>The band numbers \<^verbatim>\<open>for (int iBand = 1; iBand <= nBands; iBand++)\<close> visits.\<close>

definition band_numbers :: "int \<Rightarrow> nat list" where
  "band_numbers nBands = [1..<nat nBands + 1]"

text \<open>The dataset-level metadata \<^verbatim>\<open>Open\<close> sets from the header it has read.\<close>

definition Open_metadata :: "(nat \<Rightarrow> GByte) \<Rightarrow> (string \<times> string) list" where
  "Open_metadata h0 =
     (let md1 = SetMetadataItem ''LATITUDE'' (snprintf_d (CPL_LSBSINT32PTR h0 8)) [];
          nTemp = CPL_LSBSINT32PTR h0 4204;
          md2 = (if nTemp = 0 then SetMetadataItem ''LINEAR_UNIT'' ''Meters'' md1 else md1);
          md3 = (if nTemp = 1 then SetMetadataItem ''LINEAR_UNIT'' ''Feet'' md2 else md2);
          h1 = h0(LCP_HEADER_SIZE - 1 := 0)
      in SetMetadataItem ''DESCRIPTION'' (string_at h1 6804 LCP_HEADER_SIZE) md3)"

text \<open>
  \<^verbatim>\<open>Open\<close> from the point where the header is in \<^verbatim>\<open>pachHeader\<close>, up to the end of
  the band loop; \<open>None\<close> is \<^verbatim>\<open>nullptr\<close>. What follows in the source (the
  projection file, the PAM information and the overviews) has no failing path and
  sets nothing the header holds. The 32-bit fields are read as \<open>int\<close>;
  \<^verbatim>\<open>nWidth > INT_MAX / iPixelSize\<close> is the source's own overflow guard.
\<close>

definition Open_header :: "services \<Rightarrow> VSILFILE \<Rightarrow> (nat \<Rightarrow> GByte) \<Rightarrow> LCPDataset option" where
  "Open_header sv fp h0 =
     (let nWidth = CPL_LSBSINT32PTR h0 4164;
          nHeight = CPL_LSBSINT32PTR h0 4168
      in if GDALCheckDatasetDimensions nWidth nHeight then
           (let bHaveCrownFuels = CPL_TO_BOOL (CPL_LSBSINT32PTR h0 0 - 20);
                bHaveGroundFuels = CPL_TO_BOOL (CPL_LSBSINT32PTR h0 4 - 20);
                nBands = Open_nBands bHaveCrownFuels bHaveGroundFuels;
                md = Open_metadata h0;
                h1 = h0(LCP_HEADER_SIZE - 1 := 0);
                iPixelSize = nBands * 2
            in if nWidth > INT_MAX div iPixelSize then None
               else
                 (case Open_bands sv bHaveCrownFuels iPixelSize nWidth
                         (band_numbers nBands) h1 [] of
                    None \<Rightarrow> None
                  | Some r \<Rightarrow>
                      Some \<lparr>pachHeader = fst r,
                            nRasterXSize = nWidth,
                            nRasterYSize = nHeight,
                            papoBands = snd r,
                            ds_metadata = md,
                            fpImage = fp\<rparr>))
         else None)"

text \<open>\<^verbatim>\<open>Open\<close>: the checks before the header is read, and the read itself.\<close>

definition Open :: "services \<Rightarrow> GDALOpenInfo \<Rightarrow> LCPDataset option" where
  "Open sv poOpenInfo =
     (if Identify poOpenInfo then
        (case fpL poOpenInfo of
           None \<Rightarrow> None
         | Some fp \<Rightarrow>
             if eAccess poOpenInfo = GA_Update then None
             else
               (let rd = VSIFReadL LCP_HEADER_SIZE (VSIFSeekL_SET 0 fp)
                in if fst rd = LCP_HEADER_SIZE then Open_header sv fp (snd rd) else None))
      else None)"

text \<open>
  The six locals \<^verbatim>\<open>GetGeoTransform\<close> copies out of the header, and the transform it
  returns: the origin is (west, north) and the vertical cell size is negated.
\<close>

record geo_fields =
  dfEast :: double
  dfWest :: double
  dfNorth :: double
  dfSouth :: double
  dfCellX :: double
  dfCellY :: double

definition header_geo_fields :: "LCPDataset \<Rightarrow> geo_fields" where
  "header_geo_fields poDS =
     \<lparr>dfEast = LSBPTR64_at (pachHeader poDS) 4172,
      dfWest = LSBPTR64_at (pachHeader poDS) 4180,
      dfNorth = LSBPTR64_at (pachHeader poDS) 4188,
      dfSouth = LSBPTR64_at (pachHeader poDS) 4196,
      dfCellX = LSBPTR64_at (pachHeader poDS) 4208,
      dfCellY = LSBPTR64_at (pachHeader poDS) 4216\<rparr>"

record GDALGeoTransform =
  gt0 :: double
  gt1 :: double
  gt2 :: double
  gt3 :: double
  gt4 :: double
  gt5 :: double

definition GetGeoTransform :: "services \<Rightarrow> LCPDataset \<Rightarrow> GDALGeoTransform" where
  "GetGeoTransform sv poDS =
     (let g = header_geo_fields poDS
      in \<lparr>gt0 = dfWest g, gt1 = dfCellX g, gt2 = 0, gt3 = dfNorth g, gt4 = 0,
           gt5 = fp_mul sv (fp_of_int sv (- 1)) (dfCellY g)\<rparr>)"

text \<open>
  \<^verbatim>\<open>GDALOpenInfo\<close> fills \<^verbatim>\<open>pabyHeader\<close> with the first bytes of the file it
  opened. Of that, the reader relies on the twelve bytes \<^verbatim>\<open>Identify\<close> looks at.
\<close>

definition openinfo_wf :: "GDALOpenInfo \<Rightarrow> bool" where
  "openinfo_wf poOpenInfo =
     (case fpL poOpenInfo of
        None \<Rightarrow> True
      | Some fp \<Rightarrow> list_all (\<lambda>i. pabyHeader poOpenInfo i = vsi_data fp i) [0..<12])"

text \<open>The band count that goes with the two flag fields (21: present, 20: absent).\<close>

definition flag_band_count :: "int \<Rightarrow> int \<Rightarrow> int" where
  "flag_band_count crown ground =
     (if crown = 21 then (if ground = 21 then 10 else 8)
      else (if ground = 21 then 7 else 5))"

text \<open>
  Example inputs: services whose \<^verbatim>\<open>double\<close> operations are stand-ins on the bit
  patterns (the theorems hold for every choice), and a file of one pixel in five
  bands whose header holds the flags 20 and 20, the given latitude byte and the
  size 1 x 1, with the open-info \<^verbatim>\<open>GDALOpenInfo\<close> builds for it.
\<close>

definition example_services :: services where
  "example_services =
     \<lparr>fp_add = (\<lambda>a b. a + b), fp_mul = (\<lambda>a b. a * b), fp_div = (\<lambda>a b. a),
      fp_fabs = (\<lambda>a. a), fp_of_int = word_of_int, fp_to_GInt32 = ucast,
      CPLAtof = (\<lambda>s. 0),
      RawRasterBand_Create = (\<lambda>iBand nImgOffset nPixelOffset nLineOffset. True),
      OGRCreateCoordinateTransformation = (\<lambda>srs. None),
      VSIFOpenL_succeeds = (\<lambda>pszFilename. True),
      pfnProgress = (\<lambda>dfComplete. True),
      CPLAssert_active = True\<rparr>"

definition example_file :: "GByte \<Rightarrow> VSILFILE" where
  "example_file lat =
     \<lparr>vsi_data = (\<lambda>i. 0)(0 := 20, 4 := 20, 8 := lat, 4164 := 1, 4168 := 1),
      vsi_size = 7326, vsi_offset = 0\<rparr>"

definition example_openinfo :: "GByte \<Rightarrow> GDALOpenInfo" where
  "example_openinfo lat =
     \<lparr>osExtension = ''lcp'', eAccess = GA_ReadOnly,
      nHeaderBytes = 1024, pabyHeader = vsi_data (example_file lat),
      fpL = Some (example_file lat)\<rparr>"

section \<open>ClassifyBandData\<close>

text \<open>
  A raster band as the classifier sees it: \<^verbatim>\<open>GetYSize()\<close> lines, each delivered by
  \<^verbatim>\<open>RasterIO\<close> as \<^verbatim>\<open>GetXSize()\<close> values of type \<^verbatim>\<open>GInt16\<close>, or not delivered
  (\<open>None\<close>: \<^verbatim>\<open>RasterIO\<close> returned an error for that line).
\<close>

record GDALRasterBand =
  lines :: "GInt16 list option list"

definition MIN_VAL :: int where "MIN_VAL = - 32768"
definition MAX_VAL :: int where "MAX_VAL = 32767"
definition RANGE_VAL :: nat where "RANGE_VAL = nat (MAX_VAL - MIN_VAL + 1)"
definition OFFSET :: int where "OFFSET = - MIN_VAL"

text \<open>The locals of \<^verbatim>\<open>ClassifyBandData\<close> that the two loops update.\<close>

record classify_state =
  nFound :: int
  bTooMany :: bool
  pabyFlags :: "GByte list"

text \<open>
  The inner loop over the pixels of one line. \<^verbatim>\<open>continue\<close> on the value -9999,
  \<^verbatim>\<open>break\<close> with \<^verbatim>\<open>nFound = -1\<close> when \<^verbatim>\<open>nFound == LCP_MAX_CLASSES\<close>, otherwise
  flag the value at index \<^verbatim>\<open>panValues[iPixel] + OFFSET\<close>.
\<close>

fun scan_pixels :: "GInt16 list \<Rightarrow> classify_state \<Rightarrow> classify_state" where
  "scan_pixels [] s = s"
| "scan_pixels (v # vs) s =
     (if sint v = - 9999 then scan_pixels vs s
      else if nFound s = int LCP_MAX_CLASSES then s\<lparr>nFound := - 1, bTooMany := True\<rparr>
      else if pabyFlags s ! nat (sint v + OFFSET) = 0
        then scan_pixels vs
               (s\<lparr>nFound := nFound s + 1,
                  pabyFlags := (pabyFlags s)[nat (sint v + OFFSET) := 1]\<rparr>)
      else scan_pixels vs s)"

text \<open>
  The outer loop over the lines: a failed \<^verbatim>\<open>RasterIO\<close> leaves the loop with its
  error, and so does \<^verbatim>\<open>bTooMany\<close>.
\<close>

fun scan_lines :: "GInt16 list option list \<Rightarrow> classify_state \<Rightarrow> CPLErr \<times> classify_state" where
  "scan_lines [] s = (CE_None, s)"
| "scan_lines (None # ls) s = (CE_Failure, s)"
| "scan_lines (Some panValues # ls) s =
     (let s' = scan_pixels panValues s
      in if bTooMany s' then (CE_None, s') else scan_lines ls s')"

text \<open>
  The result is the returned \<^verbatim>\<open>CPLErr\<close>, the value stored in \<^verbatim>\<open>nNumClasses\<close>, and
  the values stored through \<^verbatim>\<open>panClasses\<close>, from index 0 on (\<open>None\<close> when the
  function stores nothing there). The last loop stores the flag index \<^verbatim>\<open>j\<close> itself.
\<close>

definition ClassifyBandData :: "GDALRasterBand \<Rightarrow> CPLErr \<times> int \<times> int list option" where
  "ClassifyBandData poBand =
     (let r = scan_lines (lines poBand)
                \<lparr>nFound = 0, bTooMany = False, pabyFlags = replicate RANGE_VAL 0\<rparr>;
          eErr = fst r;
          s = snd r;
          panClasses =
            (if bTooMany s then None
             else Some (0 # map int (filter (\<lambda>j. pabyFlags s ! j = 1) [0..<RANGE_VAL])))
      in (eErr, nFound s, panClasses))"

section \<open>The classifier on the set of values seen\<close>

text \<open>
  The same scan with the flag array read as the set of values flagged so far;
  \<open>None\<close> is the \<^verbatim>\<open>bTooMany\<close> exit.
\<close>

fun seen_scan :: "GInt16 list \<Rightarrow> GInt16 set \<Rightarrow> GInt16 set option" where
  "seen_scan [] F = Some F"
| "seen_scan (v # vs) F =
     (if sint v = - 9999 then seen_scan vs F
      else if card F = LCP_MAX_CLASSES then None
      else seen_scan vs (insert v F))"

definition flag_index :: "GInt16 \<Rightarrow> nat" where
  "flag_index v = nat (sint v + OFFSET)"

definition flags_of :: "classify_state \<Rightarrow> GInt16 set" where
  "flags_of s = {v. pabyFlags s ! flag_index v = 1}"

definition flags_ok :: "classify_state \<Rightarrow> GInt16 set \<Rightarrow> bool" where
  "flags_ok s F =
     (\<not> bTooMany s \<and> length (pabyFlags s) = RANGE_VAL \<and> flags_of s = F
      \<and> nFound s = int (card F)
      \<and> list_all (\<lambda>b. b = 0 \<or> b = 1) (pabyFlags s))"

definition valid_pixels :: "GInt16 list \<Rightarrow> GInt16 list" where
  "valid_pixels vs = filter (\<lambda>v. sint v \<noteq> - 9999) vs"

text \<open>Every pixel value that \<^verbatim>\<open>RasterIO\<close> delivers for the band.\<close>

definition pixels_of :: "GDALRasterBand \<Rightarrow> GInt16 set" where
  "pixels_of poBand =
     set (concat (map (\<lambda>l. case l of None \<Rightarrow> [] | Some panValues \<Rightarrow> panValues)
                      (lines poBand)))"

section \<open>CreateCopy: the source dataset and the outcome\<close>

text \<open>
  The source dataset as \<^verbatim>\<open>CreateCopy\<close> asks it. A band gives its data type, what
  \<^verbatim>\<open>GetStatistics\<close> returns (minimum and maximum, or \<open>None\<close> for an error) and its
  lines of pixels; the dataset gives its size, its geotransform, its spatial
  reference (\<open>None\<close> for \<^verbatim>\<open>nullptr\<close>) and the first entry of its file list,
  \<^verbatim>\<open>papszFileList[0]\<close> (\<open>None\<close> when \<^verbatim>\<open>GetFileList\<close> returns \<^verbatim>\<open>nullptr\<close>).
\<close>

record GDALSrcBand =
  eDataType :: GDALDataType
  GetStatistics :: "(double \<times> double) option"
  pixels :: GDALRasterBand

record GDALDataset =
  src_bands :: "GDALSrcBand list"
  src_XSize :: int
  src_YSize :: int
  srcGT :: GDALGeoTransform
  poSrcSRS :: "OGRSpatialReference option"
  papszFileList :: "string option"

text \<open>
  How a call of \<^verbatim>\<open>CreateCopy\<close> ends: it returns a dataset or \<^verbatim>\<open>nullptr\<close>; or, in a
  debug build, a \<^verbatim>\<open>CPLAssert\<close> on the position of the write cursor fails (with that
  position); or it stores class values past the end of \<^verbatim>\<open>panClasses\<close>, which C
  leaves undefined. The result also holds the \<^verbatim>\<open>CPLError\<close> calls in order (class
  and format string) and the output file (\<open>None\<close> when \<^verbatim>\<open>VSIFOpenL\<close> was not
  reached or returned \<^verbatim>\<open>nullptr\<close>).
\<close>

datatype cc_outcome =
  Returned "LCPDataset option"
  | Assert_failed nat
  | Write_past_panClasses

record CreateCopy_result =
  cpl_errors :: "(CPLErr \<times> string) list"
  out_file :: "VSILFILE option"
  outcome :: cc_outcome

text \<open>
  A step of the preparation before the file is opened: the \<^verbatim>\<open>CPLError\<close> calls it
  makes, and either its value or the way \<^verbatim>\<open>CreateCopy\<close> ends there.
\<close>

type_synonym 'a step = "(CPLErr \<times> string) list \<times> (cc_outcome + 'a)"

definition then_step :: "'a step \<Rightarrow> ('a \<Rightarrow> 'b step) \<Rightarrow> 'b step" where
  "then_step r f =
     (case snd r of
        Inl e \<Rightarrow> (fst r, Inl e)
      | Inr x \<Rightarrow> (fst r @ fst (f x), snd (f x)))"

definition failure :: "string \<Rightarrow> 'a step" where
  "failure msg = ([(CE_Failure, msg)], Inl (Returned None))"

definition warning :: "string \<Rightarrow> 'a \<Rightarrow> 'a step" where
  "warning msg x = ([(CE_Warning, msg)], Inr x)"

definition proceed :: "'a \<Rightarrow> 'a step" where
  "proceed x = ([], Inr x)"

section \<open>CreateCopy: verifying the input options\<close>

definition check_bands :: "int \<Rightarrow> unit step" where
  "check_bands nBands =
     (if nBands \<noteq> 5 \<and> nBands \<noteq> 7 \<and> nBands \<noteq> 8 \<and> nBands \<noteq> 10
      then failure ''LCP driver doesn't support %d bands.  Must be 5, 7, 8 or 10 bands.''
      else proceed ())"

text \<open>
  \<^verbatim>\<open>poSrcDS->GetRasterBand(1)->GetRasterDataType()\<close>; the band count is 5 or more
  here, so the first band exists.
\<close>

definition check_type :: "GDALDataset \<Rightarrow> bool \<Rightarrow> unit step" where
  "check_type poSrcDS bStrict =
     (let eType = (case src_bands poSrcDS of [] \<Rightarrow> GDT_Unknown | b # bs \<Rightarrow> eDataType b)
      in if eType \<noteq> GDT_Int16 \<and> bStrict
         then failure ''LCP only supports 16-bit signed integer data types.''
         else if eType \<noteq> GDT_Int16
         then warning ''Setting data type to 16-bit integer.'' ()
         else proceed ())"

text \<open>
  The code each unit or option value stands for, one \<^verbatim>\<open>if\<close> chain of the source each;
  \<open>None\<close> is the final \<^verbatim>\<open>else\<close>, where the source reports the value as invalid.
\<close>

definition ELEVATION_UNIT_code :: "string \<Rightarrow> GInt16 option" where
  "ELEVATION_UNIT_code pszTemp =
     (if STARTS_WITH_CI pszTemp ''METER'' then Some 0
      else if EQUAL pszTemp ''FEET'' \<or> EQUAL pszTemp ''FOOT'' then Some 1
      else None)"

definition SLOPE_UNIT_code :: "string \<Rightarrow> GInt16 option" where
  "SLOPE_UNIT_code pszTemp =
     (if EQUAL pszTemp ''DEGREES'' then Some 0
      else if EQUAL pszTemp ''PERCENT'' then Some 1
      else None)"

definition ASPECT_UNIT_code :: "string \<Rightarrow> GInt16 option" where
  "ASPECT_UNIT_code pszTemp =
     (if EQUAL pszTemp ''GRASS_CATEGORIES'' then Some 0
      else if EQUAL pszTemp ''GRASS_DEGREES'' then Some 1
      else if EQUAL pszTemp ''AZIMUTH_DEGREES'' then Some 2
      else None)"

definition FUEL_MODEL_OPTION_code :: "string \<Rightarrow> GInt16 option" where
  "FUEL_MODEL_OPTION_code pszTemp =
     (if EQUAL pszTemp ''NO_CUSTOM_AND_NO_FILE'' then Some 0
      else if EQUAL pszTemp ''CUSTOM_AND_NO_FILE'' then Some 1
      else if EQUAL pszTemp ''NO_CUSTOM_AND_FILE'' then Some 2
      else if EQUAL pszTemp ''CUSTOM_AND_FILE'' then Some 3
      else None)"

definition CANOPY_COV_UNIT_code :: "string \<Rightarrow> GInt16 option" where
  "CANOPY_COV_UNIT_code pszTemp =
     (if EQUAL pszTemp ''CATEGORIES'' then Some 0
      else if EQUAL pszTemp ''PERCENT'' then Some 1
      else None)"

text \<open>The chain \<^verbatim>\<open>CANOPY_HT_UNIT\<close> and \<^verbatim>\<open>CBH_UNIT\<close> share.\<close>

definition height_unit_code :: "string \<Rightarrow> GInt16 option" where
  "height_unit_code pszTemp =
     (if EQUAL pszTemp ''METERS'' \<or> EQUAL pszTemp ''METER'' then Some 1
      else if EQUAL pszTemp ''FEET'' \<or> EQUAL pszTemp ''FOOT'' then Some 2
      else if EQUAL pszTemp ''METERS_X_10'' \<or> EQUAL pszTemp ''METER_X_10'' then Some 3
      else if EQUAL pszTemp ''FEET_X_10'' \<or> EQUAL pszTemp ''FOOT_X_10'' then Some 4
      else None)"

definition CBD_UNIT_code :: "string \<Rightarrow> GInt16 option" where
  "CBD_UNIT_code pszTemp =
     (if EQUAL pszTemp ''KG_PER_CUBIC_METER'' then Some 1
      else if EQUAL pszTemp ''POUND_PER_CUBIC_FOOT'' then Some 2
      else if EQUAL pszTemp ''KG_PER_CUBIC_METER_X_100'' then Some 3
      else if EQUAL pszTemp ''POUND_PER_CUBIC_FOOT_X_1000'' then Some 4
      else None)"

definition DUFF_UNIT_code :: "string \<Rightarrow> GInt16 option" where
  "DUFF_UNIT_code pszTemp =
     (if EQUAL pszTemp ''MG_PER_HECTARE_X_10'' then Some 1
      else if EQUAL pszTemp ''TONS_PER_ACRE_X_10'' then Some 2
      else None)"

text \<open>
  One block of the source for a unit or option: fetch the value (or its default),
  store its code in \<^verbatim>\<open>panMetadata[i]\<close>, or report it and return \<^verbatim>\<open>nullptr\<close>.
\<close>

definition unit_option ::
  "(string \<times> string) list \<Rightarrow> string \<Rightarrow> string \<Rightarrow> (string \<Rightarrow> GInt16 option) \<Rightarrow> nat
     \<Rightarrow> string \<Rightarrow> GInt16 list \<Rightarrow> GInt16 list step" where
  "unit_option papszOptions key pszDefault code i msg panMetadata =
     (case code (CSLFetchNameValueDef papszOptions key pszDefault) of
        None \<Rightarrow> failure msg
      | Some c \<Rightarrow> proceed (panMetadata[i := c]))"

text \<open>
  The blocks in the order of the source, from the default \<^verbatim>\<open>panMetadata\<close>: five for
  every file, three more when there are crown fuels, and with ground fuels the
  \<^verbatim>\<open>DUFF_UNIT\<close> block and \<^verbatim>\<open>panMetadata[9] = 1\<close>.
\<close>

definition crown_unit_options :: "(string \<times> string) list \<Rightarrow> GInt16 list \<Rightarrow> GInt16 list step" where
  "crown_unit_options papszOptions pm =
     then_step (unit_option papszOptions ''CANOPY_HT_UNIT'' ''METERS_X_10'' height_unit_code 5
                  ''Invalid value (%s) for CANOPY_HT_UNIT.'' pm) (\<lambda>pm.
     then_step (unit_option papszOptions ''CBH_UNIT'' ''METERS_X_10'' height_unit_code 6
                  ''Invalid value (%s) for CBH_UNIT.'' pm) (\<lambda>pm.
     unit_option papszOptions ''CBD_UNIT'' ''KG_PER_CUBIC_METER_X_100'' CBD_UNIT_code 7
       ''Invalid value (%s) for CBD_UNIT.'' pm))"

definition ground_unit_options :: "(string \<times> string) list \<Rightarrow> GInt16 list \<Rightarrow> GInt16 list step" where
  "ground_unit_options papszOptions pm =
     then_step (unit_option papszOptions ''DUFF_UNIT'' ''MG_PER_HECTARE_X_10'' DUFF_UNIT_code 8
                  ''Invalid value (%s) for DUFF_UNIT.'' pm) (\<lambda>pm.
     proceed (pm[9 := 1]))"

definition unit_options :: "bool \<Rightarrow> bool \<Rightarrow> (string \<times> string) list \<Rightarrow> GInt16 list step" where
  "unit_options bHaveCrownFuels bHaveGroundFuels papszOptions =
     then_step (unit_option papszOptions ''ELEVATION_UNIT'' ''METERS'' ELEVATION_UNIT_code 0
                  ''Invalid value (%s) for ELEVATION_UNIT.'' [0, 0, 2, 0, 1, 3, 3, 3, 1, 0]) (\<lambda>pm.
     then_step (unit_option papszOptions ''SLOPE_UNIT'' ''DEGREES'' SLOPE_UNIT_code 1
                  ''Invalid value (%s) for SLOPE_UNIT.'' pm) (\<lambda>pm.
     then_step (unit_option papszOptions ''ASPECT_UNIT'' ''AZIMUTH_DEGREES'' ASPECT_UNIT_code 2
                  ''Invalid value (%s) for ASPECT_UNIT.'' pm) (\<lambda>pm.
     then_step (unit_option papszOptions ''FUEL_MODEL_OPTION'' ''NO_CUSTOM_AND_NO_FILE''
                  FUEL_MODEL_OPTION_code 3 ''Invalid value (%s) for FUEL_MODEL_OPTION.'' pm) (\<lambda>pm.
     then_step (unit_option papszOptions ''CANOPY_COV_UNIT'' ''PERCENT'' CANOPY_COV_UNIT_code 4
                  ''Invalid value (%s) for CANOPY_COV_UNIT.'' pm) (\<lambda>pm.
     then_step (if bHaveCrownFuels then crown_unit_options papszOptions pm else proceed pm) (\<lambda>pm.
     if bHaveGroundFuels then ground_unit_options papszOptions pm else proceed pm))))))"

text \<open>\<^verbatim>\<open>CALCULATE_STATS\<close> and \<^verbatim>\<open>CLASSIFY_DATA\<close>: the pair (bCalculateStats, bClassifyData).\<close>

definition stats_options :: "(string \<times> string) list \<Rightarrow> (bool \<times> bool) step" where
  "stats_options papszOptions =
     (let bCalculateStats = CPLFetchBool papszOptions ''CALCULATE_STATS'' True;
          bClassifyData = CPLFetchBool papszOptions ''CLASSIFY_DATA'' True
      in if bClassifyData \<and> \<not> bCalculateStats
         then warning (''Ignoring request to not calculate statistics, ''
                       @ ''because CLASSIFY_DATA was set to ON'') (True, bClassifyData)
         else proceed (bCalculateStats, bClassifyData))"

text \<open>
  \<^verbatim>\<open>LINEAR_UNIT\<close>: the pair (nLinearUnits, bSetLinearUnits). A value that matches
  no branch leaves both at their initial values 0 and false.
\<close>

definition linear_unit_option :: "(string \<times> string) list \<Rightarrow> int \<times> bool" where
  "linear_unit_option papszOptions =
     (let pszTemp = CSLFetchNameValueDef papszOptions ''LINEAR_UNIT'' ''SET_FROM_SRS''
      in if EQUAL pszTemp ''SET_FROM_SRS'' then (0, True)
         else if STARTS_WITH_CI pszTemp ''METER'' then (0, False)
         else if EQUAL pszTemp ''FOOT'' \<or> EQUAL pszTemp ''FEET'' then (1, False)
         else if STARTS_WITH_CI pszTemp ''KILOMETER'' then (2, False)
         else (0, False))"

text \<open>\<^verbatim>\<open>LATITUDE\<close>: the pair (bCalculateLatitude, nLatitude).\<close>

definition latitude_option :: "(string \<times> string) list \<Rightarrow> (bool \<times> int) step" where
  "latitude_option papszOptions =
     (case CSLFetchNameValue papszOptions ''LATITUDE'' of
        None \<Rightarrow> proceed (True, 0)
      | Some v \<Rightarrow>
          if atoi v > 90 \<or> atoi v < - 90
          then failure ''Invalid value (%d) for LATITUDE.''
          else proceed (False, atoi v))"

text \<open>
  The latitude: the option's, or that of the point (0, top + height / 2) taken
  through the coordinate transformation. Without a spatial reference, or when
  \<^verbatim>\<open>Transform\<close> fails, \<^verbatim>\<open>CreateCopy\<close> returns \<^verbatim>\<open>nullptr\<close>; when no transformation
  can be created, \<^verbatim>\<open>dfLatitude\<close> keeps its initial value 0.0.
\<close>

definition latitude_step :: "services \<Rightarrow> GDALDataset \<Rightarrow> bool \<times> int \<Rightarrow> double step" where
  "latitude_step sv poSrcDS lat =
     (if \<not> fst lat then proceed (fp_of_int sv (snd lat))
      else
        (case poSrcSRS poSrcDS of
           Some srs \<Rightarrow>
             (case OGRCreateCoordinateTransformation sv srs of
                Some poCT \<Rightarrow>
                  (case poCT 0
                          (fp_add sv (gt3 (srcGT poSrcDS))
                             (fp_div sv
                                (fp_mul sv (gt5 (srcGT poSrcDS)) (fp_of_int sv (src_YSize poSrcDS)))
                                (fp_of_int sv 2))) of
                     None \<Rightarrow>
                       failure (''Could not calculate latitude from spatial ''
                                @ ''reference and LATITUDE was not set.'')
                   | Some xy \<Rightarrow> proceed (snd xy))
              | None \<Rightarrow> proceed 0)
         | None \<Rightarrow>
             failure (''Could not calculate latitude from spatial reference ''
                      @ ''and LATITUDE was not set.'')))"

text \<open>
  The linear unit when \<^verbatim>\<open>LINEAR_UNIT\<close> was not given or is \<^verbatim>\<open>SET_FROM_SRS\<close>: from the
  \<^verbatim>\<open>UNIT\<close> node of the spatial reference. The unit scale must be the \<^verbatim>\<open>double\<close>
  1.0, which has one bit pattern.
\<close>

definition srs_unit_name :: "bool \<Rightarrow> int \<Rightarrow> string \<Rightarrow> int" where
  "srs_unit_name bStrict nLinearUnits pszUnit =
     (if EQUAL pszUnit ''meter'' \<or> EQUAL pszUnit ''metre'' then 0
      else if EQUAL pszUnit ''feet'' \<or> EQUAL pszUnit ''foot'' then 1
      else if STARTS_WITH_CI pszUnit ''kilomet'' then 2
      else if bStrict then 0 else nLinearUnits)"

definition linear_unit_step ::
  "services \<Rightarrow> GDALDataset \<Rightarrow> bool \<Rightarrow> int \<times> bool \<Rightarrow> int step" where
  "linear_unit_step sv poSrcDS bStrict lu =
     (if snd lu then
        (case poSrcSRS poSrcDS of
           Some srs \<Rightarrow>
             (case UNIT_0 srs of
                None \<Rightarrow>
                  if bStrict then failure ''Could not parse linear unit.''
                  else warning ''Could not parse linear unit, using meters'' 0
              | Some pszUnit \<Rightarrow>
                  (case UNIT_1 srs of
                     None \<Rightarrow> proceed (srs_unit_name bStrict (fst lu) pszUnit)
                   | Some pszScale \<Rightarrow>
                       if CPLAtof sv pszScale = double_one
                       then proceed (srs_unit_name bStrict (fst lu) pszUnit)
                       else if bStrict
                       then failure ''Unit scale is %lf (!=1.0). It is not supported.''
                       else warning ''Unit scale is %lf (!=1.0). It is not supported, ignoring.''
                              (srs_unit_name bStrict (fst lu) pszUnit)))
         | None \<Rightarrow>
             if bStrict
             then failure (''Could not parse linear unit from spatial reference ''
                           @ ''and LINEAR_UNIT was not set.'')
             else warning (''Could not parse linear unit from spatial reference ''
                           @ ''and LINEAR_UNIT was not set, defaulting to meters.'') 0)
      else proceed (fst lu))"

section \<open>CreateCopy: statistics and classes\<close>

text \<open>
  The arrays the band loop fills: \<^verbatim>\<open>padfMin\<close>, \<^verbatim>\<open>padfMax\<close>, \<^verbatim>\<open>panFound\<close> (by band)
  and \<^verbatim>\<open>panClasses\<close> (\<^verbatim>\<open>LCP_MAX_CLASSES\<close> entries a band).
\<close>

record band_stats_arrays =
  padfMin :: "double list"
  padfMax :: "double list"
  panFound :: "int list"
  panClasses :: "int list"

text \<open>
  \<^verbatim>\<open>ClassifyBandData\<close> stores through \<^verbatim>\<open>panClasses + i * LCP_MAX_CLASSES\<close>: the values
  land at that offset of the whole array, also past the band's own 100 entries; past
  the end of the array the store is undefined (\<open>None\<close>).
\<close>

definition store_classes :: "int list \<Rightarrow> nat \<Rightarrow> int list \<Rightarrow> int list option" where
  "store_classes arr off vals =
     (if off + length vals \<le> length arr
      then Some (take off arr @ vals @ drop (off + length vals) arr)
      else None)"

definition stats_band :: "bool \<Rightarrow> nat \<Rightarrow> GDALSrcBand \<Rightarrow> band_stats_arrays \<Rightarrow> band_stats_arrays step" where
  "stats_band bClassifyData i poBand a =
     then_step
       (case GetStatistics poBand of
          None \<Rightarrow> warning ''Failed to properly calculate statistics on band %d''
                    (a\<lparr>padfMin := (padfMin a)[i := 0], padfMax := (padfMax a)[i := 0]\<rparr>)
        | Some mm \<Rightarrow> proceed (a\<lparr>padfMin := (padfMin a)[i := fst mm],
                                  padfMax := (padfMax a)[i := snd mm]\<rparr>))
       (\<lambda>a. if bClassifyData then
               (let r = ClassifyBandData (pixels poBand);
                    a' = a\<lparr>panFound := (panFound a)[i := fst (snd r)]\<rparr>
                in then_step
                     (case snd (snd r) of
                        None \<Rightarrow> proceed a'
                      | Some vals \<Rightarrow>
                          (case store_classes (panClasses a') (i * LCP_MAX_CLASSES) vals of
                             None \<Rightarrow> ([], Inl Write_past_panClasses)
                           | Some pc \<Rightarrow> proceed (a'\<lparr>panClasses := pc\<rparr>)))
                     (\<lambda>a. if fst r \<noteq> CE_None
                          then warning ''Failed to classify band data on band %d.'' a
                          else proceed a))
             else proceed a)"

fun stats_loop :: "bool \<Rightarrow> nat \<Rightarrow> GDALSrcBand list \<Rightarrow> band_stats_arrays \<Rightarrow> band_stats_arrays step" where
  "stats_loop bClassifyData i [] a = proceed a"
| "stats_loop bClassifyData i (poBand # rest) a =
     then_step (stats_band bClassifyData i poBand a) (stats_loop bClassifyData (i + 1) rest)"

definition stats_step :: "GDALDataset \<Rightarrow> bool \<times> bool \<Rightarrow> band_stats_arrays step" where
  "stats_step poSrcDS sc =
     (let nBands = length (src_bands poSrcDS);
          a = \<lparr>padfMin = replicate nBands 0, padfMax = replicate nBands 0,
               panFound = replicate nBands 0,
               panClasses = replicate (nBands * LCP_MAX_CLASSES) 0\<rparr>
      in if fst sc then stats_loop (snd sc) 0 (src_bands poSrcDS) a else proceed a)"

text \<open>Everything \<^verbatim>\<open>CreateCopy\<close> has settled when it opens the output file.\<close>

record header_plan =
  bHaveCrownFuels :: bool
  bHaveGroundFuels :: bool
  panMetadata :: "GInt16 list"
  bCalculateStats :: bool
  bClassifyData :: bool
  nLinearUnits :: int
  dfLatitude :: double
  pszDescription :: string
  stats :: band_stats_arrays

definition CreateCopy_prepare ::
  "services \<Rightarrow> GDALDataset \<Rightarrow> bool \<Rightarrow> (string \<times> string) list \<Rightarrow> header_plan step" where
  "CreateCopy_prepare sv poSrcDS bStrict papszOptions =
     (let nBands = int (length (src_bands poSrcDS));
          crown = (nBands = 8 \<or> nBands = 10);
          ground = (nBands = 7 \<or> nBands = 10)
      in then_step (check_bands nBands) (\<lambda>u.
         then_step (check_type poSrcDS bStrict) (\<lambda>u.
         then_step (unit_options crown ground papszOptions) (\<lambda>pm.
         then_step (stats_options papszOptions) (\<lambda>sc.
         then_step (latitude_option papszOptions) (\<lambda>lat.
         then_step (latitude_step sv poSrcDS lat) (\<lambda>dfLat.
         then_step (linear_unit_step sv poSrcDS bStrict (linear_unit_option papszOptions)) (\<lambda>nLU.
         then_step (stats_step poSrcDS sc) (\<lambda>a.
         proceed \<lparr>bHaveCrownFuels = crown, bHaveGroundFuels = ground, panMetadata = pm,
                  bCalculateStats = fst sc, bClassifyData = snd sc, nLinearUnits = nLU,
                  dfLatitude = dfLat,
                  pszDescription = CSLFetchNameValueDef papszOptions ''DESCRIPTION''
                                     ''LCP file created by GDAL.'',
                  stats = a\<rparr>)))))))))"

section \<open>CreateCopy: writing the header\<close>

text \<open>
  The host is taken to be little-endian, where \<^verbatim>\<open>CPL_LSBPTR32\<close> and
  \<^verbatim>\<open>CPL_LSBPTR64\<close> leave a value as it is and the \<^verbatim>\<open>CPL_MSB\<close> blocks are compiled
  out; \<^verbatim>\<open>static_cast<GInt32>\<close> of an \<^verbatim>\<open>int\<close> is the value itself.
\<close>

definition write_GInt32 :: "GInt32 \<Rightarrow> VSILFILE \<Rightarrow> VSILFILE" where
  "write_GInt32 nTemp fp = VSIFWriteL (lsb32 nTemp) fp"

definition write_double :: "double \<Rightarrow> VSILFILE \<Rightarrow> VSILFILE" where
  "write_double dfTemp fp = VSIFWriteL (lsb64 dfTemp) fp"

text \<open>The two flags, the latitude and the four bounds, from offset 0.\<close>

definition write_preamble :: "services \<Rightarrow> GDALDataset \<Rightarrow> header_plan \<Rightarrow> VSILFILE \<Rightarrow> VSILFILE" where
  "write_preamble sv poSrcDS plan fp =
     (let gt = srcGT poSrcDS;
          nXSize = fp_of_int sv (src_XSize poSrcDS);
          nYSize = fp_of_int sv (src_YSize poSrcDS);
          fp = write_GInt32 (if bHaveCrownFuels plan then 21 else 20) fp;
          fp = write_GInt32 (if bHaveGroundFuels plan then 21 else 20) fp;
          fp = write_GInt32 (fp_to_GInt32 sv (fp_add sv (dfLatitude plan) double_half)) fp;
          fp = write_double (fp_add sv (gt0 gt) (fp_mul sv (gt1 gt) nXSize)) fp;
          fp = write_double (gt0 gt) fp;
          fp = write_double (gt3 gt) fp
      in write_double (fp_add sv (gt3 gt) (fp_mul sv (gt5 gt) nYSize)) fp)"

text \<open>
  One turn of the loop that writes the statistics of band \<^verbatim>\<open>i\<close> (from 0): the seek
  to 3340 before the sixth band when there are ground fuels and no crown fuels, the
  minimum and maximum, then the count and the 100 class slots, or -1 and a seek over
  the slots.
\<close>

definition write_band_stats :: "services \<Rightarrow> header_plan \<Rightarrow> nat \<Rightarrow> VSILFILE \<Rightarrow> VSILFILE" where
  "write_band_stats sv plan i fp =
     (let fp = (if i = 5 \<and> \<not> bHaveCrownFuels plan \<and> bHaveGroundFuels plan
                then VSIFSeekL_SET 3340 fp else fp);
          fp = write_GInt32 (fp_to_GInt32 sv (padfMin (stats plan) ! i)) fp;
          fp = write_GInt32 (fp_to_GInt32 sv (padfMax (stats plan) ! i)) fp
      in if bClassifyData plan
         then VSIFWriteL
                (concat (map (\<lambda>v. lsb32 (word_of_int v))
                           (take LCP_MAX_CLASSES
                              (drop (i * LCP_MAX_CLASSES) (panClasses (stats plan))))))
                (write_GInt32 (word_of_int (panFound (stats plan) ! i)) fp)
         else VSIFSeekL_CUR (4 * LCP_MAX_CLASSES) (write_GInt32 (- 1) fp))"

definition write_stats :: "services \<Rightarrow> nat \<Rightarrow> header_plan \<Rightarrow> VSILFILE \<Rightarrow> VSILFILE" where
  "write_stats sv nBands plan fp =
     (if bCalculateStats plan then fold (write_band_stats sv plan) [0..<nBands] fp
      else VSIFSeekL_SET 4164 fp)"

text \<open>The size, the bounds, the linear unit, the resolution and \<^verbatim>\<open>panMetadata\<close>, from offset 4164.\<close>

definition write_geo :: "services \<Rightarrow> GDALDataset \<Rightarrow> header_plan \<Rightarrow> VSILFILE \<Rightarrow> VSILFILE" where
  "write_geo sv poSrcDS plan fp =
     (let gt = srcGT poSrcDS;
          nXSize = fp_of_int sv (src_XSize poSrcDS);
          nYSize = fp_of_int sv (src_YSize poSrcDS);
          fp = VSIFSeekL_SET 4164 fp;
          fp = write_GInt32 (word_of_int (src_XSize poSrcDS)) fp;
          fp = write_GInt32 (word_of_int (src_YSize poSrcDS)) fp;
          fp = write_double (fp_add sv (gt0 gt) (fp_mul sv (gt1 gt) nXSize)) fp;
          fp = write_double (gt0 gt) fp;
          fp = write_double (gt3 gt) fp;
          fp = write_double (fp_add sv (gt3 gt) (fp_mul sv (gt5 gt) nYSize)) fp;
          fp = write_GInt32 (word_of_int (nLinearUnits plan)) fp;
          fp = write_double (gt1 gt) fp;
          fp = write_double (fp_fabs sv (gt5 gt)) fp
      in VSIFWriteL (concat (map lsb16 (panMetadata plan))) fp)"

text \<open>
  The source file names: the first entry of the file list in the slot of every
  band, or a seek to 6804 when there is no list.
\<close>

definition write_file_name :: "header_plan \<Rightarrow> string \<Rightarrow> nat \<Rightarrow> VSILFILE \<Rightarrow> VSILFILE" where
  "write_file_name plan name i fp =
     (let fp = (if i = 5 \<and> \<not> bHaveCrownFuels plan \<and> bHaveGroundFuels plan
                then VSIFSeekL_SET 6292 fp else fp);
          fp = VSIFWriteL (bytes_of_string (take (CPLStrnlen name LCP_MAX_PATH) name)) fp
      in VSIFSeekL_SET (4244 + 256 * (i + 1)) fp)"

definition write_file_names :: "nat \<Rightarrow> GDALDataset \<Rightarrow> header_plan \<Rightarrow> VSILFILE \<Rightarrow> VSILFILE" where
  "write_file_names nBands poSrcDS plan fp =
     (case papszFileList poSrcDS of
        Some name \<Rightarrow> fold (write_file_name plan name) [0..<nBands] fp
      | None \<Rightarrow> VSIFSeekL_SET 6804 fp)"

definition write_description :: "header_plan \<Rightarrow> VSILFILE \<Rightarrow> VSILFILE" where
  "write_description plan fp =
     VSIFWriteL (bytes_of_string
                   (take (CPLStrnlen (pszDescription plan) LCP_MAX_DESC) (pszDescription plan)))
       (VSIFSeekL_SET 6804 fp)"

text \<open>
  The header as a whole, with the three \<^verbatim>\<open>CPLAssert\<close>s on \<^verbatim>\<open>VSIFTellL(fp)\<close>: the
  file with the cursor at 7316, or the position that fails an assertion.
\<close>

definition asserts :: "services \<Rightarrow> bool \<Rightarrow> bool" where
  "asserts sv cond = (if CPLAssert_active sv then cond else True)"

definition write_header ::
  "services \<Rightarrow> GDALDataset \<Rightarrow> header_plan \<Rightarrow> VSILFILE \<Rightarrow> nat + VSILFILE" where
  "write_header sv poSrcDS plan fp =
     (let nBands = length (src_bands poSrcDS);
          fp1 = write_stats sv nBands plan (write_preamble sv poSrcDS plan fp)
      in if asserts sv (VSIFTellL fp1 = 2104 \<or> VSIFTellL fp1 = 3340 \<or> VSIFTellL fp1 = 4164)
         then
           (let fp2 = write_file_names nBands poSrcDS plan (write_geo sv poSrcDS plan fp1)
            in if asserts sv (VSIFTellL fp2 = 5524 \<or> VSIFTellL fp2 = 6292 \<or> VSIFTellL fp2 = 6804)
               then
                 (let fp3 = write_description plan fp2
                  in if asserts sv (VSIFTellL fp3 \<le> 7316)
                     then Inr (VSIFSeekL_SET 7316 fp3)
                     else Inl (VSIFTellL fp3))
               else Inl (VSIFTellL fp2))
         else Inl (VSIFTellL fp1))"

section \<open>CreateCopy: copying the image\<close>

text \<open>
  \<^verbatim>\<open>RasterIO\<close> of line \<^verbatim>\<open>iLine\<close> of a band into \<^verbatim>\<open>panScanline + iBand\<close> with a pixel
  spacing of \<^verbatim>\<open>nBands\<close> values; a failed read leaves the buffer as it is and is
  reported as a warning. The buffer \<^verbatim>\<open>VSIMalloc3\<close> returns is not initialised; the
  model starts it from zeros.
\<close>

definition RasterIO_line :: "GDALRasterBand \<Rightarrow> nat \<Rightarrow> GInt16 list option" where
  "RasterIO_line poBand iLine =
     (if iLine < length (lines poBand) then lines poBand ! iLine else None)"

definition read_band_line ::
  "nat \<Rightarrow> nat \<Rightarrow> nat \<Rightarrow> nat \<times> GDALSrcBand
     \<Rightarrow> (CPLErr \<times> string) list \<times> GInt16 list \<Rightarrow> (CPLErr \<times> string) list \<times> GInt16 list" where
  "read_band_line nBands nXSize iLine ib acc =
     (case RasterIO_line (pixels (snd ib)) iLine of
        None \<Rightarrow> (fst acc @ [(CE_Warning, ''Error reported in RasterIO'')], snd acc)
      | Some row \<Rightarrow>
          (fst acc,
           fold (\<lambda>k buf. buf[fst ib + k * nBands := row ! k])
                [0..<min nXSize (length row)] (snd acc)))"

definition read_scanline ::
  "GDALDataset \<Rightarrow> nat \<Rightarrow> GInt16 list \<Rightarrow> (CPLErr \<times> string) list \<times> GInt16 list" where
  "read_scanline poSrcDS iLine panScanline =
     fold (read_band_line (length (src_bands poSrcDS)) (nat (src_XSize poSrcDS)) iLine)
          (zip [0..<length (src_bands poSrcDS)] (src_bands poSrcDS)) ([], panScanline)"

text \<open>
  The loop over the lines that are still to copy: the warnings, the file, and
  whether the loop ran to its end (false when the progress callback asked to stop).
\<close>

fun copy_lines ::
  "services \<Rightarrow> GDALDataset \<Rightarrow> nat list \<Rightarrow> GInt16 list \<Rightarrow> VSILFILE
     \<Rightarrow> (CPLErr \<times> string) list \<times> VSILFILE \<times> bool" where
  "copy_lines sv poSrcDS [] panScanline fp = ([], fp, True)"
| "copy_lines sv poSrcDS (iLine # rest) panScanline fp =
     (let r = read_scanline poSrcDS iLine panScanline;
          fp' = VSIFWriteL (concat (map lsb16 (snd r))) fp
      in if pfnProgress sv (fp_div sv (fp_of_int sv (int iLine))
                                      (fp_of_int sv (src_YSize poSrcDS)))
         then (let c = copy_lines sv poSrcDS rest (snd r) fp'
               in (fst r @ fst c, snd c))
         else (fst r, fp', False))"

text \<open>
  Modelled from the spec: the generic dataset framework re-opens the file that was
  written (\<^verbatim>\<open>GDALOpen(pszFilename, GA_ReadOnly)\<close>, not among the sources), which
  hands this driver an open-info with the first bytes of that file; the extension is
  what follows the last dot of the file name.
\<close>

definition CPLGetExtension :: "string \<Rightarrow> string" where
  "CPLGetExtension pszFilename =
     (let tail = takeWhile (\<lambda>c. c \<noteq> CHR ''/'' \<and> c \<noteq> CHR 0x5C) (rev pszFilename)
      in if CHR ''.'' \<in> set tail then rev (takeWhile (\<lambda>c. c \<noteq> CHR ''.'') tail) else [])"

definition GDALOpenInfo_of :: "string \<Rightarrow> VSILFILE \<Rightarrow> GDALOpenInfo" where
  "GDALOpenInfo_of name fp =
     \<lparr>osExtension = CPLGetExtension name, eAccess = GA_ReadOnly,
      nHeaderBytes = int (min 1024 (vsi_size fp)),
      pabyHeader = vsi_data fp,
      fpL = Some (fp\<lparr>vsi_offset := 0\<rparr>)\<rparr>"

section \<open>CreateCopy\<close>

text \<open>
  After the preparation: open the file, write the header, copy the image, and
  return what re-opening the file gives. Writing the projection file beside it, which
  comes before the re-opening, touches neither the file nor the result.
\<close>

definition CreateCopy_write ::
  "services \<Rightarrow> string \<Rightarrow> GDALDataset \<Rightarrow> header_plan \<Rightarrow> CreateCopy_result" where
  "CreateCopy_write sv pszFilename poSrcDS plan =
     (if VSIFOpenL_succeeds sv pszFilename then
        (case write_header sv poSrcDS plan VSIFOpenL_wb of
           Inl at \<Rightarrow> \<lparr>cpl_errors = [], out_file = Some VSIFOpenL_wb, outcome = Assert_failed at\<rparr>
         | Inr fp \<Rightarrow>
             if pfnProgress sv 0 then
               (let c = copy_lines sv poSrcDS [0..<nat (src_YSize poSrcDS)]
                          (replicate (length (src_bands poSrcDS) * nat (src_XSize poSrcDS)) 0) fp
                in if snd (snd c) then
                     (if pfnProgress sv double_one
                      then \<lparr>cpl_errors = fst c, out_file = Some (fst (snd c)),
                            outcome = Returned (Open sv (GDALOpenInfo_of pszFilename (fst (snd c))))\<rparr>
                      else \<lparr>cpl_errors = fst c, out_file = Some (fst (snd c)),
                            outcome = Returned None\<rparr>)
                   else \<lparr>cpl_errors = fst c, out_file = Some (fst (snd c)),
                         outcome = Returned None\<rparr>)
             else \<lparr>cpl_errors = [], out_file = Some fp, outcome = Returned None\<rparr>)
      else \<lparr>cpl_errors = [(CE_Failure, ''Unable to create lcp file %s.'')],
            out_file = None, outcome = Returned None\<rparr>)"

definition CreateCopy ::
  "services \<Rightarrow> string \<Rightarrow> GDALDataset \<Rightarrow> bool \<Rightarrow> (string \<times> string) list \<Rightarrow> CreateCopy_result" where
  "CreateCopy sv pszFilename poSrcDS bStrict papszOptions =
     (let p = CreateCopy_prepare sv poSrcDS bStrict papszOptions
      in case snd p of
           Inl e \<Rightarrow> \<lparr>cpl_errors = fst p, out_file = None, outcome = e\<rparr>
         | Inr plan \<Rightarrow>
             (let w = CreateCopy_write sv pszFilename poSrcDS plan
              in w\<lparr>cpl_errors := fst p @ cpl_errors w\<rparr>))"

text \<open>
  For stating what a file holds: the bytes \<open>bs\<close> stand at the indices from \<open>off\<close> on.
  And the 80 bytes \<^verbatim>\<open>CreateCopy\<close> writes from offset 4164, in their order.
\<close>

definition stored :: "(nat \<Rightarrow> GByte) \<Rightarrow> nat \<Rightarrow> GByte list \<Rightarrow> bool" where
  "stored d off bs = list_all (\<lambda>k. d (off + k) = bs ! k) [0..<length bs]"

definition geo_bytes :: "services \<Rightarrow> GDALDataset \<Rightarrow> header_plan \<Rightarrow> GByte list" where
  "geo_bytes sv poSrcDS plan =
     lsb32 (word_of_int (src_XSize poSrcDS))
     @ lsb32 (word_of_int (src_YSize poSrcDS))
     @ lsb64 (fp_add sv (gt0 (srcGT poSrcDS))
                (fp_mul sv (gt1 (srcGT poSrcDS)) (fp_of_int sv (src_XSize poSrcDS))))
     @ lsb64 (gt0 (srcGT poSrcDS))
     @ lsb64 (gt3 (srcGT poSrcDS))
     @ lsb64 (fp_add sv (gt3 (srcGT poSrcDS))
                (fp_mul sv (gt5 (srcGT poSrcDS)) (fp_of_int sv (src_YSize poSrcDS))))
     @ lsb32 (word_of_int (nLinearUnits plan))
     @ lsb64 (gt1 (srcGT poSrcDS))
     @ lsb64 (fp_fabs sv (gt5 (srcGT poSrcDS)))
     @ concat (map lsb16 (panMetadata plan))"

definition preamble_bytes :: "services \<Rightarrow> GDALDataset \<Rightarrow> header_plan \<Rightarrow> GByte list" where
  "preamble_bytes sv poSrcDS plan =
     lsb32 (if bHaveCrownFuels plan then 21 else 20)
     @ lsb32 (if bHaveGroundFuels plan then 21 else 20)
     @ lsb32 (fp_to_GInt32 sv (fp_add sv (dfLatitude plan) double_half))
     @ lsb64 (fp_add sv (gt0 (srcGT poSrcDS))
                (fp_mul sv (gt1 (srcGT poSrcDS)) (fp_of_int sv (src_XSize poSrcDS))))
     @ lsb64 (gt0 (srcGT poSrcDS))
     @ lsb64 (gt3 (srcGT poSrcDS))
     @ lsb64 (fp_add sv (gt3 (srcGT poSrcDS))
                (fp_mul sv (gt5 (srcGT poSrcDS)) (fp_of_int sv (src_YSize poSrcDS))))"


text \<open>
  Example inputs: a source of one pixel in the given number of \<^verbatim>\<open>Int16\<close> bands, with
  the given spatial reference and first entry of the file list; and options that give
  the latitude and the linear unit and switch the statistics off, also with two units
  that are not the defaults.
\<close>

definition example_band :: GDALSrcBand where
  "example_band =
     \<lparr>eDataType = GDT_Int16, GetStatistics = Some (0, 0), pixels = \<lparr>lines = [Some [5]]\<rparr>\<rparr>"

definition example_dataset ::
  "nat \<Rightarrow> OGRSpatialReference option \<Rightarrow> string option \<Rightarrow> GDALDataset" where
  "example_dataset nBands srs files =
     \<lparr>src_bands = replicate nBands example_band, src_XSize = 1, src_YSize = 1,
      srcGT = \<lparr>gt0 = 0, gt1 = 1, gt2 = 0, gt3 = 0, gt4 = 0, gt5 = 1\<rparr>,
      poSrcSRS = srs, papszFileList = files\<rparr>"

definition example_no_stats :: "(string \<times> string) list" where
  "example_no_stats =
     [(''LINEAR_UNIT'', ''METER''), (''CALCULATE_STATS'', ''NO''), (''CLASSIFY_DATA'', ''NO'')]"

definition example_options :: "(string \<times> string) list" where
  "example_options = (''LATITUDE'', ''45'') # example_no_stats"

definition example_unit_options :: "(string \<times> string) list" where
  "example_unit_options =
     (''ELEVATION_UNIT'', ''FEET'') # (''DUFF_UNIT'', ''TONS_PER_ACRE_X_10'') # example_options"

definition example_srs :: OGRSpatialReference where
  "example_srs = \<lparr>UNIT_0 = Some ''metre'', UNIT_1 = None\<rparr>"
section \<open>Properties of the classifier\<close>

lemma flag_index_less: "flag_index v < RANGE_VAL"
proof -
  have "sint v < 2 ^ (LENGTH(16) - 1)" by (rule sint_lt)
  then show ?thesis
    by (simp add: flag_index_def OFFSET_def MIN_VAL_def MAX_VAL_def RANGE_VAL_def)
qed

lemma flag_index_inj: "flag_index v = flag_index w \<Longrightarrow> v = w"
proof -
  assume h: "flag_index v = flag_index w"
  have "- (2 ^ (LENGTH(16) - 1)) \<le> sint v" "- (2 ^ (LENGTH(16) - 1)) \<le> sint w"
    by (rule sint_ge)+
  with h have "sint v = sint w"
    by (simp add: flag_index_def OFFSET_def MIN_VAL_def)
  then show ?thesis by (rule signed_word_eqI)
qed

lemma flag_index_surj:
  assumes "j < RANGE_VAL"
  shows "\<exists>v. flag_index v = j"
proof -
  let ?x = "int j - 32768"
  have a: "signed_take_bit (LENGTH(16) - 1) ?x = ?x"
    using assms
    by (intro signed_take_bit_int_eq_self) (simp_all add: RANGE_VAL_def MAX_VAL_def MIN_VAL_def)
  have "sint (word_of_int ?x :: GInt16) = ?x"
    by (simp only: sint_sbintrunc' a)
  then have "flag_index (word_of_int ?x) = j"
    by (simp only: flag_index_def OFFSET_def MIN_VAL_def)
  then show ?thesis ..
qed

lemma flags_ok_new:
  assumes ok: "flags_ok s F" and z: "pabyFlags s ! flag_index v = 0"
  shows "flags_ok (s\<lparr>nFound := nFound s + 1,
                      pabyFlags := (pabyFlags s)[flag_index v := 1]\<rparr>) (insert v F)"
proof -
  let ?fl = "pabyFlags s"
  have len: "length ?fl = RANGE_VAL" and F: "F = flags_of s"
    and n: "nFound s = int (card F)" and bits: "list_all (\<lambda>b. b = 0 \<or> b = 1) ?fl"
    and tm: "\<not> bTooMany s"
    using ok by (simp_all add: flags_ok_def)
  have vF: "v \<notin> F" using z by (simp add: F flags_of_def)
  have upd: "\<And>w. (?fl[flag_index v := 1]) ! flag_index w = (if w = v then 1 else ?fl ! flag_index w)"
    using flag_index_less [of v] flag_index_inj [of v]
    by (auto simp add: nth_list_update len)
  have set: "flags_of (s\<lparr>nFound := nFound s + 1, pabyFlags := ?fl[flag_index v := 1]\<rparr>) = insert v F"
    by (auto simp add: flags_of_def upd F)
  have card: "int (card (insert v F)) = nFound s + 1"
    using vF by (simp add: n)
  have "set (?fl[flag_index v := 1]) \<subseteq> insert 1 (set ?fl)"
    by (rule set_update_subset_insert)
  then have bits': "list_all (\<lambda>b. b = 0 \<or> b = 1) (?fl[flag_index v := 1])"
    using bits by (auto simp add: list_all_iff)
  show ?thesis
    using len set card bits' tm by (simp add: flags_ok_def)
qed

lemma flags_ok_old:
  assumes ok: "flags_ok s F" and nz: "pabyFlags s ! flag_index v \<noteq> 0"
  shows "insert v F = F"
proof -
  have "pabyFlags s ! flag_index v \<in> set (pabyFlags s)"
    using ok flag_index_less [of v] by (simp add: flags_ok_def)
  then have "pabyFlags s ! flag_index v = 1"
    using ok nz by (auto simp add: flags_ok_def list_all_iff)
  then show ?thesis
    using ok by (auto simp add: flags_ok_def flags_of_def)
qed

lemma scan_pixels_seen:
  "flags_ok s F \<Longrightarrow>
     (case seen_scan vs F of
        None \<Rightarrow> bTooMany (scan_pixels vs s) \<and> nFound (scan_pixels vs s) = - 1
      | Some F' \<Rightarrow> flags_ok (scan_pixels vs s) F')"
proof (induction vs arbitrary: s F)
  case Nil
  then show ?case by simp
next
  case (Cons v vs)
  have n: "nFound s = int (card F)" using Cons.prems by (simp add: flags_ok_def)
  show ?case
  proof (cases "sint v = - 9999")
    case True
    then show ?thesis using Cons.IH [OF Cons.prems] by (simp split: option.splits)
  next
    case valid: False
    show ?thesis
    proof (cases "card F = LCP_MAX_CLASSES")
      case True
      then show ?thesis using valid n by (simp split: option.splits)
    next
      case room: False
      show ?thesis
      proof (cases "pabyFlags s ! flag_index v = 0")
        case True
        from Cons.IH [OF flags_ok_new [OF Cons.prems True]]
        show ?thesis using valid room n True by (simp add: flag_index_def split: option.splits)
      next
        case False
        from Cons.IH [OF Cons.prems] flags_ok_old [OF Cons.prems False]
        show ?thesis using valid room n False by (simp add: flag_index_def split: option.splits)
      qed
    qed
  qed
qed

lemma seen_scan_append:
  "seen_scan (xs @ ys) F = (case seen_scan xs F of None \<Rightarrow> None | Some F' \<Rightarrow> seen_scan ys F')"
  by (induction xs arbitrary: F) simp_all

lemma scan_lines_seen:
  "flags_ok s F \<Longrightarrow>
     fst (scan_lines (map Some rows) s) = CE_None \<and>
     (case seen_scan (concat rows) F of
        None \<Rightarrow> bTooMany (snd (scan_lines (map Some rows) s))
                 \<and> nFound (snd (scan_lines (map Some rows) s)) = - 1
      | Some F' \<Rightarrow> flags_ok (snd (scan_lines (map Some rows) s)) F')"
proof (induction rows arbitrary: s F)
  case Nil
  then show ?case by simp
next
  case (Cons row rows)
  show ?case
  proof (cases "seen_scan row F")
    case None
    then show ?thesis
      using scan_pixels_seen [OF Cons.prems, of row]
      by (simp add: seen_scan_append Let_def split: option.splits)
  next
    case (Some F')
    then have ok': "flags_ok (scan_pixels row s) F'"
      using scan_pixels_seen [OF Cons.prems, of row] by simp
    then have "\<not> bTooMany (scan_pixels row s)" by (simp add: flags_ok_def)
    then show ?thesis
      using Cons.IH [OF ok'] Some by (simp add: seen_scan_append Let_def split: option.splits)
  qed
qed

lemma seen_scan_valid_pixels: "seen_scan (valid_pixels vs) F = seen_scan vs F"
  by (induction vs arbitrary: F) (simp_all add: valid_pixels_def)

lemma seen_scan_butlast:
  "list_all (\<lambda>v. sint v \<noteq> - 9999) ws \<Longrightarrow> card F \<le> LCP_MAX_CLASSES \<Longrightarrow>
     seen_scan ws F =
       (if ws \<noteq> [] \<and> LCP_MAX_CLASSES \<le> card (F \<union> set (butlast ws)) then None
        else Some (F \<union> set ws))"
proof (induction ws arbitrary: F)
  case Nil
  then show ?case by simp
next
  case (Cons v ws)
  have valid: "sint v \<noteq> - 9999" and rest: "list_all (\<lambda>v. sint v \<noteq> - 9999) ws"
    using Cons.prems(1) by simp_all
  show ?case
  proof (cases "card F = LCP_MAX_CLASSES")
    case True
    have "card F \<le> card (F \<union> set (butlast (v # ws)))"
      by (rule card_mono) simp_all
    then show ?thesis using True valid by simp
  next
    case False
    then have lt: "card F < LCP_MAX_CLASSES" using Cons.prems(2) by simp
    have "card (insert v F) \<le> Suc (card F)"
      by (simp add: card_insert_if)
    then have le: "card (insert v F) \<le> LCP_MAX_CLASSES" using lt by simp
    show ?thesis
      using Cons.IH [OF rest le] False valid lt by (cases ws) (auto simp add: insert_commute)
  qed
qed

lemma flagged_indices:
  assumes ok: "flags_ok s F"
  shows "filter (\<lambda>j. pabyFlags s ! j = 1) [0..<RANGE_VAL] = sorted_list_of_set (flag_index ` F)"
proof (rule sorted_distinct_set_unique)
  show "sorted (filter (\<lambda>j. pabyFlags s ! j = 1) [0..<RANGE_VAL])"
    by (rule sorted_wrt_filter) simp
  show "distinct (filter (\<lambda>j. pabyFlags s ! j = 1) [0..<RANGE_VAL])" by simp
  show "sorted (sorted_list_of_set (flag_index ` F))" by simp
  show "distinct (sorted_list_of_set (flag_index ` F))" by simp
  have "{j. j < RANGE_VAL \<and> pabyFlags s ! j = 1} = flag_index ` F"
  proof (intro equalityI subsetI)
    fix j assume "j \<in> {j. j < RANGE_VAL \<and> pabyFlags s ! j = 1}"
    then have j: "j < RANGE_VAL" "pabyFlags s ! j = 1" by simp_all
    from flag_index_surj [OF j(1)] obtain v where v: "flag_index v = j" ..
    then have "v \<in> F" using ok j(2) by (auto simp add: flags_ok_def flags_of_def)
    then show "j \<in> flag_index ` F" using v by blast
  next
    fix j assume "j \<in> flag_index ` F"
    then obtain v where "v \<in> F" "j = flag_index v" by blast
    then show "j \<in> {j. j < RANGE_VAL \<and> pabyFlags s ! j = 1}"
      using ok flag_index_less [of v] by (auto simp add: flags_ok_def flags_of_def)
  qed
  then show "set (filter (\<lambda>j. pabyFlags s ! j = 1) [0..<RANGE_VAL])
               = set (sorted_list_of_set (flag_index ` F))"
    by auto
qed

lemma flags_ok_init:
  "flags_ok \<lparr>nFound = 0, bTooMany = False, pabyFlags = replicate RANGE_VAL 0\<rparr> {}"
  using flag_index_less by (simp add: flags_ok_def flags_of_def list_all_iff)

text \<open>
  What \<^verbatim>\<open>ClassifyBandData\<close> returns for a band all of whose lines can be read, in
  terms of the set of values seen.
\<close>

lemma ClassifyBandData_seen:
  assumes "lines poBand = map Some rows"
  shows "ClassifyBandData poBand =
           (case seen_scan (concat rows) {} of
              None \<Rightarrow> (CE_None, - 1, None)
            | Some F \<Rightarrow>
                (CE_None, int (card F),
                 Some (0 # map int (sorted_list_of_set (flag_index ` F)))))"
proof (cases "seen_scan (concat rows) {}")
  case None
  then show ?thesis
    using scan_lines_seen [OF flags_ok_init, of rows] assms
    by (simp add: ClassifyBandData_def Let_def)
next
  case (Some F)
  then have ok: "flags_ok (snd (scan_lines (map Some rows)
      \<lparr>nFound = 0, bTooMany = False, pabyFlags = replicate RANGE_VAL 0\<rparr>)) F"
    and e: "fst (scan_lines (map Some rows)
      \<lparr>nFound = 0, bTooMany = False, pabyFlags = replicate RANGE_VAL 0\<rparr>) = CE_None"
    using scan_lines_seen [OF flags_ok_init, of rows] by simp_all
  show ?thesis
    using ok e flagged_indices [OF ok] Some assms
    by (simp add: ClassifyBandData_def Let_def flags_ok_def)
qed

lemma seen_scan_Some: "seen_scan vs F = Some F' \<Longrightarrow> F' = F \<union> set (valid_pixels vs)"
  by (induction vs arbitrary: F) (auto simp add: valid_pixels_def split: if_splits)

lemma scan_pixels_valid_pixels: "scan_pixels (valid_pixels vs) s = scan_pixels vs s"
  by (induction vs arbitrary: s) (simp_all add: valid_pixels_def)

lemma scan_lines_valid_pixels:
  "scan_lines (map (map_option valid_pixels) ls) s = scan_lines ls s"
  by (induction ls s rule: scan_lines.induct) (simp_all add: scan_pixels_valid_pixels Let_def)

lemma scan_lines_all_read:
  "fst (scan_lines ls s) = CE_None \<Longrightarrow> \<not> bTooMany (snd (scan_lines ls s)) \<Longrightarrow>
     \<exists>rows. ls = map Some rows"
proof (induction ls s rule: scan_lines.induct)
  case (1 s)
  then show ?case by simp
next
  case (2 ls s)
  then show ?case by simp
next
  case (3 panValues ls s)
  then have "\<not> bTooMany (scan_pixels panValues s)"
    by (auto simp add: Let_def split: if_splits)
  with 3 obtain rows where "ls = map Some rows"
    by (auto simp add: Let_def)
  then have "Some panValues # ls = map Some (panValues # rows)" by simp
  then show ?case by (rule exI [of _ "panValues # rows"])
qed

lemma int_flag_index: "int (flag_index v) = sint v + OFFSET"
proof -
  have "- (2 ^ (LENGTH(16) - 1)) \<le> sint v" by (rule sint_ge)
  then show ?thesis by (simp add: flag_index_def OFFSET_def MIN_VAL_def)
qed

lemma sint_word_of_nat_16:
  assumes "k < 32768"
  shows "sint (word_of_nat k :: GInt16) = int k"
proof -
  have a: "signed_take_bit (LENGTH(16) - 1) (int k) = int k"
    using assms by (intro signed_take_bit_int_eq_self) simp_all
  have "sint (word_of_int (int k) :: GInt16) = int k"
    by (simp only: sint_sbintrunc' a)
  then show ?thesis by simp
qed

lemma distinct_word_of_nat_16:
  assumes "n \<le> 32768"
  shows "distinct (map (word_of_nat :: nat \<Rightarrow> GInt16) [m..<n])"
proof -
  have "inj_on (word_of_nat :: nat \<Rightarrow> GInt16) {m..<n}"
  proof (rule inj_onI)
    fix x y assume "x \<in> {m..<n}" "y \<in> {m..<n}"
      and eq: "(word_of_nat x :: GInt16) = word_of_nat y"
    then have x: "x < 32768" and y: "y < 32768" using assms by simp_all
    have "int x = sint (word_of_nat x :: GInt16)"
      by (simp only: sint_word_of_nat_16 [OF x])
    also have "\<dots> = sint (word_of_nat y :: GInt16)"
      by (simp only: eq)
    also have "\<dots> = int y"
      by (simp only: sint_word_of_nat_16 [OF y])
    finally show "x = y" by simp
  qed
  then show ?thesis by (simp add: distinct_map)
qed

text \<open>
  C9. The value the classifier skips is the constant -9999 and nothing else: the
  function has no no-data parameter; taking the pixels equal to -9999 out of every
  line leaves its result unchanged, whatever the band; and when it returns a class
  list without an error, the count is the number of distinct pixel values other than
  -9999 and the entries after the leading 0 are exactly those values (at their flag
  index \<^verbatim>\<open>value + OFFSET\<close>), so 0 and negative values take part.
\<close>

theorem ClassifyBandData_skips_only_minus_9999:
  "ClassifyBandData (poBand\<lparr>lines := map (map_option valid_pixels) (lines poBand)\<rparr>)
     = ClassifyBandData poBand
   \<and> (ClassifyBandData poBand = (CE_None, n, Some cls) \<longrightarrow>
        n = int (card {v. v \<in> pixels_of poBand \<and> sint v \<noteq> - 9999})
        \<and> (\<forall>v. (sint v + OFFSET \<in> set (tl cls))
                  = (v \<in> pixels_of poBand \<and> sint v \<noteq> - 9999)))"
proof (intro conjI impI)
  show "ClassifyBandData (poBand\<lparr>lines := map (map_option valid_pixels) (lines poBand)\<rparr>)
          = ClassifyBandData poBand"
    by (simp add: ClassifyBandData_def scan_lines_valid_pixels)
next
  assume h: "ClassifyBandData poBand = (CE_None, n, Some cls)"
  let ?r = "scan_lines (lines poBand)
              \<lparr>nFound = 0, bTooMany = False, pabyFlags = replicate RANGE_VAL 0\<rparr>"
  from h have "fst ?r = CE_None" "\<not> bTooMany (snd ?r)"
    by (auto simp add: ClassifyBandData_def Let_def split: if_splits)
  from scan_lines_all_read [OF this] obtain rows where rows: "lines poBand = map Some rows" ..
  from h ClassifyBandData_seen [OF rows] obtain F
    where F: "seen_scan (concat rows) {} = Some F"
      and n: "n = int (card F)"
      and cls: "cls = 0 # map int (sorted_list_of_set (flag_index ` F))"
    by (auto split: option.splits)
  have px: "pixels_of poBand = set (concat rows)"
    by (simp add: pixels_of_def rows comp_def)
  have FF: "F = {v. v \<in> pixels_of poBand \<and> sint v \<noteq> - 9999}"
    using seen_scan_Some [OF F] by (auto simp add: px valid_pixels_def)
  show "n = int (card {v. v \<in> pixels_of poBand \<and> sint v \<noteq> - 9999})"
    using n FF by simp
  have "\<And>v. (sint v + OFFSET \<in> set (tl cls)) = (v \<in> F)"
  proof -
    fix v
    have "(sint v + OFFSET \<in> set (tl cls)) = (int (flag_index v) \<in> int ` flag_index ` F)"
      by (simp add: cls int_flag_index)
    also have "\<dots> = (v \<in> F)"
      using flag_index_inj by (auto simp add: image_iff)
    finally show "(sint v + OFFSET \<in> set (tl cls)) = (v \<in> F)" .
  qed
  then show "\<forall>v. (sint v + OFFSET \<in> set (tl cls))
                 = (v \<in> pixels_of poBand \<and> sint v \<noteq> - 9999)"
    using FF by simp
qed

theorem ClassifyBandData_skips_only_minus_9999_witness:
  "ClassifyBandData \<lparr>lines = [Some [5, - 9999, 0]]\<rparr> = (CE_None, 2, Some [0, 32768, 32773])
   \<and> 2 = int (card {v. v \<in> pixels_of \<lparr>lines = [Some [5, - 9999, 0]]\<rparr> \<and> sint v \<noteq> - 9999})
   \<and> sint (0 :: GInt16) + OFFSET \<in> set (tl [0, 32768, 32773])
   \<and> sint (- 9999 :: GInt16) + OFFSET \<notin> set (tl [0, 32768, 32773])"
proof -
  have h: "ClassifyBandData \<lparr>lines = [Some [5, - 9999, 0]]\<rparr>
             = (CE_None, 2, Some [0, 32768, 32773])"
    using ClassifyBandData_seen [of "\<lparr>lines = [Some [5, - 9999, 0]]\<rparr>" "[[5, - 9999, 0]]"]
    by (simp add: LCP_MAX_CLASSES_def flag_index_def OFFSET_def MIN_VAL_def)
  from ClassifyBandData_skips_only_minus_9999
         [of "\<lparr>lines = [Some [5, - 9999, 0]]\<rparr>" 2 "[0, 32768, 32773]"] h
  have "2 = int (card {v. v \<in> pixels_of \<lparr>lines = [Some [5, - 9999, 0]]\<rparr> \<and> sint v \<noteq> - 9999})"
    by blast
  then show ?thesis using h by (simp add: OFFSET_def MIN_VAL_def)
qed

text \<open>
  C3. The cap is tested before a value is looked at, against \<^verbatim>\<open>LCP_MAX_CLASSES\<close>
  = 100: a band of one line holding the 100 distinct values 1..100 comes back with
  the count 100 and 101 stored entries, where the function's own header comment
  promises 99 or fewer values and -1 beyond.
\<close>

theorem ClassifyBandData_hundred_values:
  "ClassifyBandData \<lparr>lines = [Some (map word_of_nat [1..<101])]\<rparr>
     = (CE_None, 100, Some (0 # map int [32769..<32869]))"
proof -
  let ?vs = "map (word_of_nat :: nat \<Rightarrow> GInt16) [1..<101]"
  have valid: "list_all (\<lambda>v. sint v \<noteq> - 9999) ?vs"
    by (simp add: list_all_iff sint_word_of_nat_16)
  have split: "[1..<101] = [1..<100] @ [100::nat]"
    using upt_Suc_append [of 1 100] by simp
  have bl: "butlast ?vs = map word_of_nat [1..<100]"
    by (simp only: split map_append list.map butlast_snoc)
  have c99: "card (set (butlast ?vs)) = 99"
    unfolding bl using distinct_card [OF distinct_word_of_nat_16 [of 100 1]] by simp
  have c100: "card (set ?vs) = 100"
    using distinct_card [OF distinct_word_of_nat_16 [of 101 1]] by simp
  have seen: "seen_scan (concat [?vs]) {} = Some (set ?vs)"
    using seen_scan_butlast [OF valid, of "{}"] c99
    by (simp add: LCP_MAX_CLASSES_def del: set_map set_upt upt_Suc)
  have fi: "\<And>k. k < 32768 \<Longrightarrow> flag_index (word_of_nat k :: GInt16) = k + 32768"
    by (simp add: flag_index_def sint_word_of_nat_16 OFFSET_def MIN_VAL_def nat_add_distrib)
  have "flag_index ` set ?vs = (\<lambda>k. flag_index (word_of_nat k :: GInt16)) ` {1..<101}"
    by (simp add: image_image del: upt_Suc)
  also have "\<dots> = (\<lambda>k. k + 32768) ` {1..<101}"
    by (rule image_cong) (simp_all add: fi)
  also have "\<dots> = {32769..<32869}"
    by (simp add: image_add_atLeastLessThan')
  finally have idx: "flag_index ` set ?vs = {32769..<32869}" .
  show ?thesis
    using ClassifyBandData_seen [of "\<lparr>lines = [Some ?vs]\<rparr>" "[?vs]"] seen c100 idx
    by (simp del: set_map set_upt upt_Suc concat.simps add: sorted_list_of_set_range)
qed

text \<open>
  C4. The entries stored after the leading 0 are the flag indices, not the pixel
  values: the offset that maps [-32768, 32767] to [0, 65535] is never taken off
  again. A band whose only pixel is 5 gets the class list 0, 32773.
\<close>

theorem ClassifyBandData_single_pixel:
  "ClassifyBandData \<lparr>lines = [Some [5]]\<rparr> = (CE_None, 1, Some [0, 32773])"
  using ClassifyBandData_seen [of "\<lparr>lines = [Some [5]]\<rparr>" "[[5]]"]
  by (simp add: LCP_MAX_CLASSES_def flag_index_def OFFSET_def MIN_VAL_def)

section \<open>Properties of the byte accessors\<close>

lemma lsb_word_lsb16: "(lsb_word (lsb16 w) :: GInt16) = w"
  unfolding lsb16_def
  apply simp
  apply (rule bit_word_eqI)
  subgoal for n
    by (cases "n < 8"; simp add: bit_simps not_less less_diff_conv2)
  done

lemma lsb_word_lsb32: "(lsb_word (lsb32 w) :: GInt32) = w"
  unfolding lsb32_def
  apply simp
  apply (rule bit_word_eqI)
  subgoal for n
    by (cases "n < 8"; cases "n < 16"; cases "n < 24";
        simp add: bit_simps not_less less_diff_conv2)
  done

lemma lsb_word_lsb64: "(lsb_word (lsb64 w) :: double) = w"
  unfolding lsb64_def
  apply simp
  apply (rule bit_word_eqI)
  subgoal for n
    by (cases "n < 8"; cases "n < 16"; cases "n < 24"; cases "n < 32"; cases "n < 40";
        cases "n < 48"; cases "n < 56"; simp add: bit_simps not_less less_diff_conv2)
  done

lemma sint_ucast_byte: "sint (ucast (b :: GByte) :: GInt32) = uint b"
proof -
  have "(- (2 ^ 31) :: int) \<le> 0" by simp
  also have "0 \<le> uint b" by (rule uint_nonnegative)
  finally have lo: "- (2 ^ 31) \<le> uint b" .
  have "uint b < 2 ^ LENGTH(8)" by (rule uint_lt2p)
  also have "\<dots> < (2 ^ 31 :: int)" by simp
  finally have hi: "uint b < 2 ^ 31" .
  have "signed_take_bit 31 (uint b) = uint b"
    by (rule signed_take_bit_int_eq_self [OF lo hi])
  then show ?thesis by (simp add: signed_ucast_eq)
qed

section \<open>Properties of the reader\<close>

lemma CPL_LSBSINT32PTR_cong:
  "p off = q off \<Longrightarrow> p (off + 1) = q (off + 1) \<Longrightarrow> p (off + 2) = q (off + 2)
     \<Longrightarrow> p (off + 3) = q (off + 3) \<Longrightarrow> CPL_LSBSINT32PTR p off = CPL_LSBSINT32PTR q off"
  by (simp add: CPL_LSBSINT32PTR_def)

lemma openinfo_wf_byte:
  "openinfo_wf poOpenInfo \<Longrightarrow> fpL poOpenInfo = Some fp \<Longrightarrow> i < 12
     \<Longrightarrow> pabyHeader poOpenInfo i = vsi_data fp i"
  by (simp add: openinfo_wf_def list_all_iff)

lemma openinfo_wf_fields:
  assumes "openinfo_wf poOpenInfo" and "fpL poOpenInfo = Some fp"
  shows "CPL_LSBSINT32PTR (pabyHeader poOpenInfo) 0 = CPL_LSBSINT32PTR (vsi_data fp) 0"
    and "CPL_LSBSINT32PTR (pabyHeader poOpenInfo) 4 = CPL_LSBSINT32PTR (vsi_data fp) 4"
    and "CPL_LSBSINT32PTR (pabyHeader poOpenInfo) 8 = CPL_LSBSINT32PTR (vsi_data fp) 8"
  by (rule CPL_LSBSINT32PTR_cong; rule openinfo_wf_byte [OF assms]; simp)+

lemma VSIFReadL_header:
  "fst (VSIFReadL LCP_HEADER_SIZE (VSIFSeekL_SET 0 fp)) = min LCP_HEADER_SIZE (vsi_size fp)"
  "i < LCP_HEADER_SIZE \<Longrightarrow> LCP_HEADER_SIZE \<le> vsi_size fp \<Longrightarrow>
     snd (VSIFReadL LCP_HEADER_SIZE (VSIFSeekL_SET 0 fp)) i = vsi_data fp i"
  by (simp_all add: VSIFReadL_def VSIFSeekL_SET_def Let_def)

lemma header_field_32:
  assumes "off + 3 < LCP_HEADER_SIZE" and "LCP_HEADER_SIZE \<le> vsi_size fp"
  shows "CPL_LSBSINT32PTR (snd (VSIFReadL LCP_HEADER_SIZE (VSIFSeekL_SET 0 fp))) off
           = CPL_LSBSINT32PTR (vsi_data fp) off"
  using assms by (intro CPL_LSBSINT32PTR_cong VSIFReadL_header(2)) simp_all

lemma Open_bands_length:
  "Open_bands sv c ps w is h acc = Some (h', bands) \<Longrightarrow> length bands = length acc + length is"
  by (induction "is" arbitrary: h acc) (auto simp add: Let_def split: if_splits)

lemma Open_bands_None:
  "(Open_bands sv c ps w is h acc = None)
     = (\<not> list_all (\<lambda>iBand. RawRasterBand_Create sv (int iBand)
                          (int LCP_HEADER_SIZE + (int iBand - 1) * 2) ps (ps * w)) is)"
  by (induction "is" arbitrary: h acc) (simp_all add: Let_def)

lemma map_of_SetMetadataItem:
  "map_of (SetMetadataItem k v md) k' = (if k' = k then Some v else map_of md k')"
  by (induction md) auto

lemma Open_metadata_LATITUDE:
  "GetMetadataItem (Open_metadata h0) ''LATITUDE'' = Some (snprintf_d (CPL_LSBSINT32PTR h0 8))"
  by (simp add: Open_metadata_def Let_def GetMetadataItem_def map_of_SetMetadataItem)

lemma Open_nBands_flags:
  "c = 20 \<or> c = 21 \<Longrightarrow> g = 20 \<or> g = 21 \<Longrightarrow>
     Open_nBands (CPL_TO_BOOL (c - 20)) (CPL_TO_BOOL (g - 20)) = flag_band_count c g"
  by (auto simp add: Open_nBands_def CPL_TO_BOOL_def flag_band_count_def)

lemma flag_band_count_pos: "0 < flag_band_count c g"
  by (simp add: flag_band_count_def)

text \<open>What \<^verbatim>\<open>Open\<close> does with a header whose flags \<^verbatim>\<open>Identify\<close> accepted.\<close>

lemma Open_header_eq:
  assumes c: "CPL_LSBSINT32PTR h0 0 = 20 \<or> CPL_LSBSINT32PTR h0 0 = 21"
    and g: "CPL_LSBSINT32PTR h0 4 = 20 \<or> CPL_LSBSINT32PTR h0 4 = 21"
  shows "Open_header sv fp h0 =
      (if CPL_LSBSINT32PTR h0 4164 \<le> 0 \<or> CPL_LSBSINT32PTR h0 4168 \<le> 0 then None
       else if INT_MAX div (flag_band_count (CPL_LSBSINT32PTR h0 0) (CPL_LSBSINT32PTR h0 4) * 2)
                 < CPL_LSBSINT32PTR h0 4164 then None
       else case Open_bands sv (CPL_TO_BOOL (CPL_LSBSINT32PTR h0 0 - 20))
                   (flag_band_count (CPL_LSBSINT32PTR h0 0) (CPL_LSBSINT32PTR h0 4) * 2)
                   (CPL_LSBSINT32PTR h0 4164)
                   (band_numbers (flag_band_count (CPL_LSBSINT32PTR h0 0) (CPL_LSBSINT32PTR h0 4)))
                   (h0(LCP_HEADER_SIZE - 1 := 0)) [] of
              None \<Rightarrow> None
            | Some r \<Rightarrow> Some \<lparr>pachHeader = fst r, nRasterXSize = CPL_LSBSINT32PTR h0 4164,
                nRasterYSize = CPL_LSBSINT32PTR h0 4168, papoBands = snd r,
                ds_metadata = Open_metadata h0, fpImage = fp\<rparr>)"
  by (simp add: Open_header_def Let_def Open_nBands_flags [OF c g]
        GDALCheckDatasetDimensions_def)


lemma Open_header_Some:
  assumes op: "Open_header sv fp h0 = Some poDS"
    and c: "CPL_LSBSINT32PTR h0 0 = 20 \<or> CPL_LSBSINT32PTR h0 0 = 21"
    and g: "CPL_LSBSINT32PTR h0 4 = 20 \<or> CPL_LSBSINT32PTR h0 4 = 21"
  shows "fpImage poDS = fp"
    and "nRasterXSize poDS = CPL_LSBSINT32PTR h0 4164"
    and "nRasterYSize poDS = CPL_LSBSINT32PTR h0 4168"
    and "ds_metadata poDS = Open_metadata h0"
    and "Open_bands sv (CPL_TO_BOOL (CPL_LSBSINT32PTR h0 0 - 20))
           (flag_band_count (CPL_LSBSINT32PTR h0 0) (CPL_LSBSINT32PTR h0 4) * 2)
           (CPL_LSBSINT32PTR h0 4164)
           (band_numbers (flag_band_count (CPL_LSBSINT32PTR h0 0) (CPL_LSBSINT32PTR h0 4)))
           (h0(LCP_HEADER_SIZE - 1 := 0)) []
         = Some (pachHeader poDS, papoBands poDS)"
    and "GetRasterCount poDS
           = flag_band_count (CPL_LSBSINT32PTR h0 0) (CPL_LSBSINT32PTR h0 4)"
proof -
  note nb = Open_nBands_flags [OF c g]
  let ?ob = "Open_bands sv (CPL_TO_BOOL (CPL_LSBSINT32PTR h0 0 - 20))
           (flag_band_count (CPL_LSBSINT32PTR h0 0) (CPL_LSBSINT32PTR h0 4) * 2)
           (CPL_LSBSINT32PTR h0 4164)
           (band_numbers (flag_band_count (CPL_LSBSINT32PTR h0 0) (CPL_LSBSINT32PTR h0 4)))
           (h0(LCP_HEADER_SIZE - 1 := 0)) []"
  from op obtain r where r: "?ob = Some r"
    and ds: "poDS = \<lparr>pachHeader = fst r, nRasterXSize = CPL_LSBSINT32PTR h0 4164,
                     nRasterYSize = CPL_LSBSINT32PTR h0 4168, papoBands = snd r,
                     ds_metadata = Open_metadata h0, fpImage = fp\<rparr>"
    by (cases ?ob) (auto simp add: Open_header_eq [OF c g] split: if_splits)
  show "fpImage poDS = fp" by (simp add: ds)
  show "nRasterXSize poDS = CPL_LSBSINT32PTR h0 4164" by (simp add: ds)
  show "nRasterYSize poDS = CPL_LSBSINT32PTR h0 4168" by (simp add: ds)
  show "ds_metadata poDS = Open_metadata h0" by (simp add: ds)
  show ob: "?ob = Some (pachHeader poDS, papoBands poDS)" using r by (simp add: ds)
  show "GetRasterCount poDS
          = flag_band_count (CPL_LSBSINT32PTR h0 0) (CPL_LSBSINT32PTR h0 4)"
    using Open_bands_length [OF ob] flag_band_count_pos [of "CPL_LSBSINT32PTR h0 0" "CPL_LSBSINT32PTR h0 4"]
    by (simp add: GetRasterCount_def band_numbers_def)
qed

lemma Open_header_None_iff:
  assumes c: "CPL_LSBSINT32PTR h0 0 = 20 \<or> CPL_LSBSINT32PTR h0 0 = 21"
    and g: "CPL_LSBSINT32PTR h0 4 = 20 \<or> CPL_LSBSINT32PTR h0 4 = 21"
  shows "(Open_header sv fp h0 = None) =
     (CPL_LSBSINT32PTR h0 4164 \<le> 0
      \<or> CPL_LSBSINT32PTR h0 4168 \<le> 0
      \<or> INT_MAX div (flag_band_count (CPL_LSBSINT32PTR h0 0) (CPL_LSBSINT32PTR h0 4) * 2)
            < CPL_LSBSINT32PTR h0 4164
      \<or> \<not> list_all
            (\<lambda>iBand. RawRasterBand_Create sv (int iBand)
               (int LCP_HEADER_SIZE + (int iBand - 1) * 2)
               (flag_band_count (CPL_LSBSINT32PTR h0 0) (CPL_LSBSINT32PTR h0 4) * 2)
               (flag_band_count (CPL_LSBSINT32PTR h0 0) (CPL_LSBSINT32PTR h0 4) * 2
                * CPL_LSBSINT32PTR h0 4164))
            (band_numbers (flag_band_count (CPL_LSBSINT32PTR h0 0) (CPL_LSBSINT32PTR h0 4))))"
proof -
  let ?nb = "flag_band_count (CPL_LSBSINT32PTR h0 0) (CPL_LSBSINT32PTR h0 4)"
  let ?ob = "Open_bands sv (CPL_TO_BOOL (CPL_LSBSINT32PTR h0 0 - 20)) (?nb * 2)
               (CPL_LSBSINT32PTR h0 4164) (band_numbers ?nb) (h0(LCP_HEADER_SIZE - 1 := 0)) []"
  note oh = Open_header_eq [OF c g, of sv fp]
  have ob: "(?ob = None) =
      (\<not> list_all
            (\<lambda>iBand. RawRasterBand_Create sv (int iBand)
               (int LCP_HEADER_SIZE + (int iBand - 1) * 2) (?nb * 2)
               (?nb * 2 * CPL_LSBSINT32PTR h0 4164))
            (band_numbers ?nb))"
    by (rule Open_bands_None)
  show ?thesis
  proof (cases ?ob)
    case None
    then show ?thesis using ob by (simp only: oh) auto
  next
    case (Some r)
    then show ?thesis using ob by (simp only: oh) auto
  qed
qed

text \<open>What a successful \<^verbatim>\<open>Open\<close> says about the file it read.\<close>

lemma Open_SomeD:
  assumes wf: "openinfo_wf poOpenInfo" and op: "Open sv poOpenInfo = Some poDS"
  shows "fpL poOpenInfo = Some (fpImage poDS)"
    and "LCP_HEADER_SIZE \<le> vsi_size (fpImage poDS)"
    and "CPL_LSBSINT32PTR (vsi_data (fpImage poDS)) 0 = 20
         \<or> CPL_LSBSINT32PTR (vsi_data (fpImage poDS)) 0 = 21"
    and "CPL_LSBSINT32PTR (vsi_data (fpImage poDS)) 4 = 20
         \<or> CPL_LSBSINT32PTR (vsi_data (fpImage poDS)) 4 = 21"
    and "- 90 \<le> CPL_LSBSINT32PTR (vsi_data (fpImage poDS)) 8"
    and "CPL_LSBSINT32PTR (vsi_data (fpImage poDS)) 8 \<le> 90"
    and "nRasterXSize poDS = CPL_LSBSINT32PTR (vsi_data (fpImage poDS)) 4164"
    and "nRasterYSize poDS = CPL_LSBSINT32PTR (vsi_data (fpImage poDS)) 4168"
    and "GetRasterCount poDS =
           flag_band_count (CPL_LSBSINT32PTR (vsi_data (fpImage poDS)) 0)
                           (CPL_LSBSINT32PTR (vsi_data (fpImage poDS)) 4)"
    and "GetMetadataItem (ds_metadata poDS) ''LATITUDE''
           = Some (snprintf_d (CPL_LSBSINT32PTR (vsi_data (fpImage poDS)) 8))"
    and "\<exists>h1. Open_bands sv (CPL_LSBSINT32PTR (vsi_data (fpImage poDS)) 0 = 21)
                 (GetRasterCount poDS * 2) (nRasterXSize poDS)
                 (band_numbers (GetRasterCount poDS)) h1 []
               = Some (pachHeader poDS, papoBands poDS)
             \<and> (\<forall>i<LCP_HEADER_SIZE - 1. h1 i = vsi_data (fpImage poDS) i)"
proof -
  from op have id: "Identify poOpenInfo"
    by (simp add: Open_def split: if_splits)
  from op id obtain fp where fp: "fpL poOpenInfo = Some fp"
    by (cases "fpL poOpenInfo") (simp_all add: Open_def)
  let ?rd = "VSIFReadL LCP_HEADER_SIZE (VSIFSeekL_SET 0 fp)"
  let ?c = "CPL_LSBSINT32PTR (vsi_data fp) 0"
  let ?g = "CPL_LSBSINT32PTR (vsi_data fp) 4"
  from op id fp have acc: "eAccess poOpenInfo \<noteq> GA_Update"
    by (simp add: Open_def split: if_splits)
  from op id fp acc have rd: "fst ?rd = LCP_HEADER_SIZE"
    by (simp add: Open_def Let_def split: if_splits)
  then have sz: "LCP_HEADER_SIZE \<le> vsi_size fp"
    by (simp add: VSIFReadL_header(1))
  from op id fp acc rd have oh: "Open_header sv fp (snd ?rd) = Some poDS"
    by (simp add: Open_def Let_def)
  note f32 = header_field_32 [OF _ sz]
  have f0: "CPL_LSBSINT32PTR (snd ?rd) 0 = ?c"
    and f4: "CPL_LSBSINT32PTR (snd ?rd) 4 = ?g"
    and f8: "CPL_LSBSINT32PTR (snd ?rd) 8 = CPL_LSBSINT32PTR (vsi_data fp) 8"
    and fw: "CPL_LSBSINT32PTR (snd ?rd) 4164 = CPL_LSBSINT32PTR (vsi_data fp) 4164"
    and fh: "CPL_LSBSINT32PTR (snd ?rd) 4168 = CPL_LSBSINT32PTR (vsi_data fp) 4168"
    by (rule f32, simp add: LCP_HEADER_SIZE_def)+
  note wff = openinfo_wf_fields [OF wf fp]
  from id have c: "?c = 20 \<or> ?c = 21" and g: "?g = 20 \<or> ?g = 21"
    and lat: "- 90 \<le> CPL_LSBSINT32PTR (vsi_data fp) 8" "CPL_LSBSINT32PTR (vsi_data fp) 8 \<le> 90"
    by (auto simp add: Identify_def wff split: if_splits)
  note hd = Open_header_Some [OF oh, unfolded f0 f4 fw fh, OF c g]
  have crown: "CPL_TO_BOOL (?c - 20) = (?c = 21)"
    using c by (auto simp add: CPL_TO_BOOL_def)
  show "fpL poOpenInfo = Some (fpImage poDS)" using hd(1) fp by simp
  show "LCP_HEADER_SIZE \<le> vsi_size (fpImage poDS)" using hd(1) sz by simp
  show "CPL_LSBSINT32PTR (vsi_data (fpImage poDS)) 0 = 20
         \<or> CPL_LSBSINT32PTR (vsi_data (fpImage poDS)) 0 = 21"
    using hd(1) c by simp
  show "CPL_LSBSINT32PTR (vsi_data (fpImage poDS)) 4 = 20
         \<or> CPL_LSBSINT32PTR (vsi_data (fpImage poDS)) 4 = 21"
    using hd(1) g by simp
  show "- 90 \<le> CPL_LSBSINT32PTR (vsi_data (fpImage poDS)) 8" using hd(1) lat by simp
  show "CPL_LSBSINT32PTR (vsi_data (fpImage poDS)) 8 \<le> 90" using hd(1) lat by simp
  show "nRasterXSize poDS = CPL_LSBSINT32PTR (vsi_data (fpImage poDS)) 4164"
    using hd(1,2) by simp
  show "nRasterYSize poDS = CPL_LSBSINT32PTR (vsi_data (fpImage poDS)) 4168"
    using hd(1,3) by simp
  show "GetRasterCount poDS =
           flag_band_count (CPL_LSBSINT32PTR (vsi_data (fpImage poDS)) 0)
                           (CPL_LSBSINT32PTR (vsi_data (fpImage poDS)) 4)"
    using hd(1,6) by simp
  show "GetMetadataItem (ds_metadata poDS) ''LATITUDE''
           = Some (snprintf_d (CPL_LSBSINT32PTR (vsi_data (fpImage poDS)) 8))"
    using hd(1,4) by (simp add: Open_metadata_LATITUDE f8)
  have "\<forall>i<LCP_HEADER_SIZE - 1. ((snd ?rd)(LCP_HEADER_SIZE - 1 := 0)) i = vsi_data fp i"
    using VSIFReadL_header(2) [OF _ sz] by simp
  then show "\<exists>h1. Open_bands sv (CPL_LSBSINT32PTR (vsi_data (fpImage poDS)) 0 = 21)
                 (GetRasterCount poDS * 2) (nRasterXSize poDS)
                 (band_numbers (GetRasterCount poDS)) h1 []
               = Some (pachHeader poDS, papoBands poDS)
             \<and> (\<forall>i<LCP_HEADER_SIZE - 1. h1 i = vsi_data (fpImage poDS) i)"
    using hd(1,2,5,6) crown
    by (intro exI [of _ "(snd ?rd)(LCP_HEADER_SIZE - 1 := 0)"]) (simp)
qed

text \<open>When \<^verbatim>\<open>Open\<close> returns no dataset.\<close>

lemma Open_None_iff:
  assumes wf: "openinfo_wf poOpenInfo"
  shows "(Open sv poOpenInfo = None) =
     (nHeaderBytes poOpenInfo < 50
      \<or> \<not> EQUAL (osExtension poOpenInfo) ''lcp''
      \<or> eAccess poOpenInfo = GA_Update
      \<or> (case fpL poOpenInfo of
            None \<Rightarrow> True
          | Some fp \<Rightarrow>
              vsi_size fp < LCP_HEADER_SIZE
              \<or> (CPL_LSBSINT32PTR (vsi_data fp) 0 \<noteq> 20 \<and> CPL_LSBSINT32PTR (vsi_data fp) 0 \<noteq> 21)
              \<or> (CPL_LSBSINT32PTR (vsi_data fp) 4 \<noteq> 20 \<and> CPL_LSBSINT32PTR (vsi_data fp) 4 \<noteq> 21)
              \<or> CPL_LSBSINT32PTR (vsi_data fp) 8 < - 90
              \<or> 90 < CPL_LSBSINT32PTR (vsi_data fp) 8
              \<or> CPL_LSBSINT32PTR (vsi_data fp) 4164 \<le> 0
              \<or> CPL_LSBSINT32PTR (vsi_data fp) 4168 \<le> 0
              \<or> INT_MAX div (flag_band_count (CPL_LSBSINT32PTR (vsi_data fp) 0)
                                (CPL_LSBSINT32PTR (vsi_data fp) 4) * 2)
                    < CPL_LSBSINT32PTR (vsi_data fp) 4164
              \<or> \<not> list_all
                    (\<lambda>iBand. RawRasterBand_Create sv (int iBand)
                       (int LCP_HEADER_SIZE + (int iBand - 1) * 2)
                       (flag_band_count (CPL_LSBSINT32PTR (vsi_data fp) 0)
                          (CPL_LSBSINT32PTR (vsi_data fp) 4) * 2)
                       (flag_band_count (CPL_LSBSINT32PTR (vsi_data fp) 0)
                          (CPL_LSBSINT32PTR (vsi_data fp) 4) * 2
                        * CPL_LSBSINT32PTR (vsi_data fp) 4164))
                    (band_numbers (flag_band_count (CPL_LSBSINT32PTR (vsi_data fp) 0)
                                (CPL_LSBSINT32PTR (vsi_data fp) 4)))))"
proof (cases "fpL poOpenInfo")
  case None
  then show ?thesis by (simp add: Open_def)
next
  case (Some fp)
  let ?rd = "VSIFReadL LCP_HEADER_SIZE (VSIFSeekL_SET 0 fp)"
  let ?c = "CPL_LSBSINT32PTR (vsi_data fp) 0"
  let ?g = "CPL_LSBSINT32PTR (vsi_data fp) 4"
  note wff = openinfo_wf_fields [OF wf Some]
  show ?thesis
  proof (cases "Identify poOpenInfo")
    case False
    then have "Open sv poOpenInfo = None" by (simp add: Open_def)
    moreover from False have "nHeaderBytes poOpenInfo < 50
      \<or> \<not> EQUAL (osExtension poOpenInfo) ''lcp''
      \<or> (?c \<noteq> 20 \<and> ?c \<noteq> 21) \<or> (?g \<noteq> 20 \<and> ?g \<noteq> 21)
      \<or> CPL_LSBSINT32PTR (vsi_data fp) 8 < - 90 \<or> 90 < CPL_LSBSINT32PTR (vsi_data fp) 8"
      by (simp add: Identify_def wff split: if_splits)
    ultimately show ?thesis using Some by auto
  next
    case id: True
    then have c: "?c = 20 \<or> ?c = 21" and g: "?g = 20 \<or> ?g = 21"
      and rest: "\<not> nHeaderBytes poOpenInfo < 50" "EQUAL (osExtension poOpenInfo) ''lcp''"
        "\<not> CPL_LSBSINT32PTR (vsi_data fp) 8 < - 90" "\<not> 90 < CPL_LSBSINT32PTR (vsi_data fp) 8"
      by (auto simp add: Identify_def wff split: if_splits)
    have cg: "\<not> (?c \<noteq> 20 \<and> ?c \<noteq> 21)" "\<not> (?g \<noteq> 20 \<and> ?g \<noteq> 21)"
      using c g by auto
    show ?thesis
    proof (cases "eAccess poOpenInfo = GA_Update")
      case True
      then show ?thesis using id Some by (simp add: Open_def)
    next
      case acc: False
      show ?thesis
      proof (cases "LCP_HEADER_SIZE \<le> vsi_size fp")
        case False
        then have "fst ?rd \<noteq> LCP_HEADER_SIZE" by (simp add: VSIFReadL_header(1))
        then have "Open sv poOpenInfo = None"
          using id Some acc by (simp add: Open_def Let_def)
        then show ?thesis using False Some by simp
      next
        case sz: True
        then have rd: "fst ?rd = LCP_HEADER_SIZE" by (simp add: VSIFReadL_header(1))
        note f32 = header_field_32 [OF _ sz]
        have f0: "CPL_LSBSINT32PTR (snd ?rd) 0 = ?c"
          and f4: "CPL_LSBSINT32PTR (snd ?rd) 4 = ?g"
          and fw: "CPL_LSBSINT32PTR (snd ?rd) 4164 = CPL_LSBSINT32PTR (vsi_data fp) 4164"
          and fh: "CPL_LSBSINT32PTR (snd ?rd) 4168 = CPL_LSBSINT32PTR (vsi_data fp) 4168"
          by (rule f32, simp add: LCP_HEADER_SIZE_def)+
        have "Open sv poOpenInfo = Open_header sv fp (snd ?rd)"
          using id Some acc rd by (simp add: Open_def Let_def)
        then show ?thesis
          using Open_header_None_iff [of "snd ?rd" sv fp, unfolded f0 f4 fw fh, OF c g]
            Some rest c g acc sz
          by auto
      qed
    qed
  qed
qed

lemma example_openinfo_wf: "openinfo_wf (example_openinfo lat)"
  by (simp add: openinfo_wf_def example_openinfo_def list_all_iff)

lemma example_file_fields:
  "CPL_LSBSINT32PTR (vsi_data (example_file lat)) 0 = 20"
  "CPL_LSBSINT32PTR (vsi_data (example_file lat)) 4 = 20"
  "CPL_LSBSINT32PTR (vsi_data (example_file lat)) 8 = uint lat"
  "CPL_LSBSINT32PTR (vsi_data (example_file lat)) 4164 = 1"
  "CPL_LSBSINT32PTR (vsi_data (example_file lat)) 4168 = 1"
  by (simp_all add: example_file_def CPL_LSBSINT32PTR_def sint_ucast_byte)

text \<open>The band loop changes the header only in the file-name slots, from offset 4244 on.\<close>

lemma Open_band_keeps: "i < 4244 \<Longrightarrow> fst (Open_band c iBand h) i = h i"
  by (simp add: Open_band_def plain_band_def band_file_def Let_def)

lemma Open_bands_keeps:
  "Open_bands sv c ps w is h acc = Some (h', bands) \<Longrightarrow> i < 4244 \<Longrightarrow> h' i = h i"
proof (induction "is" arbitrary: h acc)
  case Nil
  then show ?case by simp
next
  case (Cons iBand "is")
  from Cons.prems(1) obtain acc' where
    "Open_bands sv c ps w is (fst (Open_band c iBand h)) acc' = Some (h', bands)"
    by (auto simp add: Let_def split: if_splits)
  from Cons.IH [OF this Cons.prems(2)] show ?case
    by (simp add: Open_band_keeps [OF Cons.prems(2)])
qed

lemma Open_header_kept:
  assumes wf: "openinfo_wf poOpenInfo" and op: "Open sv poOpenInfo = Some poDS"
    and i: "i < 4244"
  shows "pachHeader poDS i = vsi_data (fpImage poDS) i"
proof -
  from Open_SomeD(11) [OF wf op] obtain h1 where
    ob: "Open_bands sv (CPL_LSBSINT32PTR (vsi_data (fpImage poDS)) 0 = 21)
           (GetRasterCount poDS * 2) (nRasterXSize poDS)
           (band_numbers (GetRasterCount poDS)) h1 []
         = Some (pachHeader poDS, papoBands poDS)"
    and h1: "\<forall>i<LCP_HEADER_SIZE - 1. h1 i = vsi_data (fpImage poDS) i"
    by blast
  have "pachHeader poDS i = h1 i" by (rule Open_bands_keeps [OF ob i])
  also have "\<dots> = vsi_data (fpImage poDS) i"
    using h1 i by (simp add: LCP_HEADER_SIZE_def)
  finally show ?thesis .
qed

section \<open>The unit and option codes in the metadata of the bands\<close>

lemma CPL_LSBUINT16PTR_cong:
  "p off = q off \<Longrightarrow> p (off + 1) = q (off + 1)
     \<Longrightarrow> CPL_LSBUINT16PTR p off = CPL_LSBUINT16PTR q off"
  by (simp add: CPL_LSBUINT16PTR_def)

lemma fold_names_keeps:
  "k \<noteq> name_key \<Longrightarrow>
     map_of (fold (\<lambda>cn m. if nTemp = fst cn then SetMetadataItem name_key (snd cn) m else m)
               names md) k = map_of md k"
  by (induction names arbitrary: md) (simp_all add: map_of_SetMetadataItem)

lemma band_unit_item:
  "unit_key \<noteq> name_key \<Longrightarrow>
     map_of (band_unit h unit_key off name_key names md) unit_key
       = Some (snprintf_d (CPL_LSBUINT16PTR h off))"
  by (simp add: band_unit_def Let_def fold_names_keeps map_of_SetMetadataItem)

lemma band_stats_keeps:
  "k \<noteq> prefix @ ''_MIN'' \<Longrightarrow> k \<noteq> prefix @ ''_MAX'' \<Longrightarrow> k \<noteq> prefix @ ''_NUM_CLASSES''
     \<Longrightarrow> map_of (band_stats h prefix off md) k = map_of md k"
  by (simp add: band_stats_def map_of_SetMetadataItem)

lemma band_file_keeps:
  "k \<noteq> file_key \<Longrightarrow> map_of (snd (band_file h file_key off md)) k = map_of md k"
  by (simp add: band_file_def Let_def map_of_SetMetadataItem)

lemma plain_band_unit:
  assumes "unit_key \<noteq> name_key" and "unit_key \<noteq> prefix @ ''_MIN''"
    and "unit_key \<noteq> prefix @ ''_MAX''" and "unit_key \<noteq> prefix @ ''_NUM_CLASSES''"
    and "unit_key \<noteq> file_key"
  shows "map_of
           (snd (snd (plain_band h desc unit_key unit_off name_key names prefix stats_off
                        file_key file_off))) unit_key
         = Some (snprintf_d (CPL_LSBUINT16PTR h unit_off))"
  using assms
  by (simp add: plain_band_def Let_def band_file_keeps band_stats_keeps band_unit_item)

text \<open>
  Every case of the band \<^verbatim>\<open>switch\<close> leaves the decimal form of its unit or option
  code, read from the header, in the metadata of the band.
\<close>

lemma Open_band_unit:
  "GetMetadataItem (snd (snd (Open_band c 1 h))) ''ELEVATION_UNIT''
     = Some (snprintf_d (CPL_LSBUINT16PTR h 4224))"
  "GetMetadataItem (snd (snd (Open_band c 2 h))) ''SLOPE_UNIT''
     = Some (snprintf_d (CPL_LSBUINT16PTR h 4226))"
  "GetMetadataItem (snd (snd (Open_band c 3 h))) ''ASPECT_UNIT''
     = Some (snprintf_d (CPL_LSBUINT16PTR h 4228))"
  "GetMetadataItem (snd (snd (Open_band c 4 h))) ''FUEL_MODEL_OPTION''
     = Some (snprintf_d (CPL_LSBUINT16PTR h 4230))"
  "GetMetadataItem (snd (snd (Open_band c 5 h))) ''CANOPY_COV_UNIT''
     = Some (snprintf_d (CPL_LSBUINT16PTR h 4232))"
  "GetMetadataItem (snd (snd (Open_band True 6 h))) ''CANOPY_HT_UNIT''
     = Some (snprintf_d (CPL_LSBUINT16PTR h 4234))"
  "GetMetadataItem (snd (snd (Open_band True 7 h))) ''CBH_UNIT''
     = Some (snprintf_d (CPL_LSBUINT16PTR h 4236))"
  "GetMetadataItem (snd (snd (Open_band c 8 h))) ''CBD_UNIT''
     = Some (snprintf_d (CPL_LSBUINT16PTR h 4238))"
  "GetMetadataItem (snd (snd (Open_band False 6 h))) ''DUFF_UNIT''
     = Some (snprintf_d (CPL_LSBUINT16PTR h 4240))"
  "GetMetadataItem (snd (snd (Open_band False 7 h))) ''CWD_OPTION''
     = Some (snprintf_d (CPL_LSBUINT16PTR h 4242))"
  "GetMetadataItem (snd (snd (Open_band c 9 h))) ''DUFF_UNIT''
     = Some (snprintf_d (CPL_LSBUINT16PTR h 4240))"
  "GetMetadataItem (snd (snd (Open_band c 10 h))) ''CWD_OPTION''
     = Some (snprintf_d (CPL_LSBUINT16PTR h 4242))"
  by (simp_all add: Open_band_def plain_band_unit Let_def GetMetadataItem_def band_file_keeps
        band_stats_keeps band_unit_item map_of_SetMetadataItem)

lemma Open_bands_prefix:
  "Open_bands sv c ps w is h acc = Some (h', bands) \<Longrightarrow> \<exists>rest. bands = acc @ rest"
proof (induction "is" arbitrary: h acc)
  case Nil
  then show ?case by simp
next
  case (Cons iBand "is")
  from Cons.prems obtain b where
    "Open_bands sv c ps w is (fst (Open_band c iBand h)) (acc @ [b]) = Some (h', bands)"
    by (auto simp add: Let_def split: if_splits)
  from Cons.IH [OF this] show ?case by auto
qed

text \<open>
  The metadata of the band at an index is what the \<^verbatim>\<open>switch\<close> gives for its band
  number, on a header that still holds the bytes below the file names.
\<close>

lemma Open_bands_nth:
  "Open_bands sv c ps w is h acc = Some (h', bands) \<Longrightarrow> k < length is \<Longrightarrow>
     \<exists>hk. (\<forall>i<4244. hk i = h i)
          \<and> band_metadata (bands ! (length acc + k)) = snd (snd (Open_band c (is ! k) hk))"
proof (induction "is" arbitrary: h acc k)
  case Nil
  then show ?case by simp
next
  case (Cons iBand "is")
  let ?r = "Open_band c iBand h"
  let ?b = "\<lparr>band_description = fst (snd ?r), band_metadata = snd (snd ?r),
             nImgOffset = int LCP_HEADER_SIZE + (int iBand - 1) * 2,
             nPixelOffset = ps, nLineOffset = ps * w\<rparr>"
  from Cons.prems(1) have
    ob: "Open_bands sv c ps w is (fst ?r) (acc @ [?b]) = Some (h', bands)"
    by (simp add: Let_def split: if_splits)
  show ?case
  proof (cases k)
    case 0
    from Open_bands_prefix [OF ob] obtain rest where "bands = (acc @ [?b]) @ rest" by blast
    then have "bands ! length acc = ?b" by (simp add: nth_append)
    then have "band_metadata (bands ! (length acc + k)) = snd (snd (Open_band c ((iBand # is) ! k) h))"
      using 0 by simp
    then show ?thesis by blast
  next
    case (Suc j)
    with Cons.prems(2) have j: "j < length is" by simp
    from Cons.IH [OF ob j] obtain hk where
      a: "\<forall>i<4244. hk i = fst ?r i"
      and b: "band_metadata (bands ! (length (acc @ [?b]) + j)) = snd (snd (Open_band c (is ! j) hk))"
      by blast
    have "\<forall>i<4244. hk i = h i"
      using a by (simp add: Open_band_keeps)
    moreover have "band_metadata (bands ! (length acc + k))
                     = snd (snd (Open_band c ((iBand # is) ! k) hk))"
      using b Suc by simp
    ultimately show ?thesis by blast
  qed
qed

lemma band_numbers_nth: "int k < n \<Longrightarrow> band_numbers n ! k = k + 1"
proof -
  assume "int k < n"
  then have "1 + k < nat n + 1" by simp
  then have "[1..<nat n + 1] ! k = 1 + k" by (rule nth_upt)
  then show ?thesis by (simp only: band_numbers_def add.commute)
qed

lemma length_band_numbers: "length (band_numbers n) = nat n"
  by (simp add: band_numbers_def)

lemma Open_band_metadata:
  assumes wf: "openinfo_wf poOpenInfo" and op: "Open sv poOpenInfo = Some poDS"
    and k: "int k < GetRasterCount poDS"
  shows "\<exists>hk. (\<forall>i<4244. hk i = vsi_data (fpImage poDS) i)
          \<and> band_metadata (papoBands poDS ! k)
              = snd (snd (Open_band (CPL_LSBSINT32PTR (vsi_data (fpImage poDS)) 0 = 21)
                            (k + 1) hk))"
proof -
  from Open_SomeD(11) [OF wf op] obtain h1 where
    ob: "Open_bands sv (CPL_LSBSINT32PTR (vsi_data (fpImage poDS)) 0 = 21)
           (GetRasterCount poDS * 2) (nRasterXSize poDS)
           (band_numbers (GetRasterCount poDS)) h1 []
         = Some (pachHeader poDS, papoBands poDS)"
    and h1: "\<forall>i<LCP_HEADER_SIZE - 1. h1 i = vsi_data (fpImage poDS) i"
    by blast
  have kl: "k < length (band_numbers (GetRasterCount poDS))"
    using k by (simp add: length_band_numbers)
  from Open_bands_nth [OF ob kl] obtain hk where
    a: "\<forall>i<4244. hk i = h1 i"
    and b: "band_metadata (papoBands poDS ! (length ([] :: LCPBand list) + k))
              = snd (snd (Open_band (CPL_LSBSINT32PTR (vsi_data (fpImage poDS)) 0 = 21)
                            (band_numbers (GetRasterCount poDS) ! k) hk))"
    by blast
  have "\<forall>i<4244. hk i = vsi_data (fpImage poDS) i"
    using a h1 by (simp add: LCP_HEADER_SIZE_def)
  moreover have "band_metadata (papoBands poDS ! k)
              = snd (snd (Open_band (CPL_LSBSINT32PTR (vsi_data (fpImage poDS)) 0 = 21)
                            (k + 1) hk))"
    using b by (simp add: band_numbers_nth [OF k])
  ultimately show ?thesis by blast
qed

text \<open>
  So the bands of every dataset \<^verbatim>\<open>Open\<close> returns carry the codes of the file: the five
  of every file, the three of the crown fuels, and the two of the ground fuels in the
  bands 6 and 7 or 9 and 10.
\<close>

lemma Open_band_unit_item:
  assumes wf: "openinfo_wf poOpenInfo" and op: "Open sv poOpenInfo = Some poDS"
    and k: "int k < GetRasterCount poDS"
    and u: "\<And>hk. GetMetadataItem
                   (snd (snd (Open_band (CPL_LSBSINT32PTR (vsi_data (fpImage poDS)) 0 = 21)
                                (k + 1) hk))) key
                 = Some (snprintf_d (CPL_LSBUINT16PTR hk off))"
    and off: "off + 1 < 4244"
  shows "GetMetadataItem (band_metadata (papoBands poDS ! k)) key
           = Some (snprintf_d (CPL_LSBUINT16PTR (vsi_data (fpImage poDS)) off))"
proof -
  from Open_band_metadata [OF wf op k] obtain hk where
    a: "\<forall>i<4244. hk i = vsi_data (fpImage poDS) i"
    and b: "band_metadata (papoBands poDS ! k)
              = snd (snd (Open_band (CPL_LSBSINT32PTR (vsi_data (fpImage poDS)) 0 = 21)
                            (k + 1) hk))"
    by blast
  have "CPL_LSBUINT16PTR hk off = CPL_LSBUINT16PTR (vsi_data (fpImage poDS)) off"
    using a off by (intro CPL_LSBUINT16PTR_cong) simp_all
  then show ?thesis using u [of hk] by (simp add: b)
qed

section \<open>Properties of the file operations\<close>

lemma offset_VSIFWriteL [simp]: "vsi_offset (VSIFWriteL bs fp) = vsi_offset fp + length bs"
  by (simp add: VSIFWriteL_def)

lemma offset_VSIFSeekL_SET [simp]: "vsi_offset (VSIFSeekL_SET off fp) = off"
  by (simp add: VSIFSeekL_SET_def)

lemma offset_VSIFSeekL_CUR [simp]: "vsi_offset (VSIFSeekL_CUR n fp) = vsi_offset fp + n"
  by (simp add: VSIFSeekL_CUR_def)

lemma data_VSIFSeekL_SET [simp]: "vsi_data (VSIFSeekL_SET off fp) = vsi_data fp"
  by (simp add: VSIFSeekL_SET_def)

lemma data_VSIFSeekL_CUR [simp]: "vsi_data (VSIFSeekL_CUR n fp) = vsi_data fp"
  by (simp add: VSIFSeekL_CUR_def)

lemma data_VSIFWriteL:
  "vsi_data (VSIFWriteL bs fp) i =
     (if vsi_offset fp \<le> i \<and> i < vsi_offset fp + length bs then bs ! (i - vsi_offset fp)
      else vsi_data fp i)"
  by (auto simp add: VSIFWriteL_def)

lemma data_VSIFWriteL_below:
  "i < vsi_offset fp \<Longrightarrow> vsi_data (VSIFWriteL bs fp) i = vsi_data fp i"
  by (simp add: data_VSIFWriteL)

lemma VSIFWriteL_append: "VSIFWriteL (as @ bs) fp = VSIFWriteL bs (VSIFWriteL as fp)"
proof (cases "as = [] \<or> bs = []")
  case True
  then show ?thesis by (auto simp add: VSIFWriteL_def)
next
  case False
  have "vsi_data (VSIFWriteL (as @ bs) fp) = vsi_data (VSIFWriteL bs (VSIFWriteL as fp))"
    by (rule ext) (auto simp add: data_VSIFWriteL nth_append)
  moreover have "vsi_size (VSIFWriteL (as @ bs) fp) = vsi_size (VSIFWriteL bs (VSIFWriteL as fp))"
    using False by (simp add: VSIFWriteL_def)
  moreover have "vsi_offset (VSIFWriteL (as @ bs) fp)
                   = vsi_offset (VSIFWriteL bs (VSIFWriteL as fp))"
    by simp
  ultimately show ?thesis using False by (simp add: VSIFWriteL_def)
qed

lemma stored_iff: "stored d off bs = (\<forall>k<length bs. d (off + k) = bs ! k)"
  by (auto simp add: stored_def list_all_iff)

lemma stored_VSIFWriteL: "stored (vsi_data (VSIFWriteL bs fp)) (vsi_offset fp) bs"
  by (simp add: stored_iff data_VSIFWriteL)

lemma stored_append:
  "stored d off (as @ bs) = (stored d off as \<and> stored d (off + length as) bs)"
proof
  assume h: "stored d off (as @ bs)"
  have "stored d off as"
    using h by (auto simp add: stored_iff nth_append)
  moreover have "stored d (off + length as) bs"
  proof (unfold stored_iff, intro allI impI)
    fix k assume "k < length bs"
    then show "d (off + length as + k) = bs ! k"
      using h [unfolded stored_iff, rule_format, of "length as + k"]
      by (simp add: nth_append add.assoc)
  qed
  ultimately show "stored d off as \<and> stored d (off + length as) bs" ..
next
  assume h: "stored d off as \<and> stored d (off + length as) bs"
  show "stored d off (as @ bs)"
  proof (unfold stored_iff, intro allI impI)
    fix k assume k: "k < length (as @ bs)"
    show "d (off + k) = (as @ bs) ! k"
    proof (cases "k < length as")
      case True
      then show ?thesis using h by (simp add: stored_iff nth_append)
    next
      case False
      then have "k - length as < length bs" using k by simp
      then have "d (off + length as + (k - length as)) = bs ! (k - length as)"
        using h by (simp add: stored_iff)
      then show ?thesis using False by (simp add: nth_append)
    qed
  qed
qed

lemma stored_cong:
  "stored d off bs \<Longrightarrow> (\<And>i. off \<le> i \<Longrightarrow> i < off + length bs \<Longrightarrow> d' i = d i)
     \<Longrightarrow> stored d' off bs"
  by (simp add: stored_iff)

lemma length_lsb [simp]:
  "length (lsb16 a) = 2" "length (lsb32 b) = 4" "length (lsb64 c) = 8"
  by (simp_all add: lsb16_def lsb32_def lsb64_def)

lemma stored_lsb32: "stored d off (lsb32 w) \<Longrightarrow> CPL_LSBSINT32PTR d off = sint w"
proof -
  assume h: "stored d off (lsb32 w)"
  have "[d off, d (off + 1), d (off + 2), d (off + 3)] = lsb32 w"
    using h [unfolded stored_iff, rule_format, of 0] h [unfolded stored_iff, rule_format, of 1]
      h [unfolded stored_iff, rule_format, of 2] h [unfolded stored_iff, rule_format, of 3]
    by (simp add: lsb32_def)
  then show ?thesis by (simp add: CPL_LSBSINT32PTR_def lsb_word_lsb32)
qed

lemma stored_lsb16: "stored d off (lsb16 w) \<Longrightarrow> CPL_LSBUINT16PTR d off = uint w"
proof -
  assume h: "stored d off (lsb16 w)"
  have "[d off, d (off + 1)] = lsb16 w"
    using h [unfolded stored_iff, rule_format, of 0] h [unfolded stored_iff, rule_format, of 1]
    by (simp add: lsb16_def)
  then show ?thesis by (simp add: CPL_LSBUINT16PTR_def lsb_word_lsb16)
qed

lemma stored_lsb64: "stored d off (lsb64 w) \<Longrightarrow> LSBPTR64_at d off = w"
proof -
  assume h: "stored d off (lsb64 w)"
  have "[d off, d (off + 1), d (off + 2), d (off + 3), d (off + 4), d (off + 5), d (off + 6),
         d (off + 7)] = lsb64 w"
    using h [unfolded stored_iff, rule_format, of 0] h [unfolded stored_iff, rule_format, of 1]
      h [unfolded stored_iff, rule_format, of 2] h [unfolded stored_iff, rule_format, of 3]
      h [unfolded stored_iff, rule_format, of 4] h [unfolded stored_iff, rule_format, of 5]
      h [unfolded stored_iff, rule_format, of 6] h [unfolded stored_iff, rule_format, of 7]
    by (simp add: lsb64_def)
  then show ?thesis by (simp add: LSBPTR64_at_def lsb_word_lsb64)
qed

lemma stored_concat_lsb16:
  "stored d off (concat (map lsb16 pm)) \<Longrightarrow> k < length pm
     \<Longrightarrow> CPL_LSBUINT16PTR d (off + 2 * k) = uint (pm ! k)"
proof (induction pm arbitrary: off k)
  case Nil
  then show ?case by simp
next
  case (Cons a pm)
  from Cons.prems(1) have a: "stored d off (lsb16 a)"
    and r: "stored d (off + 2) (concat (map lsb16 pm))"
    by (simp_all add: stored_append)
  show ?case
  proof (cases k)
    case 0
    then show ?thesis using stored_lsb16 [OF a] by simp
  next
    case (Suc j)
    then have "j < length pm" using Cons.prems(2) by simp
    from Cons.IH [OF r this] show ?thesis using Suc by (simp add: add.assoc)
  qed
qed

section \<open>Properties of the header writer\<close>

lemma write_preamble_eq:
  "write_preamble sv poSrcDS plan fp = VSIFWriteL (preamble_bytes sv poSrcDS plan) fp"
  by (simp add: write_preamble_def preamble_bytes_def Let_def write_GInt32_def write_double_def
        VSIFWriteL_append)

lemma write_geo_eq:
  "write_geo sv poSrcDS plan fp
     = VSIFWriteL (geo_bytes sv poSrcDS plan) (VSIFSeekL_SET 4164 fp)"
  by (simp add: write_geo_def geo_bytes_def Let_def write_GInt32_def write_double_def
        VSIFWriteL_append)

lemma length_preamble_bytes [simp]: "length (preamble_bytes sv poSrcDS plan) = 44"
  by (simp add: preamble_bytes_def)

lemma length_concat_lsb16 [simp]: "length (concat (map lsb16 pm)) = 2 * length pm"
  by (induction pm) simp_all

lemma length_geo_bytes [simp]:
  "length (geo_bytes sv poSrcDS plan) = 60 + 2 * length (panMetadata plan)"
  by (simp add: geo_bytes_def)

text \<open>The statistics loop stays at or above offset 44 and leaves the bytes below it.\<close>

lemma write_band_stats_frame:
  assumes "44 \<le> vsi_offset fp"
  shows "44 \<le> vsi_offset (write_band_stats sv plan i fp)"
    and "j < 44 \<Longrightarrow> vsi_data (write_band_stats sv plan i fp) j = vsi_data fp j"
  using assms
  by (auto simp add: write_band_stats_def Let_def write_GInt32_def data_VSIFWriteL)

lemma fold_write_band_stats_frame:
  "44 \<le> vsi_offset fp \<Longrightarrow>
     44 \<le> vsi_offset (fold (write_band_stats sv plan) is fp)
     \<and> (\<forall>j<44. vsi_data (fold (write_band_stats sv plan) is fp) j = vsi_data fp j)"
proof (induction "is" arbitrary: fp)
  case Nil
  then show ?case by simp
next
  case (Cons i "is")
  from write_band_stats_frame [OF Cons.prems]
  have a: "44 \<le> vsi_offset (write_band_stats sv plan i fp)"
    and b: "\<And>j. j < 44 \<Longrightarrow> vsi_data (write_band_stats sv plan i fp) j = vsi_data fp j"
    by simp_all
  from Cons.IH [OF a] b show ?case by simp
qed

lemma write_stats_frame:
  "44 \<le> vsi_offset fp \<Longrightarrow> j < 44 \<Longrightarrow>
     vsi_data (write_stats sv nBands plan fp) j = vsi_data fp j"
  using fold_write_band_stats_frame [of fp sv plan "[0..<nBands]"]
  by (simp add: write_stats_def)

text \<open>The file names go to offset 4244 and above.\<close>

lemma write_file_name_frame:
  assumes "4244 \<le> vsi_offset fp"
  shows "4244 \<le> vsi_offset (write_file_name plan name i fp)"
    and "j < 4244 \<Longrightarrow> vsi_data (write_file_name plan name i fp) j = vsi_data fp j"
  using assms
  by (auto simp add: write_file_name_def Let_def data_VSIFWriteL)

lemma fold_write_file_name_frame:
  "4244 \<le> vsi_offset fp \<Longrightarrow>
     4244 \<le> vsi_offset (fold (write_file_name plan name) is fp)
     \<and> (\<forall>j<4244. vsi_data (fold (write_file_name plan name) is fp) j = vsi_data fp j)"
proof (induction "is" arbitrary: fp)
  case Nil
  then show ?case by simp
next
  case (Cons i "is")
  from write_file_name_frame [OF Cons.prems]
  have a: "4244 \<le> vsi_offset (write_file_name plan name i fp)"
    and b: "\<And>j. j < 4244 \<Longrightarrow> vsi_data (write_file_name plan name i fp) j = vsi_data fp j"
    by simp_all
  from Cons.IH [OF a] b show ?case by simp
qed

lemma write_file_names_frame:
  "4244 \<le> vsi_offset fp \<Longrightarrow> j < 4244 \<Longrightarrow>
     vsi_data (write_file_names nBands poSrcDS plan fp) j = vsi_data fp j"
  using fold_write_file_name_frame [of fp plan _ "[0..<nBands]"]
  by (simp add: write_file_names_def split: option.splits)

lemma write_description_frame:
  "j < 6804 \<Longrightarrow> vsi_data (write_description plan fp) j = vsi_data fp j"
  by (simp add: write_description_def data_VSIFWriteL)

text \<open>The image goes to offset 7316 and above.\<close>

lemma copy_lines_frame:
  "7316 \<le> vsi_offset fp \<Longrightarrow> j < 7316 \<Longrightarrow>
     vsi_data (fst (snd (copy_lines sv poSrcDS ls buf fp))) j = vsi_data fp j"
proof (induction ls arbitrary: buf fp)
  case Nil
  then show ?case by simp
next
  case (Cons iLine ls)
  let ?r = "read_scanline poSrcDS iLine buf"
  let ?fp = "VSIFWriteL (concat (map lsb16 (snd ?r))) fp"
  have a: "7316 \<le> vsi_offset ?fp" using Cons.prems(1) by simp
  have b: "vsi_data ?fp j = vsi_data fp j"
    using Cons.prems by (simp add: data_VSIFWriteL)
  show ?case
    using Cons.IH [OF a Cons.prems(2), of "snd ?r"] b
    by (simp add: Let_def split_beta)
qed

lemma write_header_data:
  assumes w: "write_header sv poSrcDS plan VSIFOpenL_wb = Inr fp"
    and pm: "length (panMetadata plan) = 10"
  shows "stored (vsi_data fp) 0 (preamble_bytes sv poSrcDS plan)"
    and "stored (vsi_data fp) 4164 (geo_bytes sv poSrcDS plan)"
    and "vsi_offset fp = 7316"
proof -
  let ?n = "length (src_bands poSrcDS)"
  let ?f0 = "write_preamble sv poSrcDS plan VSIFOpenL_wb"
  let ?f1 = "write_stats sv ?n plan ?f0"
  let ?f2 = "write_geo sv poSrcDS plan ?f1"
  let ?f3 = "write_file_names ?n poSrcDS plan ?f2"
  let ?f4 = "write_description plan ?f3"
  from w have fp: "fp = VSIFSeekL_SET 7316 ?f4"
    by (simp add: write_header_def Let_def split: if_splits)
  have o0: "vsi_offset ?f0 = 44"
    by (simp add: write_preamble_eq VSIFOpenL_wb_def)
  have s0: "stored (vsi_data ?f0) 0 (preamble_bytes sv poSrcDS plan)"
    using stored_VSIFWriteL [of "preamble_bytes sv poSrcDS plan" VSIFOpenL_wb]
    by (simp add: write_preamble_eq VSIFOpenL_wb_def)
  have o2: "vsi_offset ?f2 = 4244"
    by (simp add: write_geo_eq pm)
  have s2: "stored (vsi_data ?f2) 4164 (geo_bytes sv poSrcDS plan)"
    using stored_VSIFWriteL [of "geo_bytes sv poSrcDS plan" "VSIFSeekL_SET 4164 ?f1"]
    by (simp add: write_geo_eq)
  have d1: "\<And>j. j < 44 \<Longrightarrow> vsi_data ?f1 j = vsi_data ?f0 j"
    by (rule write_stats_frame) (simp_all add: o0)
  have d2: "\<And>j. j < 4164 \<Longrightarrow> vsi_data ?f2 j = vsi_data ?f1 j"
    by (simp add: write_geo_eq data_VSIFWriteL)
  have d3: "\<And>j. j < 4244 \<Longrightarrow> vsi_data ?f3 j = vsi_data ?f2 j"
    by (rule write_file_names_frame) (simp_all add: o2)
  have d4: "\<And>j. j < 6804 \<Longrightarrow> vsi_data ?f4 j = vsi_data ?f3 j"
    by (rule write_description_frame)
  show "stored (vsi_data fp) 0 (preamble_bytes sv poSrcDS plan)"
    by (rule stored_cong [OF s0]) (simp add: fp d1 d2 d3 d4)
  show "stored (vsi_data fp) 4164 (geo_bytes sv poSrcDS plan)"
    by (rule stored_cong [OF s2]) (simp add: fp d3 d4 pm)
  show "vsi_offset fp = 7316" by (simp add: fp)
qed

section \<open>Properties of the preparation\<close>

lemma then_step_Inr_iff:
  "(snd (then_step r f) = Inr y) = (\<exists>x. snd r = Inr x \<and> snd (f x) = Inr y)"
  by (cases "snd r") (simp_all add: then_step_def)

lemma then_step_Inl_iff:
  "(snd (then_step r f) = Inl e) = (snd r = Inl e \<or> (\<exists>x. snd r = Inr x \<and> snd (f x) = Inl e))"
  by (cases "snd r") (simp_all add: then_step_def)

lemma snd_steps [simp]:
  "snd (failure msg) = Inl (Returned None)"
  "snd (warning msg x) = Inr x"
  "snd (proceed x) = Inr x"
  by (simp_all add: failure_def warning_def proceed_def)

lemma unit_option_Inr:
  "snd (unit_option papszOptions key pszDefault code i msg pm) = Inr pm'
     \<Longrightarrow> length pm' = length pm"
  by (auto simp add: unit_option_def split: option.splits)

lemma then_step_keeps:
  assumes "snd (then_step r h) = Inr pm'"
    and "\<And>b. snd r = Inr b \<Longrightarrow> length b = n"
    and "\<And>a b. snd (h a) = Inr b \<Longrightarrow> length b = length a"
  shows "length pm' = n"
  using assms by (auto simp add: then_step_Inr_iff)

lemma crown_unit_options_length:
  "snd (crown_unit_options papszOptions pm) = Inr pm' \<Longrightarrow> length pm' = length pm"
  unfolding crown_unit_options_def
  apply (erule then_step_keeps)
   apply (erule unit_option_Inr)
  apply (erule then_step_keeps)
   apply (erule unit_option_Inr)
  apply (erule unit_option_Inr)
  done

lemma ground_unit_options_length:
  "snd (ground_unit_options papszOptions pm) = Inr pm' \<Longrightarrow> length pm' = length pm"
  unfolding ground_unit_options_def
  apply (erule then_step_keeps)
   apply (erule unit_option_Inr)
  apply simp
  done

lemma unit_options_length:
  "snd (unit_options crown ground papszOptions) = Inr pm \<Longrightarrow> length pm = 10"
  unfolding unit_options_def
  apply (erule then_step_keeps)
   apply (drule unit_option_Inr, simp)
  apply (erule then_step_keeps)
   apply (erule unit_option_Inr)
  apply (erule then_step_keeps)
   apply (erule unit_option_Inr)
  apply (erule then_step_keeps)
   apply (erule unit_option_Inr)
  apply (erule then_step_keeps)
   apply (erule unit_option_Inr)
  apply (erule then_step_keeps)
   apply (simp add: crown_unit_options_length split: if_splits)
  apply (simp add: ground_unit_options_length split: if_splits)
  done

lemma CreateCopy_prepare_Inr:
  assumes "snd (CreateCopy_prepare sv poSrcDS bStrict papszOptions) = Inr plan"
  shows "int (length (src_bands poSrcDS)) = 5 \<or> int (length (src_bands poSrcDS)) = 7
         \<or> int (length (src_bands poSrcDS)) = 8 \<or> int (length (src_bands poSrcDS)) = 10"
    and "bHaveCrownFuels plan = (int (length (src_bands poSrcDS)) = 8
                                 \<or> int (length (src_bands poSrcDS)) = 10)"
    and "bHaveGroundFuels plan = (int (length (src_bands poSrcDS)) = 7
                                  \<or> int (length (src_bands poSrcDS)) = 10)"
    and "snd (unit_options (bHaveCrownFuels plan) (bHaveGroundFuels plan) papszOptions)
           = Inr (panMetadata plan)"
    and "length (panMetadata plan) = 10"
proof -
  from assms obtain pm where
    b: "snd (check_bands (int (length (src_bands poSrcDS)))) = Inr ()"
    and u: "snd (unit_options (int (length (src_bands poSrcDS)) = 8
                               \<or> int (length (src_bands poSrcDS)) = 10)
                              (int (length (src_bands poSrcDS)) = 7
                               \<or> int (length (src_bands poSrcDS)) = 10) papszOptions) = Inr pm"
    and p: "bHaveCrownFuels plan = (int (length (src_bands poSrcDS)) = 8
                                    \<or> int (length (src_bands poSrcDS)) = 10)"
      "bHaveGroundFuels plan = (int (length (src_bands poSrcDS)) = 7
                                \<or> int (length (src_bands poSrcDS)) = 10)"
      "panMetadata plan = pm"
    by (auto simp add: CreateCopy_prepare_def Let_def then_step_Inr_iff)
  from b show "int (length (src_bands poSrcDS)) = 5 \<or> int (length (src_bands poSrcDS)) = 7
         \<or> int (length (src_bands poSrcDS)) = 8 \<or> int (length (src_bands poSrcDS)) = 10"
    by (simp add: check_bands_def split: if_splits)
  show "bHaveCrownFuels plan = (int (length (src_bands poSrcDS)) = 8
                                 \<or> int (length (src_bands poSrcDS)) = 10)"
    by (rule p(1))
  show "bHaveGroundFuels plan = (int (length (src_bands poSrcDS)) = 7
                                  \<or> int (length (src_bands poSrcDS)) = 10)"
    by (rule p(2))
  show "snd (unit_options (bHaveCrownFuels plan) (bHaveGroundFuels plan) papszOptions)
           = Inr (panMetadata plan)"
    using u p by simp
  show "length (panMetadata plan) = 10"
    using unit_options_length [OF u] p by simp
qed

lemma then_step_Inl:
  assumes "snd (then_step r f) = Inl e"
    and "\<And>e. snd r = Inl e \<Longrightarrow> P e"
    and "\<And>x e. snd (f x) = Inl e \<Longrightarrow> P e"
  shows "P e"
  using assms by (auto simp add: then_step_Inl_iff)

lemma unit_option_Inl:
  "snd (unit_option papszOptions key pszDefault code i msg pm) = Inl e \<Longrightarrow> e = Returned None"
  by (auto simp add: unit_option_def split: option.splits)

lemma crown_unit_options_Inl:
  "snd (crown_unit_options papszOptions pm) = Inl e \<Longrightarrow> e = Returned None"
  unfolding crown_unit_options_def
  apply (erule then_step_Inl, erule unit_option_Inl)+
  apply (erule unit_option_Inl)
  done

lemma ground_unit_options_Inl:
  "snd (ground_unit_options papszOptions pm) = Inl e \<Longrightarrow> e = Returned None"
  unfolding ground_unit_options_def
  apply (erule then_step_Inl, erule unit_option_Inl)
  apply simp
  done

lemma unit_options_Inl:
  "snd (unit_options crown ground papszOptions) = Inl e \<Longrightarrow> e = Returned None"
  unfolding unit_options_def
  apply (erule then_step_Inl, erule unit_option_Inl)+
  apply (erule then_step_Inl)
   apply (auto split: if_splits dest: crown_unit_options_Inl ground_unit_options_Inl)
  done

lemma stats_band_Inl:
  "snd (stats_band cls i poBand a) = Inl e \<Longrightarrow> e = Write_past_panClasses"
  unfolding stats_band_def
  apply (erule then_step_Inl)
   apply (simp split: option.splits)
  apply (simp add: Let_def split: if_splits)
  apply (erule then_step_Inl)
   apply (simp split: option.splits)
  apply (simp split: if_splits)
  done

lemma stats_loop_Inl:
  "snd (stats_loop cls i bands a) = Inl e \<Longrightarrow> e = Write_past_panClasses"
proof (induction bands arbitrary: i a)
  case Nil
  then show ?case by simp
next
  case (Cons b bands)
  from Cons.prems show ?case
    by (auto simp add: then_step_Inl_iff dest: stats_band_Inl Cons.IH)
qed

text \<open>
  The preparation ends \<^verbatim>\<open>CreateCopy\<close> only by returning \<^verbatim>\<open>nullptr\<close> or by the store
  past \<^verbatim>\<open>panClasses\<close>.
\<close>

lemma CreateCopy_prepare_Inl:
  "snd (CreateCopy_prepare sv poSrcDS bStrict papszOptions) = Inl e
     \<Longrightarrow> e = Returned None \<or> e = Write_past_panClasses"
  unfolding CreateCopy_prepare_def Let_def
  apply (erule then_step_Inl)
   apply (simp add: check_bands_def split: if_splits)
  apply (erule then_step_Inl)
   apply (simp add: check_type_def Let_def split: if_splits)
  apply (erule then_step_Inl)
   apply (drule unit_options_Inl, simp)
  apply (erule then_step_Inl)
   apply (simp add: stats_options_def Let_def split: if_splits)
  apply (erule then_step_Inl)
   apply (simp add: latitude_option_def split: option.splits if_splits)
  apply (erule then_step_Inl)
   apply (simp add: latitude_step_def split: option.splits if_splits)
  apply (erule then_step_Inl)
   apply (simp add: linear_unit_step_def split: option.splits if_splits)
  apply (erule then_step_Inl)
   apply (simp add: stats_step_def Let_def split: if_splits)
   apply (drule stats_loop_Inl, simp)
  apply simp
  done

section \<open>What a successful CreateCopy wrote\<close>

lemma GDALOpenInfo_of_wf: "openinfo_wf (GDALOpenInfo_of name fp)"
  by (simp add: openinfo_wf_def GDALOpenInfo_of_def list_all_iff)

lemma CreateCopy_write_SomeD:
  assumes r: "outcome (CreateCopy_write sv pszFilename poSrcDS plan) = Returned (Some poDS)"
    and pm: "length (panMetadata plan) = 10"
  shows "\<exists>fp. out_file (CreateCopy_write sv pszFilename poSrcDS plan) = Some fp
            \<and> Open sv (GDALOpenInfo_of pszFilename fp) = Some poDS
            \<and> stored (vsi_data fp) 0 (preamble_bytes sv poSrcDS plan)
            \<and> stored (vsi_data fp) 4164 (geo_bytes sv poSrcDS plan)"
proof -
  from r have ok: "VSIFOpenL_succeeds sv pszFilename"
    by (simp add: CreateCopy_write_def split: if_splits)
  from r ok obtain fp0 where w: "write_header sv poSrcDS plan VSIFOpenL_wb = Inr fp0"
    by (cases "write_header sv poSrcDS plan VSIFOpenL_wb") (simp_all add: CreateCopy_write_def)
  let ?c = "copy_lines sv poSrcDS [0..<nat (src_YSize poSrcDS)]
              (replicate (length (src_bands poSrcDS) * nat (src_XSize poSrcDS)) 0) fp0"
  let ?fp = "fst (snd ?c)"
  from r ok w have o: "out_file (CreateCopy_write sv pszFilename poSrcDS plan) = Some ?fp"
    and op: "Open sv (GDALOpenInfo_of pszFilename ?fp) = Some poDS"
    by (simp_all add: CreateCopy_write_def Let_def split: if_splits)
  note hd = write_header_data [OF w pm]
  have keep: "\<And>j. j < 7316 \<Longrightarrow> vsi_data ?fp j = vsi_data fp0 j"
    by (rule copy_lines_frame) (simp_all add: hd(3))
  have a: "stored (vsi_data ?fp) 0 (preamble_bytes sv poSrcDS plan)"
    by (rule stored_cong [OF hd(1)]) (simp add: keep)
  have b: "stored (vsi_data ?fp) 4164 (geo_bytes sv poSrcDS plan)"
    by (rule stored_cong [OF hd(2)]) (simp add: keep pm)
  show ?thesis using o op a b by blast
qed

lemma CreateCopy_SomeD:
  assumes r: "outcome (CreateCopy sv pszFilename poSrcDS bStrict papszOptions)
                = Returned (Some poDS)"
  shows "\<exists>plan fp. snd (CreateCopy_prepare sv poSrcDS bStrict papszOptions) = Inr plan
            \<and> out_file (CreateCopy sv pszFilename poSrcDS bStrict papszOptions) = Some fp
            \<and> Open sv (GDALOpenInfo_of pszFilename fp) = Some poDS
            \<and> stored (vsi_data fp) 0 (preamble_bytes sv poSrcDS plan)
            \<and> stored (vsi_data fp) 4164 (geo_bytes sv poSrcDS plan)"
proof (cases "snd (CreateCopy_prepare sv poSrcDS bStrict papszOptions)")
  case (Inl e)
  then have "e = Returned None \<or> e = Write_past_panClasses"
    by (rule CreateCopy_prepare_Inl)
  then show ?thesis using r Inl by (auto simp add: CreateCopy_def Let_def)
next
  case (Inr plan)
  from r Inr have w: "outcome (CreateCopy_write sv pszFilename poSrcDS plan) = Returned (Some poDS)"
    by (simp add: CreateCopy_def Let_def)
  from CreateCopy_write_SomeD [OF w CreateCopy_prepare_Inr(5) [OF Inr]]
  show ?thesis using Inr by (auto simp add: CreateCopy_def Let_def)
qed

section \<open>Where the write cursor stands\<close>

lemma length_concat_lsb32 [simp]:
  "length (concat (map (\<lambda>v. lsb32 (word_of_int v)) xs)) = 4 * length xs"
  by (induction xs) simp_all

lemma store_classes_length:
  "store_classes arr off vals = Some pc \<Longrightarrow> length pc = length arr"
  by (auto simp add: store_classes_def split: if_splits)

lemma stats_band_length:
  "snd (stats_band cls i poBand a) = Inr a'
     \<Longrightarrow> length (panClasses a') = length (panClasses a)"
  by (auto simp add: stats_band_def then_step_Inr_iff Let_def
        split: option.splits if_splits dest: store_classes_length)

lemma stats_loop_length:
  "snd (stats_loop cls i bands a) = Inr a'
     \<Longrightarrow> length (panClasses a') = length (panClasses a)"
proof (induction bands arbitrary: i a)
  case Nil
  then show ?case by simp
next
  case (Cons b bands)
  from Cons.prems obtain a1 where
    1: "snd (stats_band cls i b a) = Inr a1"
    and 2: "snd (stats_loop cls (i + 1) bands a1) = Inr a'"
    by (auto simp add: then_step_Inr_iff)
  show ?case using Cons.IH [OF 2] stats_band_length [OF 1] by simp
qed

lemma stats_step_length:
  "snd (stats_step poSrcDS sc) = Inr a
     \<Longrightarrow> length (panClasses a) = length (src_bands poSrcDS) * LCP_MAX_CLASSES"
  by (auto simp add: stats_step_def Let_def split: if_splits dest: stats_loop_length)

lemma CreateCopy_prepare_classes:
  assumes "snd (CreateCopy_prepare sv poSrcDS bStrict papszOptions) = Inr plan"
  shows "length (panClasses (stats plan)) = length (src_bands poSrcDS) * LCP_MAX_CLASSES"
proof -
  from assms obtain sc a where
    s: "snd (stats_step poSrcDS sc) = Inr a" and p: "stats plan = a"
    by (auto simp add: CreateCopy_prepare_def Let_def then_step_Inr_iff)
  show ?thesis using stats_step_length [OF s] p by simp
qed

lemma offset_write_preamble [simp]:
  "vsi_offset (write_preamble sv poSrcDS plan fp) = vsi_offset fp + 44"
  by (simp add: write_preamble_eq)

lemma offset_write_band_stats:
  assumes "bClassifyData plan \<longrightarrow> (i + 1) * LCP_MAX_CLASSES \<le> length (panClasses (stats plan))"
  shows "vsi_offset (write_band_stats sv plan i fp) =
     (if i = 5 \<and> \<not> bHaveCrownFuels plan \<and> bHaveGroundFuels plan then 3340 else vsi_offset fp)
     + 412"
  using assms
  by (auto simp add: write_band_stats_def Let_def write_GInt32_def LCP_MAX_CLASSES_def)

lemma offset_fold_write_band_stats:
  assumes "bClassifyData plan \<longrightarrow> n * LCP_MAX_CLASSES \<le> length (panClasses (stats plan))"
  shows "vsi_offset (fold (write_band_stats sv plan) [0..<n] fp) =
     (if 5 < n \<and> \<not> bHaveCrownFuels plan \<and> bHaveGroundFuels plan then 3340 + 412 * (n - 5)
      else vsi_offset fp + 412 * n)"
  using assms
proof (induction n)
  case 0
  show ?case by simp
next
  case (Suc n)
  have c: "bClassifyData plan \<longrightarrow> (n + 1) * LCP_MAX_CLASSES \<le> length (panClasses (stats plan))"
    using Suc.prems by simp
  have c': "bClassifyData plan \<longrightarrow> n * LCP_MAX_CLASSES \<le> length (panClasses (stats plan))"
    using Suc.prems by auto
  have a: "5 < n \<Longrightarrow> 412 + 412 * (n - 5) = 412 * (n - 4)"
    by arith
  show ?case
    by (auto simp add: offset_write_band_stats [OF c] Suc.IH [OF c'] a)
qed

text \<open>
  After the statistics the cursor is at 2104 (5 bands), 3340 (8 bands) or 4164 (7 or
  10 bands, or no statistics): the first \<^verbatim>\<open>CPLAssert\<close> holds.
\<close>

lemma offset_write_stats:
  assumes p: "snd (CreateCopy_prepare sv poSrcDS bStrict papszOptions) = Inr plan"
  shows "vsi_offset (write_stats sv (length (src_bands poSrcDS)) plan
                       (write_preamble sv poSrcDS plan VSIFOpenL_wb))
         = (if \<not> bCalculateStats plan then 4164
            else if length (src_bands poSrcDS) = 5 then 2104
            else if length (src_bands poSrcDS) = 8 then 3340
            else 4164)"
proof -
  have c: "bClassifyData plan
             \<longrightarrow> length (src_bands poSrcDS) * LCP_MAX_CLASSES \<le> length (panClasses (stats plan))"
    by (simp add: CreateCopy_prepare_classes [OF p])
  have z: "vsi_offset VSIFOpenL_wb = 0" by (simp add: VSIFOpenL_wb_def)
  show ?thesis
    using CreateCopy_prepare_Inr(1,2,3) [OF p]
    by (auto simp add: write_stats_def offset_fold_write_band_stats [OF c] z)
qed

lemma offset_write_geo:
  "length (panMetadata plan) = 10 \<Longrightarrow> vsi_offset (write_geo sv poSrcDS plan fp) = 4244"
  by (simp add: write_geo_eq)

lemma offset_write_file_name [simp]:
  "vsi_offset (write_file_name plan name i fp) = 4244 + 256 * (i + 1)"
  by (simp add: write_file_name_def Let_def)

lemma offset_write_file_names:
  "vsi_offset (write_file_names nBands poSrcDS plan fp) =
     (case papszFileList poSrcDS of
        None \<Rightarrow> 6804
      | Some name \<Rightarrow> if nBands = 0 then vsi_offset fp else 4244 + 256 * nBands)"
  by (cases nBands) (simp_all add: write_file_names_def split: option.splits)

lemma offset_write_description:
  "vsi_offset (write_description plan fp) \<le> 7316"
  by (simp add: write_description_def bytes_of_string_def CPLStrnlen_def LCP_MAX_DESC_def)

text \<open>
  The header is written to its end, but for a source of 7 bands with a file list in
  a debug build: there the cursor is at 6036 after the file names and the second
  \<^verbatim>\<open>CPLAssert\<close> fails.
\<close>

lemma write_header_cases:
  assumes p: "snd (CreateCopy_prepare sv poSrcDS bStrict papszOptions) = Inr plan"
  shows "if CPLAssert_active sv \<and> length (src_bands poSrcDS) = 7 \<and> papszFileList poSrcDS \<noteq> None
         then write_header sv poSrcDS plan VSIFOpenL_wb = Inl 6036
         else (\<exists>fp. write_header sv poSrcDS plan VSIFOpenL_wb = Inr fp)"
proof -
  note pm = CreateCopy_prepare_Inr(5) [OF p]
  note n = CreateCopy_prepare_Inr(1) [OF p]
  let ?n = "length (src_bands poSrcDS)"
  let ?fp1 = "write_stats sv ?n plan (write_preamble sv poSrcDS plan VSIFOpenL_wb)"
  let ?fp2 = "write_file_names ?n poSrcDS plan (write_geo sv poSrcDS plan ?fp1)"
  have a1: "asserts sv (VSIFTellL ?fp1 = 2104 \<or> VSIFTellL ?fp1 = 3340 \<or> VSIFTellL ?fp1 = 4164)"
    by (simp add: asserts_def VSIFTellL_def offset_write_stats [OF p])
  have o2: "VSIFTellL ?fp2 =
              (case papszFileList poSrcDS of None \<Rightarrow> 6804 | Some name \<Rightarrow> 4244 + 256 * ?n)"
    using n by (auto simp add: VSIFTellL_def offset_write_file_names split: option.splits)
  have a3: "asserts sv (VSIFTellL (write_description plan ?fp2) \<le> 7316)"
    by (simp add: asserts_def VSIFTellL_def offset_write_description)
  show ?thesis
  proof (cases "CPLAssert_active sv \<and> ?n = 7 \<and> papszFileList poSrcDS \<noteq> None")
    case True
    then have "\<not> asserts sv (VSIFTellL ?fp2 = 5524 \<or> VSIFTellL ?fp2 = 6292 \<or> VSIFTellL ?fp2 = 6804)"
      and "VSIFTellL ?fp2 = 6036"
      using o2 by (auto simp add: asserts_def)
    with a1 have "write_header sv poSrcDS plan VSIFOpenL_wb = Inl 6036"
      by (simp add: write_header_def Let_def)
    then show ?thesis unfolding if_P [OF True] .
  next
    case False
    then have "asserts sv (VSIFTellL ?fp2 = 5524 \<or> VSIFTellL ?fp2 = 6292 \<or> VSIFTellL ?fp2 = 6804)"
      using n o2 by (auto simp add: asserts_def split: option.splits)
    with a1 a3 have "\<exists>fp. write_header sv poSrcDS plan VSIFOpenL_wb = Inr fp"
      by (simp add: write_header_def Let_def)
    then show ?thesis unfolding if_not_P [OF False] .
  qed
qed

section \<open>The fields of a written header\<close>

lemma stored_preamble_fields:
  assumes "stored d 0 (preamble_bytes sv poSrcDS plan)"
  shows "CPL_LSBSINT32PTR d 0 = (if bHaveCrownFuels plan then 21 else 20)"
    and "CPL_LSBSINT32PTR d 4 = (if bHaveGroundFuels plan then 21 else 20)"
    and "CPL_LSBSINT32PTR d 8 = sint (fp_to_GInt32 sv (fp_add sv (dfLatitude plan) double_half))"
proof -
  from assms have a: "stored d 0 (lsb32 (if bHaveCrownFuels plan then 21 else 20))"
    and b: "stored d 4 (lsb32 (if bHaveGroundFuels plan then 21 else 20))"
    and c: "stored d 8 (lsb32 (fp_to_GInt32 sv (fp_add sv (dfLatitude plan) double_half)))"
    by (simp_all add: preamble_bytes_def stored_append)
  show "CPL_LSBSINT32PTR d 0 = (if bHaveCrownFuels plan then 21 else 20)"
    using stored_lsb32 [OF a] by simp
  show "CPL_LSBSINT32PTR d 4 = (if bHaveGroundFuels plan then 21 else 20)"
    using stored_lsb32 [OF b] by simp
  show "CPL_LSBSINT32PTR d 8 = sint (fp_to_GInt32 sv (fp_add sv (dfLatitude plan) double_half))"
    by (rule stored_lsb32 [OF c])
qed

lemma stored_geo_fields:
  assumes "stored d 4164 (geo_bytes sv poSrcDS plan)"
  shows "CPL_LSBSINT32PTR d 4164 = sint (word_of_int (src_XSize poSrcDS) :: GInt32)"
    and "CPL_LSBSINT32PTR d 4168 = sint (word_of_int (src_YSize poSrcDS) :: GInt32)"
    and "LSBPTR64_at d 4172 = fp_add sv (gt0 (srcGT poSrcDS))
                                (fp_mul sv (gt1 (srcGT poSrcDS)) (fp_of_int sv (src_XSize poSrcDS)))"
    and "LSBPTR64_at d 4180 = gt0 (srcGT poSrcDS)"
    and "LSBPTR64_at d 4188 = gt3 (srcGT poSrcDS)"
    and "LSBPTR64_at d 4196 = fp_add sv (gt3 (srcGT poSrcDS))
                                (fp_mul sv (gt5 (srcGT poSrcDS)) (fp_of_int sv (src_YSize poSrcDS)))"
    and "CPL_LSBSINT32PTR d 4204 = sint (word_of_int (nLinearUnits plan) :: GInt32)"
    and "LSBPTR64_at d 4208 = gt1 (srcGT poSrcDS)"
    and "LSBPTR64_at d 4216 = fp_fabs sv (gt5 (srcGT poSrcDS))"
    and "k < length (panMetadata plan)
           \<Longrightarrow> CPL_LSBUINT16PTR d (4224 + 2 * k) = uint (panMetadata plan ! k)"
proof -
  from assms have
    1: "stored d 4164 (lsb32 (word_of_int (src_XSize poSrcDS)))"
    and 2: "stored d 4168 (lsb32 (word_of_int (src_YSize poSrcDS)))"
    and 3: "stored d 4172 (lsb64 (fp_add sv (gt0 (srcGT poSrcDS))
                                (fp_mul sv (gt1 (srcGT poSrcDS)) (fp_of_int sv (src_XSize poSrcDS)))))"
    and 4: "stored d 4180 (lsb64 (gt0 (srcGT poSrcDS)))"
    and 5: "stored d 4188 (lsb64 (gt3 (srcGT poSrcDS)))"
    and 6: "stored d 4196 (lsb64 (fp_add sv (gt3 (srcGT poSrcDS))
                                (fp_mul sv (gt5 (srcGT poSrcDS)) (fp_of_int sv (src_YSize poSrcDS)))))"
    and 7: "stored d 4204 (lsb32 (word_of_int (nLinearUnits plan)))"
    and 8: "stored d 4208 (lsb64 (gt1 (srcGT poSrcDS)))"
    and 9: "stored d 4216 (lsb64 (fp_fabs sv (gt5 (srcGT poSrcDS))))"
    and 10: "stored d 4224 (concat (map lsb16 (panMetadata plan)))"
    by (simp_all add: geo_bytes_def stored_append)
  show "CPL_LSBSINT32PTR d 4164 = sint (word_of_int (src_XSize poSrcDS) :: GInt32)"
    by (rule stored_lsb32 [OF 1])
  show "CPL_LSBSINT32PTR d 4168 = sint (word_of_int (src_YSize poSrcDS) :: GInt32)"
    by (rule stored_lsb32 [OF 2])
  show "LSBPTR64_at d 4172 = fp_add sv (gt0 (srcGT poSrcDS))
                                (fp_mul sv (gt1 (srcGT poSrcDS)) (fp_of_int sv (src_XSize poSrcDS)))"
    by (rule stored_lsb64 [OF 3])
  show "LSBPTR64_at d 4180 = gt0 (srcGT poSrcDS)"
    by (rule stored_lsb64 [OF 4])
  show "LSBPTR64_at d 4188 = gt3 (srcGT poSrcDS)"
    by (rule stored_lsb64 [OF 5])
  show "LSBPTR64_at d 4196 = fp_add sv (gt3 (srcGT poSrcDS))
                                (fp_mul sv (gt5 (srcGT poSrcDS)) (fp_of_int sv (src_YSize poSrcDS)))"
    by (rule stored_lsb64 [OF 6])
  show "CPL_LSBSINT32PTR d 4204 = sint (word_of_int (nLinearUnits plan) :: GInt32)"
    by (rule stored_lsb32 [OF 7])
  show "LSBPTR64_at d 4208 = gt1 (srcGT poSrcDS)"
    by (rule stored_lsb64 [OF 8])
  show "LSBPTR64_at d 4216 = fp_fabs sv (gt5 (srcGT poSrcDS))"
    by (rule stored_lsb64 [OF 9])
  show "k < length (panMetadata plan)
           \<Longrightarrow> CPL_LSBUINT16PTR d (4224 + 2 * k) = uint (panMetadata plan ! k)"
    by (rule stored_concat_lsb16 [OF 10])
qed

text \<open>What the dataset \<^verbatim>\<open>CreateCopy\<close> returns holds in its header, below the file names.\<close>

lemma CreateCopy_header:
  assumes r: "outcome (CreateCopy sv pszFilename poSrcDS bStrict papszOptions)
                = Returned (Some poDS)"
  shows "\<exists>plan. snd (CreateCopy_prepare sv poSrcDS bStrict papszOptions) = Inr plan
            \<and> stored (pachHeader poDS) 0 (preamble_bytes sv poSrcDS plan)
            \<and> stored (pachHeader poDS) 4164 (geo_bytes sv poSrcDS plan)
            \<and> GetRasterCount poDS = int (length (src_bands poSrcDS))"
proof -
  from CreateCopy_SomeD [OF r] obtain plan fp where
    p: "snd (CreateCopy_prepare sv poSrcDS bStrict papszOptions) = Inr plan"
    and op: "Open sv (GDALOpenInfo_of pszFilename fp) = Some poDS"
    and a: "stored (vsi_data fp) 0 (preamble_bytes sv poSrcDS plan)"
    and b: "stored (vsi_data fp) 4164 (geo_bytes sv poSrcDS plan)"
    by blast
  note wf = GDALOpenInfo_of_wf [of pszFilename fp]
  from Open_SomeD(1) [OF wf op] have "fpImage poDS = fp\<lparr>vsi_offset := 0\<rparr>"
    by (simp add: GDALOpenInfo_of_def)
  then have im: "vsi_data (fpImage poDS) = vsi_data fp"
    by simp
  have keep: "\<And>i. i < 4244 \<Longrightarrow> pachHeader poDS i = vsi_data fp i"
    using Open_header_kept [OF wf op] im by simp
  note pm = CreateCopy_prepare_Inr(5) [OF p]
  have a': "stored (pachHeader poDS) 0 (preamble_bytes sv poSrcDS plan)"
    by (rule stored_cong [OF a]) (simp add: keep)
  have b': "stored (pachHeader poDS) 4164 (geo_bytes sv poSrcDS plan)"
    by (rule stored_cong [OF b]) (simp add: keep pm)
  have "GetRasterCount poDS = flag_band_count (CPL_LSBSINT32PTR (vsi_data fp) 0)
                                 (CPL_LSBSINT32PTR (vsi_data fp) 4)"
    using Open_SomeD(9) [OF wf op] im by simp
  also have "\<dots> = int (length (src_bands poSrcDS))"
    using CreateCopy_prepare_Inr(1,2,3) [OF p]
    by (auto simp add: stored_preamble_fields(1,2) [OF a] flag_band_count_def)
  finally show ?thesis using p a' b' by blast
qed

section \<open>When CreateCopy returns a dataset\<close>

lemma size_VSIFWriteL:
  "vsi_size (VSIFWriteL bs fp) =
     (if bs = [] then vsi_size fp else max (vsi_size fp) (vsi_offset fp + length bs))"
  by (simp add: VSIFWriteL_def)

lemma length_fold_list_update:
  "length (fold (\<lambda>k buf. buf[f k := g k]) ks buf) = length buf"
  by (induction ks arbitrary: buf) simp_all

lemma length_read_band_line:
  "length (snd (read_band_line nBands nXSize iLine ib acc)) = length (snd acc)"
  by (simp add: read_band_line_def length_fold_list_update split: option.splits)

lemma length_fold_read_band_line:
  "length (snd (fold (read_band_line nBands nXSize iLine) ibs acc)) = length (snd acc)"
  by (induction ibs arbitrary: acc) (simp_all add: length_read_band_line)

lemma length_read_scanline:
  "length (snd (read_scanline poSrcDS iLine panScanline)) = length panScanline"
  by (simp add: read_scanline_def length_fold_read_band_line)

lemma copy_lines_size_mono:
  "vsi_size fp \<le> vsi_size (fst (snd (copy_lines sv poSrcDS ls buf fp)))"
proof (induction ls arbitrary: buf fp)
  case Nil
  show ?case by simp
next
  case (Cons iLine ls)
  let ?r = "read_scanline poSrcDS iLine buf"
  let ?fp = "VSIFWriteL (concat (map lsb16 (snd ?r))) fp"
  have "vsi_size fp \<le> vsi_size ?fp" by (simp add: size_VSIFWriteL)
  also have "\<dots> \<le> vsi_size (fst (snd (copy_lines sv poSrcDS ls (snd ?r) ?fp)))"
    by (rule Cons.IH)
  finally show ?case by (simp add: Let_def size_VSIFWriteL)
qed

lemma copy_lines_size:
  assumes "ls \<noteq> []" and "buf \<noteq> []"
  shows "vsi_offset fp < vsi_size (fst (snd (copy_lines sv poSrcDS ls buf fp)))"
proof -
  from assms(1) obtain iLine rest where ls: "ls = iLine # rest" by (cases ls) auto
  let ?r = "read_scanline poSrcDS iLine buf"
  let ?fp = "VSIFWriteL (concat (map lsb16 (snd ?r))) fp"
  have n: "snd ?r \<noteq> []"
    using length_read_scanline [of poSrcDS iLine buf] assms(2) by auto
  then have "0 < length (concat (map lsb16 (snd ?r)))"
    by simp
  then have c: "concat (map lsb16 (snd ?r)) \<noteq> []"
    unfolding length_greater_0_conv .
  have 1: "vsi_offset fp < vsi_size ?fp"
    using c n by (auto simp add: size_VSIFWriteL max_def)
  have 2: "vsi_size ?fp \<le> vsi_size (fst (snd (copy_lines sv poSrcDS rest (snd ?r) ?fp)))"
    by (rule copy_lines_size_mono)
  show ?thesis using 1 2 by (simp add: ls Let_def)
qed

lemma copy_lines_done:
  "(\<And>d. pfnProgress sv d) \<Longrightarrow> snd (snd (copy_lines sv poSrcDS ls buf fp))"
  by (induction ls arbitrary: buf fp) (simp_all add: Let_def)

lemma list_all_True: "(\<And>x. P x) \<Longrightarrow> list_all P xs"
  by (simp add: list_all_iff)

text \<open>
  \<^verbatim>\<open>CreateCopy\<close> returns a dataset when the preparation passes, the file can be
  created and re-opened under the extension \<^verbatim>\<open>lcp\<close>, no callback asks to stop, the
  latitude that is written lies in -90 .. 90 and the raster size is one \<^verbatim>\<open>Open\<close>
  accepts; but not from 7 bands with a file list in a debug build.
\<close>

lemma CreateCopy_returns_dataset:
  assumes p: "snd (CreateCopy_prepare sv poSrcDS bStrict papszOptions) = Inr plan"
    and o: "VSIFOpenL_succeeds sv pszFilename"
    and pr: "\<And>d. pfnProgress sv d"
    and rb: "\<And>a b c d. RawRasterBand_Create sv a b c d"
    and as: "\<not> (CPLAssert_active sv \<and> length (src_bands poSrcDS) = 7
                 \<and> papszFileList poSrcDS \<noteq> None)"
    and e: "EQUAL (CPLGetExtension pszFilename) ''lcp''"
    and lat: "- 90 \<le> sint (fp_to_GInt32 sv (fp_add sv (dfLatitude plan) double_half))"
      "sint (fp_to_GInt32 sv (fp_add sv (dfLatitude plan) double_half)) \<le> 90"
    and x: "0 < src_XSize poSrcDS"
      "src_XSize poSrcDS \<le> INT_MAX div (int (length (src_bands poSrcDS)) * 2)"
    and y: "0 < src_YSize poSrcDS" "src_YSize poSrcDS \<le> INT_MAX"
  shows "\<exists>poDS. outcome (CreateCopy sv pszFilename poSrcDS bStrict papszOptions)
                  = Returned (Some poDS)"
proof -
  let ?n = "length (src_bands poSrcDS)"
  note n = CreateCopy_prepare_Inr(1) [OF p]
  note pm = CreateCopy_prepare_Inr(5) [OF p]
  from write_header_cases [OF p] as obtain fp0 where
    w: "write_header sv poSrcDS plan VSIFOpenL_wb = Inr fp0"
    by (auto split: if_splits)
  note hd = write_header_data [OF w pm]
  let ?buf = "replicate (?n * nat (src_XSize poSrcDS)) (0 :: GInt16)"
  let ?c = "copy_lines sv poSrcDS [0..<nat (src_YSize poSrcDS)] ?buf fp0"
  let ?fp = "fst (snd ?c)"
  have out: "outcome (CreateCopy sv pszFilename poSrcDS bStrict papszOptions)
               = Returned (Open sv (GDALOpenInfo_of pszFilename ?fp))"
    using p o w pr copy_lines_done [of sv poSrcDS "[0..<nat (src_YSize poSrcDS)]" ?buf fp0, OF pr]
    by (simp add: CreateCopy_def CreateCopy_write_def Let_def)
  have keep: "\<And>j. j < 7316 \<Longrightarrow> vsi_data ?fp j = vsi_data fp0 j"
    by (rule copy_lines_frame) (simp_all add: hd(3))
  have a: "stored (vsi_data ?fp) 0 (preamble_bytes sv poSrcDS plan)"
    by (rule stored_cong [OF hd(1)]) (simp add: keep)
  have b: "stored (vsi_data ?fp) 4164 (geo_bytes sv poSrcDS plan)"
    by (rule stored_cong [OF hd(2)]) (simp add: keep pm)
  have ne: "[0..<nat (src_YSize poSrcDS)] \<noteq> []" "?buf \<noteq> []"
    using x(1) y(1) n by auto
  have sz: "7316 < vsi_size ?fp"
    using copy_lines_size [OF ne, of fp0 sv poSrcDS] by (simp add: hd(3))
  have im: "INT_MAX = 2147483647" by (simp add: INT_MAX_def)
  have xs: "src_XSize poSrcDS \<le> INT_MAX"
  proof -
    have "INT_MAX div (int ?n * 2) \<le> INT_MAX"
      using n by (auto simp add: im)
    with x(2) show ?thesis by simp
  qed
  have sx: "sint (word_of_int (src_XSize poSrcDS) :: GInt32) = src_XSize poSrcDS"
    using x(1) xs by (simp only: sint_sbintrunc') (simp add: signed_take_bit_int_eq_self im)
  have sy: "sint (word_of_int (src_YSize poSrcDS) :: GInt32) = src_YSize poSrcDS"
    using y by (simp only: sint_sbintrunc') (simp add: signed_take_bit_int_eq_self im)
  note f = stored_preamble_fields [OF a] stored_geo_fields(1,2) [OF b]
  have fc: "flag_band_count (CPL_LSBSINT32PTR (vsi_data ?fp) 0)
              (CPL_LSBSINT32PTR (vsi_data ?fp) 4) = int ?n"
    using CreateCopy_prepare_Inr(1,2,3) [OF p]
    by (auto simp add: f(1,2) flag_band_count_def)
  have c20: "CPL_LSBSINT32PTR (vsi_data ?fp) 0 = 20 \<or> CPL_LSBSINT32PTR (vsi_data ?fp) 0 = 21"
    by (simp add: f(1))
  have g20: "CPL_LSBSINT32PTR (vsi_data ?fp) 4 = 20 \<or> CPL_LSBSINT32PTR (vsi_data ?fp) 4 = 21"
    by (simp add: f(2))
  have "Open sv (GDALOpenInfo_of pszFilename ?fp) \<noteq> None"
    unfolding Open_None_iff [OF GDALOpenInfo_of_wf]
    using e sz lat x y c20 g20
    by (auto simp add: GDALOpenInfo_of_def LCP_HEADER_SIZE_def fc f(3,4,5) sx sy
          list_all_True [of _ _, OF rb])
  then show ?thesis using out by auto
qed

section \<open>Validation failures\<close>

lemma then_step_Inl_eq: "snd r = Inl e \<Longrightarrow> snd (then_step r f) = Inl e"
  by (simp add: then_step_def)

lemma then_step_Inr_eq: "snd r = Inr x \<Longrightarrow> snd (then_step r f) = snd (f x)"
  by (simp add: then_step_def)

lemma unit_option_Inr_code:
  "snd (unit_option papszOptions key pszDefault code i msg pm) = Inr pm'
     \<Longrightarrow> code (CSLFetchNameValueDef papszOptions key pszDefault) \<noteq> None"
  by (auto simp add: unit_option_def split: option.splits)

text \<open>When the blocks for the units and options all pass, every value they looked at has a code.\<close>

lemma unit_options_Inr_codes:
  assumes u: "snd (unit_options crown ground papszOptions) = Inr pm"
  shows "ELEVATION_UNIT_code (CSLFetchNameValueDef papszOptions ''ELEVATION_UNIT'' ''METERS'')
           \<noteq> None"
    and "SLOPE_UNIT_code (CSLFetchNameValueDef papszOptions ''SLOPE_UNIT'' ''DEGREES'') \<noteq> None"
    and "ASPECT_UNIT_code (CSLFetchNameValueDef papszOptions ''ASPECT_UNIT'' ''AZIMUTH_DEGREES'')
           \<noteq> None"
    and "FUEL_MODEL_OPTION_code
           (CSLFetchNameValueDef papszOptions ''FUEL_MODEL_OPTION'' ''NO_CUSTOM_AND_NO_FILE'')
           \<noteq> None"
    and "CANOPY_COV_UNIT_code (CSLFetchNameValueDef papszOptions ''CANOPY_COV_UNIT'' ''PERCENT'')
           \<noteq> None"
    and "crown \<Longrightarrow>
           height_unit_code (CSLFetchNameValueDef papszOptions ''CANOPY_HT_UNIT'' ''METERS_X_10'')
             \<noteq> None
           \<and> height_unit_code (CSLFetchNameValueDef papszOptions ''CBH_UNIT'' ''METERS_X_10'')
             \<noteq> None
           \<and> CBD_UNIT_code
               (CSLFetchNameValueDef papszOptions ''CBD_UNIT'' ''KG_PER_CUBIC_METER_X_100'')
             \<noteq> None"
    and "ground \<Longrightarrow>
           DUFF_UNIT_code (CSLFetchNameValueDef papszOptions ''DUFF_UNIT'' ''MG_PER_HECTARE_X_10'')
             \<noteq> None"
proof -
  from u obtain p1 p2 p3 p4 p5 p6 where
    1: "snd (unit_option papszOptions ''ELEVATION_UNIT'' ''METERS'' ELEVATION_UNIT_code 0
               ''Invalid value (%s) for ELEVATION_UNIT.'' [0, 0, 2, 0, 1, 3, 3, 3, 1, 0]) = Inr p1"
    and 2: "snd (unit_option papszOptions ''SLOPE_UNIT'' ''DEGREES'' SLOPE_UNIT_code 1
               ''Invalid value (%s) for SLOPE_UNIT.'' p1) = Inr p2"
    and 3: "snd (unit_option papszOptions ''ASPECT_UNIT'' ''AZIMUTH_DEGREES'' ASPECT_UNIT_code 2
               ''Invalid value (%s) for ASPECT_UNIT.'' p2) = Inr p3"
    and 4: "snd (unit_option papszOptions ''FUEL_MODEL_OPTION'' ''NO_CUSTOM_AND_NO_FILE''
               FUEL_MODEL_OPTION_code 3 ''Invalid value (%s) for FUEL_MODEL_OPTION.'' p3) = Inr p4"
    and 5: "snd (unit_option papszOptions ''CANOPY_COV_UNIT'' ''PERCENT'' CANOPY_COV_UNIT_code 4
               ''Invalid value (%s) for CANOPY_COV_UNIT.'' p4) = Inr p5"
    and 6: "snd (if crown then crown_unit_options papszOptions p5 else proceed p5) = Inr p6"
    and 7: "snd (if ground then ground_unit_options papszOptions p6 else proceed p6) = Inr pm"
    unfolding unit_options_def then_step_Inr_iff by blast
  show "ELEVATION_UNIT_code (CSLFetchNameValueDef papszOptions ''ELEVATION_UNIT'' ''METERS'')
           \<noteq> None"
    by (rule unit_option_Inr_code [OF 1])
  show "SLOPE_UNIT_code (CSLFetchNameValueDef papszOptions ''SLOPE_UNIT'' ''DEGREES'') \<noteq> None"
    by (rule unit_option_Inr_code [OF 2])
  show "ASPECT_UNIT_code (CSLFetchNameValueDef papszOptions ''ASPECT_UNIT'' ''AZIMUTH_DEGREES'')
           \<noteq> None"
    by (rule unit_option_Inr_code [OF 3])
  show "FUEL_MODEL_OPTION_code
           (CSLFetchNameValueDef papszOptions ''FUEL_MODEL_OPTION'' ''NO_CUSTOM_AND_NO_FILE'')
           \<noteq> None"
    by (rule unit_option_Inr_code [OF 4])
  show "CANOPY_COV_UNIT_code (CSLFetchNameValueDef papszOptions ''CANOPY_COV_UNIT'' ''PERCENT'')
           \<noteq> None"
    by (rule unit_option_Inr_code [OF 5])
  show "height_unit_code (CSLFetchNameValueDef papszOptions ''CANOPY_HT_UNIT'' ''METERS_X_10'')
             \<noteq> None
           \<and> height_unit_code (CSLFetchNameValueDef papszOptions ''CBH_UNIT'' ''METERS_X_10'')
             \<noteq> None
           \<and> CBD_UNIT_code
               (CSLFetchNameValueDef papszOptions ''CBD_UNIT'' ''KG_PER_CUBIC_METER_X_100'')
             \<noteq> None" if c: crown
  proof -
    from 6 c have "snd (crown_unit_options papszOptions p5) = Inr p6" by simp
    then obtain q1 q2 where
      a: "snd (unit_option papszOptions ''CANOPY_HT_UNIT'' ''METERS_X_10'' height_unit_code 5
                 ''Invalid value (%s) for CANOPY_HT_UNIT.'' p5) = Inr q1"
      and b: "snd (unit_option papszOptions ''CBH_UNIT'' ''METERS_X_10'' height_unit_code 6
                 ''Invalid value (%s) for CBH_UNIT.'' q1) = Inr q2"
      and d: "snd (unit_option papszOptions ''CBD_UNIT'' ''KG_PER_CUBIC_METER_X_100''
                 CBD_UNIT_code 7 ''Invalid value (%s) for CBD_UNIT.'' q2) = Inr p6"
      unfolding crown_unit_options_def then_step_Inr_iff by blast
    show ?thesis
      using unit_option_Inr_code [OF a] unit_option_Inr_code [OF b] unit_option_Inr_code [OF d]
      by blast
  qed
  show "DUFF_UNIT_code (CSLFetchNameValueDef papszOptions ''DUFF_UNIT'' ''MG_PER_HECTARE_X_10'')
             \<noteq> None" if g: ground
  proof -
    from 7 g have "snd (ground_unit_options papszOptions p6) = Inr pm" by simp
    then obtain q where
      a: "snd (unit_option papszOptions ''DUFF_UNIT'' ''MG_PER_HECTARE_X_10'' DUFF_UNIT_code 8
                 ''Invalid value (%s) for DUFF_UNIT.'' p6) = Inr q"
      unfolding ground_unit_options_def then_step_Inr_iff by blast
    show ?thesis by (rule unit_option_Inr_code [OF a])
  qed
qed

text \<open>
  A band count other than 5, 7, 8 and 10, or a unit or option block that fails, makes
  the preparation return \<^verbatim>\<open>nullptr\<close>; and no failure of the preparation leaves a file.
\<close>

lemma CreateCopy_prepare_invalid:
  assumes "snd (check_bands (int (length (src_bands poSrcDS)))) \<noteq> Inr ()
           \<or> (\<forall>pm. snd (unit_options
                          (int (length (src_bands poSrcDS)) = 8
                           \<or> int (length (src_bands poSrcDS)) = 10)
                          (int (length (src_bands poSrcDS)) = 7
                           \<or> int (length (src_bands poSrcDS)) = 10) papszOptions) \<noteq> Inr pm)"
  shows "snd (CreateCopy_prepare sv poSrcDS bStrict papszOptions) = Inl (Returned None)"
proof (cases "snd (check_bands (int (length (src_bands poSrcDS))))")
  case (Inl e)
  then have "e = Returned None" by (simp add: check_bands_def split: if_splits)
  with Inl show ?thesis
    by (simp add: CreateCopy_prepare_def Let_def then_step_Inl_eq)
next
  case b: (Inr u)
  show ?thesis
  proof (cases "snd (check_type poSrcDS bStrict)")
    case (Inl e)
    then have "e = Returned None" by (simp add: check_type_def Let_def split: if_splits)
    with Inl b show ?thesis
      by (simp add: CreateCopy_prepare_def Let_def then_step_Inl_eq then_step_Inr_eq)
  next
    case t: (Inr u')
    show ?thesis
    proof (cases "snd (unit_options
                          (int (length (src_bands poSrcDS)) = 8
                           \<or> int (length (src_bands poSrcDS)) = 10)
                          (int (length (src_bands poSrcDS)) = 7
                           \<or> int (length (src_bands poSrcDS)) = 10) papszOptions)")
      case (Inl e)
      then have "e = Returned None" by (rule unit_options_Inl)
      with Inl b t show ?thesis
        by (simp add: CreateCopy_prepare_def Let_def then_step_Inl_eq then_step_Inr_eq)
    next
      case (Inr pm)
      with assms b show ?thesis by simp
    qed
  qed
qed

lemma CreateCopy_prepare_Inl_no_file:
  "snd (CreateCopy_prepare sv poSrcDS bStrict papszOptions) = Inl e
     \<Longrightarrow> outcome (CreateCopy sv pszFilename poSrcDS bStrict papszOptions) = e
         \<and> out_file (CreateCopy sv pszFilename poSrcDS bStrict papszOptions) = None"
  by (simp add: CreateCopy_def Let_def)

section \<open>The example inputs\<close>

lemma sum_case_Inr:
  "(case x of Inl e \<Rightarrow> False | Inr y \<Rightarrow> P y) \<Longrightarrow> \<exists>y. x = Inr y \<and> P y"
  by (cases x) simp_all

lemma example_prepare_7:
  "\<exists>plan. snd (CreateCopy_prepare example_services (example_dataset 7 None (Some ''in.tif''))
                 False example_options) = Inr plan
          \<and> dfLatitude plan = 45"
  by (rule sum_case_Inr) code_simp

lemma example_prepare_unused_option:
  "\<exists>plan. snd (CreateCopy_prepare example_services (example_dataset 5 None None) False
                 ((''CANOPY_HT_UNIT'', ''BOGUS'') # example_options)) = Inr plan
          \<and> dfLatitude plan = 45"
  by (rule sum_case_Inr) code_simp

lemma example_prepare_no_latitude:
  "\<exists>plan. snd (CreateCopy_prepare example_services (example_dataset 5 (Some example_srs) None)
                 True example_no_stats) = Inr plan
          \<and> dfLatitude plan = 0"
  by (rule sum_case_Inr) code_simp

lemma example_latitude:
  "sint (fp_to_GInt32 example_services (fp_add example_services 45 double_half)) = 45"
  "sint (fp_to_GInt32 example_services (fp_add example_services 0 double_half)) = 0"
  by (simp_all add: example_services_def double_half_def)

lemma example_extension: "EQUAL (CPLGetExtension ''out.lcp'') ''lcp''"
  by code_simp

text \<open>With the example services, a source of one pixel is copied whenever it is prepared.\<close>

lemma example_returns_dataset:
  assumes p: "snd (CreateCopy_prepare example_services (example_dataset n srs files) bStrict
                     papszOptions) = Inr plan"
    and lat: "dfLatitude plan = 45 \<or> dfLatitude plan = 0"
    and f: "n = 7 \<longrightarrow> files = None"
  shows "\<exists>poDS. outcome (CreateCopy example_services ''out.lcp'' (example_dataset n srs files)
                           bStrict papszOptions) = Returned (Some poDS)"
proof (rule CreateCopy_returns_dataset [OF p])
  note n = CreateCopy_prepare_Inr(1) [OF p]
  show "VSIFOpenL_succeeds example_services ''out.lcp''"
    by (simp add: example_services_def)
  show "\<And>d. pfnProgress example_services d"
    by (simp add: example_services_def)
  show "\<And>a b c d. RawRasterBand_Create example_services a b c d"
    by (simp add: example_services_def)
  show "\<not> (CPLAssert_active example_services
            \<and> length (src_bands (example_dataset n srs files)) = 7
            \<and> papszFileList (example_dataset n srs files) \<noteq> None)"
    using f by (simp add: example_dataset_def)
  show "EQUAL (CPLGetExtension ''out.lcp'') ''lcp''"
    by (rule example_extension)
  show "- 90 \<le> sint (fp_to_GInt32 example_services
                       (fp_add example_services (dfLatitude plan) double_half))"
    using lat example_latitude by auto
  show "sint (fp_to_GInt32 example_services
                (fp_add example_services (dfLatitude plan) double_half)) \<le> 90"
    using lat example_latitude by auto
  show "0 < src_XSize (example_dataset n srs files)"
    by (simp add: example_dataset_def)
  show "src_XSize (example_dataset n srs files)
          \<le> INT_MAX div (int (length (src_bands (example_dataset n srs files))) * 2)"
    using n by (auto simp add: example_dataset_def INT_MAX_def)
  show "0 < src_YSize (example_dataset n srs files)"
    by (simp add: example_dataset_def)
  show "src_YSize (example_dataset n srs files) \<le> INT_MAX"
    by (simp add: example_dataset_def INT_MAX_def)
qed

section \<open>The codes of the options, and when the preparation passes\<close>

lemma unit_option_Some:
  "code (CSLFetchNameValueDef papszOptions key pszDefault) = Some c
     \<Longrightarrow> snd (unit_option papszOptions key pszDefault code i msg pm) = Inr (pm[i := c])"
  by (simp add: unit_option_def)

text \<open>
  \<^verbatim>\<open>panMetadata\<close> after the blocks for the units and options: the codes of the values
  looked at, and the defaults 3, 3, 3 and 1, 0 for the band groups that are absent.
\<close>

lemma unit_options_eq:
  assumes "ELEVATION_UNIT_code (CSLFetchNameValueDef papszOptions ''ELEVATION_UNIT'' ''METERS'')
             = Some c0"
    and "SLOPE_UNIT_code (CSLFetchNameValueDef papszOptions ''SLOPE_UNIT'' ''DEGREES'') = Some c1"
    and "ASPECT_UNIT_code (CSLFetchNameValueDef papszOptions ''ASPECT_UNIT'' ''AZIMUTH_DEGREES'')
           = Some c2"
    and "FUEL_MODEL_OPTION_code
           (CSLFetchNameValueDef papszOptions ''FUEL_MODEL_OPTION'' ''NO_CUSTOM_AND_NO_FILE'')
           = Some c3"
    and "CANOPY_COV_UNIT_code (CSLFetchNameValueDef papszOptions ''CANOPY_COV_UNIT'' ''PERCENT'')
           = Some c4"
    and "crown \<Longrightarrow>
           height_unit_code (CSLFetchNameValueDef papszOptions ''CANOPY_HT_UNIT'' ''METERS_X_10'')
             = Some c5"
    and "crown \<Longrightarrow>
           height_unit_code (CSLFetchNameValueDef papszOptions ''CBH_UNIT'' ''METERS_X_10'')
             = Some c6"
    and "crown \<Longrightarrow>
           CBD_UNIT_code
             (CSLFetchNameValueDef papszOptions ''CBD_UNIT'' ''KG_PER_CUBIC_METER_X_100'')
             = Some c7"
    and "ground \<Longrightarrow>
           DUFF_UNIT_code (CSLFetchNameValueDef papszOptions ''DUFF_UNIT'' ''MG_PER_HECTARE_X_10'')
             = Some c8"
  shows "snd (unit_options crown ground papszOptions)
           = Inr [c0, c1, c2, c3, c4, if crown then c5 else 3, if crown then c6 else 3,
                  if crown then c7 else 3, if ground then c8 else 1, if ground then 1 else 0]"
proof -
  note u = unit_option_Some [where code = ELEVATION_UNIT_code, OF assms(1)]
    unit_option_Some [where code = SLOPE_UNIT_code, OF assms(2)]
    unit_option_Some [where code = ASPECT_UNIT_code, OF assms(3)]
    unit_option_Some [where code = FUEL_MODEL_OPTION_code, OF assms(4)]
    unit_option_Some [where code = CANOPY_COV_UNIT_code, OF assms(5)]
  show ?thesis
  proof (cases crown)
    case c: True
    note uc = unit_option_Some [where code = height_unit_code, OF assms(6) [OF c]]
      unit_option_Some [where code = height_unit_code, OF assms(7) [OF c]]
      unit_option_Some [where code = CBD_UNIT_code, OF assms(8) [OF c]]
    show ?thesis
    proof (cases ground)
      case g: True
      note ug = unit_option_Some [where code = DUFF_UNIT_code, OF assms(9) [OF g]]
      show ?thesis
        by (simp add: unit_options_def crown_unit_options_def ground_unit_options_def
              then_step_def u uc ug c g)
    next
      case g: False
      show ?thesis
        by (simp add: unit_options_def crown_unit_options_def then_step_def u uc c g)
    qed
  next
    case c: False
    show ?thesis
    proof (cases ground)
      case g: True
      note ug = unit_option_Some [where code = DUFF_UNIT_code, OF assms(9) [OF g]]
      show ?thesis
        by (simp add: unit_options_def ground_unit_options_def then_step_def u ug c g)
    next
      case g: False
      show ?thesis
        by (simp add: unit_options_def then_step_def u c g)
    qed
  qed
qed

lemma stats_band_Inr:
  assumes "cls \<longrightarrow> (\<forall>vals. snd (snd (ClassifyBandData (pixels poBand))) = Some vals
                        \<longrightarrow> i * LCP_MAX_CLASSES + length vals \<le> length (panClasses a))"
  shows "\<exists>a'. snd (stats_band cls i poBand a) = Inr a'"
  using assms
  by (auto simp add: stats_band_def then_step_def Let_def store_classes_def
        split: option.splits sum.splits)

lemma stats_loop_Inr:
  assumes "cls \<longrightarrow> (\<forall>k<length bands. \<forall>vals.
                       snd (snd (ClassifyBandData (pixels (bands ! k)))) = Some vals
                       \<longrightarrow> (i + k) * LCP_MAX_CLASSES + length vals \<le> length (panClasses a))"
  shows "\<exists>a'. snd (stats_loop cls i bands a) = Inr a'"
  using assms
proof (induction bands arbitrary: i a)
  case Nil
  show ?case by simp
next
  case (Cons b bands)
  have "cls \<longrightarrow> (\<forall>vals. snd (snd (ClassifyBandData (pixels b))) = Some vals
                     \<longrightarrow> i * LCP_MAX_CLASSES + length vals \<le> length (panClasses a))"
    using Cons.prems by force
  from stats_band_Inr [OF this] obtain a1 where
    1: "snd (stats_band cls i b a) = Inr a1" by blast
  have l: "length (panClasses a1) = length (panClasses a)"
    by (rule stats_band_length [OF 1])
  have "cls \<longrightarrow> (\<forall>k<length bands. \<forall>vals.
                       snd (snd (ClassifyBandData (pixels (bands ! k)))) = Some vals
                       \<longrightarrow> (i + 1 + k) * LCP_MAX_CLASSES + length vals \<le> length (panClasses a1))"
  proof (intro impI allI)
    fix k vals
    assume c: cls and k: "k < length bands"
      and v: "snd (snd (ClassifyBandData (pixels (bands ! k)))) = Some vals"
    from Cons.prems c have
      "\<forall>k<length (b # bands). \<forall>vals.
          snd (snd (ClassifyBandData (pixels ((b # bands) ! k)))) = Some vals
          \<longrightarrow> (i + k) * LCP_MAX_CLASSES + length vals \<le> length (panClasses a)"
      by blast
    from this [rule_format, of "Suc k" vals] k v
    show "(i + 1 + k) * LCP_MAX_CLASSES + length vals \<le> length (panClasses a1)"
      by (simp add: l)
  qed
  from Cons.IH [OF this] obtain a' where
    2: "snd (stats_loop cls (i + 1) bands a1) = Inr a'" by blast
  show ?case using 1 2 by (simp add: then_step_Inr_iff)
qed

lemma stats_step_Inr:
  assumes "snd sc \<longrightarrow> (\<forall>k<length (src_bands poSrcDS). \<forall>vals.
                         snd (snd (ClassifyBandData (pixels (src_bands poSrcDS ! k)))) = Some vals
                         \<longrightarrow> k * LCP_MAX_CLASSES + length vals
                               \<le> length (src_bands poSrcDS) * LCP_MAX_CLASSES)"
  shows "\<exists>a. snd (stats_step poSrcDS sc) = Inr a"
proof (cases "fst sc")
  case False
  then show ?thesis by (simp add: stats_step_def Let_def)
next
  case True
  let ?n = "length (src_bands poSrcDS)"
  let ?a = "\<lparr>padfMin = replicate ?n 0, padfMax = replicate ?n 0, panFound = replicate ?n 0,
             panClasses = replicate (?n * LCP_MAX_CLASSES) 0\<rparr>"
  have "\<exists>a'. snd (stats_loop (snd sc) 0 (src_bands poSrcDS) ?a) = Inr a'"
    by (rule stats_loop_Inr) (use assms in simp)
  then show ?thesis using True by (simp add: stats_step_def Let_def)
qed

lemma snd_stats_options:
  "\<exists>calc. snd (stats_options papszOptions)
             = Inr (calc, CPLFetchBool papszOptions ''CLASSIFY_DATA'' True)"
  by (auto simp add: stats_options_def Let_def)

lemma linear_unit_step_Inr:
  "\<not> (bStrict \<and> snd lu) \<Longrightarrow> \<exists>x. snd (linear_unit_step sv poSrcDS bStrict lu) = Inr x"
  by (auto simp add: linear_unit_step_def split: option.splits)

lemma snd_linear_unit_option:
  "snd (linear_unit_option papszOptions)
     = EQUAL (CSLFetchNameValueDef papszOptions ''LINEAR_UNIT'' ''SET_FROM_SRS'') ''SET_FROM_SRS''"
  by (simp add: linear_unit_option_def Let_def)

text \<open>
  The preparation passes for a source of 5, 7, 8 or 10 bands (of type \<^verbatim>\<open>Int16\<close>, in
  strict mode) when the unit and option blocks pass, \<^verbatim>\<open>LATITUDE\<close> is given in
  -90 .. 90, \<^verbatim>\<open>LINEAR_UNIT\<close> is given in strict mode, and no band has more classes than
  \<^verbatim>\<open>panClasses\<close> has room for behind its slot.
\<close>

lemma CreateCopy_prepare_succeeds:
  assumes n: "length (src_bands poSrcDS) = 5 \<or> length (src_bands poSrcDS) = 7
              \<or> length (src_bands poSrcDS) = 8 \<or> length (src_bands poSrcDS) = 10"
    and t: "bStrict \<longrightarrow> eDataType (hd (src_bands poSrcDS)) = GDT_Int16"
    and u: "snd (unit_options (length (src_bands poSrcDS) = 8 \<or> length (src_bands poSrcDS) = 10)
                   (length (src_bands poSrcDS) = 7 \<or> length (src_bands poSrcDS) = 10)
                   papszOptions) = Inr pm"
    and lat: "CSLFetchNameValue papszOptions ''LATITUDE'' = Some v" "- 90 \<le> atoi v" "atoi v \<le> 90"
    and lin: "bStrict \<longrightarrow>
                \<not> EQUAL (CSLFetchNameValueDef papszOptions ''LINEAR_UNIT'' ''SET_FROM_SRS'')
                    ''SET_FROM_SRS''"
    and cls: "CPLFetchBool papszOptions ''CLASSIFY_DATA'' True \<longrightarrow>
                (\<forall>k<length (src_bands poSrcDS). \<forall>vals.
                   snd (snd (ClassifyBandData (pixels (src_bands poSrcDS ! k)))) = Some vals
                   \<longrightarrow> k * LCP_MAX_CLASSES + length vals
                         \<le> length (src_bands poSrcDS) * LCP_MAX_CLASSES)"
  shows "\<exists>plan. snd (CreateCopy_prepare sv poSrcDS bStrict papszOptions) = Inr plan
               \<and> dfLatitude plan = fp_of_int sv (atoi v)"
proof -
  let ?n = "int (length (src_bands poSrcDS))"
  have 1: "snd (check_bands ?n) = Inr ()"
    using n by (auto simp add: check_bands_def)
  have ne: "src_bands poSrcDS \<noteq> []"
    using n by auto
  have 2: "snd (check_type poSrcDS bStrict) = Inr ()"
    using t ne by (cases "src_bands poSrcDS") (auto simp add: check_type_def Let_def)
  have 3: "snd (unit_options (?n = 8 \<or> ?n = 10) (?n = 7 \<or> ?n = 10) papszOptions) = Inr pm"
    using u by simp
  from snd_stats_options obtain calc where
    4: "snd (stats_options papszOptions)
          = Inr (calc, CPLFetchBool papszOptions ''CLASSIFY_DATA'' True)"
    by blast
  have 5: "snd (latitude_option papszOptions) = Inr (False, atoi v)"
    using lat by (simp add: latitude_option_def)
  have 6: "snd (latitude_step sv poSrcDS (False, atoi v)) = Inr (fp_of_int sv (atoi v))"
    by (simp add: latitude_step_def)
  have "\<not> (bStrict \<and> snd (linear_unit_option papszOptions))"
    using lin by (simp add: snd_linear_unit_option)
  from linear_unit_step_Inr [OF this] obtain nLU where
    7: "snd (linear_unit_step sv poSrcDS bStrict (linear_unit_option papszOptions)) = Inr nLU"
    by blast
  have "\<exists>a. snd (stats_step poSrcDS (calc, CPLFetchBool papszOptions ''CLASSIFY_DATA'' True))
               = Inr a"
    by (rule stats_step_Inr) (use cls in simp)
  then obtain a where
    8: "snd (stats_step poSrcDS (calc, CPLFetchBool papszOptions ''CLASSIFY_DATA'' True)) = Inr a"
    by blast
  show ?thesis
    unfolding CreateCopy_prepare_def Let_def
    apply (simp only: then_step_Inr_eq [OF 1] then_step_Inr_eq [OF 2] then_step_Inr_eq [OF 3]
             then_step_Inr_eq [OF 4] then_step_Inr_eq [OF 5] then_step_Inr_eq [OF 6]
             then_step_Inr_eq [OF 7] then_step_Inr_eq [OF 8])
    apply simp
    done
qed

section \<open>The round trip through CreateCopy and Open\<close>

text \<open>
  \<^verbatim>\<open>CreateCopy\<close> returns a dataset for a source of 5, 7, 8 or 10 bands when every unit
  and option it looks at has a code, \<^verbatim>\<open>LATITUDE\<close> is given in -90 .. 90 and written in
  that range, the strict mode finds \<^verbatim>\<open>Int16\<close> bands and a given \<^verbatim>\<open>LINEAR_UNIT\<close>, no
  band has more classes than \<^verbatim>\<open>panClasses\<close> has room for, the file can be created
  under the extension \<^verbatim>\<open>lcp\<close>, no callback asks to stop, and the raster size is one
  \<^verbatim>\<open>Open\<close> accepts; but not from 7 bands with a file list in a debug build.
\<close>

lemma CreateCopy_returns_dataset_when:
  assumes n: "length (src_bands poSrcDS) = 5 \<or> length (src_bands poSrcDS) = 7 \<or> length (src_bands poSrcDS) = 8 \<or> length (src_bands poSrcDS) = 10"
    and t: "bStrict \<longrightarrow> eDataType (hd (src_bands poSrcDS)) = GDT_Int16"
    and e0: "ELEVATION_UNIT_code (CSLFetchNameValueDef papszOptions ''ELEVATION_UNIT'' ''METERS'') \<noteq> None"
    and e1: "SLOPE_UNIT_code (CSLFetchNameValueDef papszOptions ''SLOPE_UNIT'' ''DEGREES'') \<noteq> None"
    and e2: "ASPECT_UNIT_code (CSLFetchNameValueDef papszOptions ''ASPECT_UNIT'' ''AZIMUTH_DEGREES'') \<noteq> None"
    and e3: "FUEL_MODEL_OPTION_code (CSLFetchNameValueDef papszOptions ''FUEL_MODEL_OPTION'' ''NO_CUSTOM_AND_NO_FILE'') \<noteq> None"
    and e4: "CANOPY_COV_UNIT_code (CSLFetchNameValueDef papszOptions ''CANOPY_COV_UNIT'' ''PERCENT'') \<noteq> None"
    and ec: "length (src_bands poSrcDS) = 8 \<or> length (src_bands poSrcDS) = 10 \<longrightarrow>
         height_unit_code (CSLFetchNameValueDef papszOptions ''CANOPY_HT_UNIT'' ''METERS_X_10'') \<noteq> None
         \<and> height_unit_code (CSLFetchNameValueDef papszOptions ''CBH_UNIT'' ''METERS_X_10'') \<noteq> None
         \<and> CBD_UNIT_code (CSLFetchNameValueDef papszOptions ''CBD_UNIT'' ''KG_PER_CUBIC_METER_X_100'') \<noteq> None"
    and eg: "length (src_bands poSrcDS) = 7 \<or> length (src_bands poSrcDS) = 10 \<longrightarrow>
         DUFF_UNIT_code (CSLFetchNameValueDef papszOptions ''DUFF_UNIT'' ''MG_PER_HECTARE_X_10'') \<noteq> None"
    and lat: "\<exists>v. CSLFetchNameValue papszOptions ''LATITUDE'' = Some v \<and> - 90 \<le> atoi v \<and> atoi v \<le> 90
         \<and> - 90 \<le> sint (fp_to_GInt32 sv (fp_add sv (fp_of_int sv (atoi v)) double_half))
         \<and> sint (fp_to_GInt32 sv (fp_add sv (fp_of_int sv (atoi v)) double_half)) \<le> 90"
    and lin: "bStrict \<longrightarrow>
         \<not> EQUAL (CSLFetchNameValueDef papszOptions ''LINEAR_UNIT'' ''SET_FROM_SRS'') ''SET_FROM_SRS''"
    and cls: "CPLFetchBool papszOptions ''CLASSIFY_DATA'' True \<longrightarrow>
         (\<forall>k<length (src_bands poSrcDS). \<forall>vals.
            snd (snd (ClassifyBandData (pixels (src_bands poSrcDS ! k)))) = Some vals
            \<longrightarrow> k * LCP_MAX_CLASSES + length vals \<le> length (src_bands poSrcDS) * LCP_MAX_CLASSES)"
    and o: "VSIFOpenL_succeeds sv pszFilename"
    and pr: "\<forall>dfComplete. pfnProgress sv dfComplete"
    and rb: "\<forall>iBand nImg nPixel nLine. RawRasterBand_Create sv iBand nImg nPixel nLine"
    and as: "\<not> (CPLAssert_active sv \<and> length (src_bands poSrcDS) = 7 \<and> papszFileList poSrcDS \<noteq> None)"
    and ext: "EQUAL (CPLGetExtension pszFilename) ''lcp''"
    and x1: "0 < src_XSize poSrcDS"
    and x2: "src_XSize poSrcDS \<le> INT_MAX div (int (length (src_bands poSrcDS)) * 2)"
    and y1: "0 < src_YSize poSrcDS"
    and y2: "src_YSize poSrcDS \<le> INT_MAX"
  shows "\<exists>poDS. outcome (CreateCopy sv pszFilename poSrcDS bStrict papszOptions) = Returned (Some poDS)"
proof -
  from e0 e1 e2 e3 e4 obtain c0 c1 c2 c3 c4 where
    c: "ELEVATION_UNIT_code (CSLFetchNameValueDef papszOptions ''ELEVATION_UNIT'' ''METERS'') = Some c0"
      "SLOPE_UNIT_code (CSLFetchNameValueDef papszOptions ''SLOPE_UNIT'' ''DEGREES'') = Some c1"
      "ASPECT_UNIT_code (CSLFetchNameValueDef papszOptions ''ASPECT_UNIT'' ''AZIMUTH_DEGREES'') = Some c2"
      "FUEL_MODEL_OPTION_code (CSLFetchNameValueDef papszOptions ''FUEL_MODEL_OPTION'' ''NO_CUSTOM_AND_NO_FILE'') = Some c3"
      "CANOPY_COV_UNIT_code (CSLFetchNameValueDef papszOptions ''CANOPY_COV_UNIT'' ''PERCENT'') = Some c4"
    by auto
  have "\<exists>c5 c6 c7. (length (src_bands poSrcDS) = 8 \<or> length (src_bands poSrcDS) = 10 \<longrightarrow>
          height_unit_code (CSLFetchNameValueDef papszOptions ''CANOPY_HT_UNIT'' ''METERS_X_10'') = Some c5
          \<and> height_unit_code (CSLFetchNameValueDef papszOptions ''CBH_UNIT'' ''METERS_X_10'') = Some c6
          \<and> CBD_UNIT_code (CSLFetchNameValueDef papszOptions ''CBD_UNIT'' ''KG_PER_CUBIC_METER_X_100'') = Some c7)"
    using ec by (cases "length (src_bands poSrcDS) = 8 \<or> length (src_bands poSrcDS) = 10") auto
  then obtain c5 c6 c7 where
    cc: "length (src_bands poSrcDS) = 8 \<or> length (src_bands poSrcDS) = 10 \<Longrightarrow> height_unit_code (CSLFetchNameValueDef papszOptions ''CANOPY_HT_UNIT'' ''METERS_X_10'') = Some c5"
      "length (src_bands poSrcDS) = 8 \<or> length (src_bands poSrcDS) = 10 \<Longrightarrow> height_unit_code (CSLFetchNameValueDef papszOptions ''CBH_UNIT'' ''METERS_X_10'') = Some c6"
      "length (src_bands poSrcDS) = 8 \<or> length (src_bands poSrcDS) = 10 \<Longrightarrow> CBD_UNIT_code (CSLFetchNameValueDef papszOptions ''CBD_UNIT'' ''KG_PER_CUBIC_METER_X_100'') = Some c7"
    by blast
  have "\<exists>c8. (length (src_bands poSrcDS) = 7 \<or> length (src_bands poSrcDS) = 10 \<longrightarrow> DUFF_UNIT_code (CSLFetchNameValueDef papszOptions ''DUFF_UNIT'' ''MG_PER_HECTARE_X_10'') = Some c8)"
    using eg by (cases "length (src_bands poSrcDS) = 7 \<or> length (src_bands poSrcDS) = 10") auto
  then obtain c8 where
    cg: "length (src_bands poSrcDS) = 7 \<or> length (src_bands poSrcDS) = 10 \<Longrightarrow> DUFF_UNIT_code (CSLFetchNameValueDef papszOptions ''DUFF_UNIT'' ''MG_PER_HECTARE_X_10'') = Some c8"
    by blast
  note u = unit_options_eq [OF c cc cg]
  from lat obtain v where
    l: "CSLFetchNameValue papszOptions ''LATITUDE'' = Some v" "- 90 \<le> atoi v" "atoi v \<le> 90"
    and w: "- 90 \<le> sint (fp_to_GInt32 sv (fp_add sv (fp_of_int sv (atoi v)) double_half))"
      "sint (fp_to_GInt32 sv (fp_add sv (fp_of_int sv (atoi v)) double_half)) \<le> 90"
    by blast
  from CreateCopy_prepare_succeeds [OF n t u l lin cls] obtain plan where
    p: "snd (CreateCopy_prepare sv poSrcDS bStrict papszOptions) = Inr plan"
    and d: "dfLatitude plan = fp_of_int sv (atoi v)"
    by blast
  show ?thesis
    by (rule CreateCopy_returns_dataset [OF p o]) (use pr rb as ext w x1 x2 y1 y2 d in auto)
qed

text \<open>
  The dataset \<^verbatim>\<open>CreateCopy\<close> returns: its flags and band count are those of the source,
  its bounds and cell sizes are computed from the geotransform of the source, and the
  codes of the option values stand in its header and, in decimal, in the metadata of
  its bands.
\<close>

lemma CreateCopy_round_trip:
  assumes r: "outcome (CreateCopy sv pszFilename poSrcDS bStrict papszOptions) = Returned (Some poDS)"
  shows "length (src_bands poSrcDS) = 5 \<or> length (src_bands poSrcDS) = 7 \<or> length (src_bands poSrcDS) = 8 \<or> length (src_bands poSrcDS) = 10"
    and "CPL_TO_BOOL (CPL_LSBSINT32PTR (pachHeader poDS) 0 - 20) = (length (src_bands poSrcDS) = 8 \<or> length (src_bands poSrcDS) = 10)"
    and "CPL_TO_BOOL (CPL_LSBSINT32PTR (pachHeader poDS) 4 - 20) = (length (src_bands poSrcDS) = 7 \<or> length (src_bands poSrcDS) = 10)"
    and "GetRasterCount poDS = int (length (src_bands poSrcDS))"
    and "header_geo_fields poDS =
         \<lparr>dfEast = fp_add sv (gt0 (srcGT poSrcDS))
                     (fp_mul sv (gt1 (srcGT poSrcDS)) (fp_of_int sv (src_XSize poSrcDS))),
          dfWest = gt0 (srcGT poSrcDS),
          dfNorth = gt3 (srcGT poSrcDS),
          dfSouth = fp_add sv (gt3 (srcGT poSrcDS))
                      (fp_mul sv (gt5 (srcGT poSrcDS)) (fp_of_int sv (src_YSize poSrcDS))),
          dfCellX = gt1 (srcGT poSrcDS),
          dfCellY = fp_fabs sv (gt5 (srcGT poSrcDS))\<rparr>"
    and "\<exists>c0 c1 c2 c3 c4.
           ELEVATION_UNIT_code (CSLFetchNameValueDef papszOptions ''ELEVATION_UNIT'' ''METERS'') = Some c0
           \<and> SLOPE_UNIT_code (CSLFetchNameValueDef papszOptions ''SLOPE_UNIT'' ''DEGREES'') = Some c1
           \<and> ASPECT_UNIT_code (CSLFetchNameValueDef papszOptions ''ASPECT_UNIT'' ''AZIMUTH_DEGREES'') = Some c2
           \<and> FUEL_MODEL_OPTION_code (CSLFetchNameValueDef papszOptions ''FUEL_MODEL_OPTION'' ''NO_CUSTOM_AND_NO_FILE'') = Some c3
           \<and> CANOPY_COV_UNIT_code (CSLFetchNameValueDef papszOptions ''CANOPY_COV_UNIT'' ''PERCENT'') = Some c4
           \<and> CPL_LSBUINT16PTR (pachHeader poDS) 4224 = uint c0
           \<and> CPL_LSBUINT16PTR (pachHeader poDS) 4226 = uint c1
           \<and> CPL_LSBUINT16PTR (pachHeader poDS) 4228 = uint c2
           \<and> CPL_LSBUINT16PTR (pachHeader poDS) 4230 = uint c3
           \<and> CPL_LSBUINT16PTR (pachHeader poDS) 4232 = uint c4
           \<and> GetMetadataItem (band_metadata (papoBands poDS ! 0)) ''ELEVATION_UNIT''
               = Some (snprintf_d (uint c0))
           \<and> GetMetadataItem (band_metadata (papoBands poDS ! 1)) ''SLOPE_UNIT''
               = Some (snprintf_d (uint c1))
           \<and> GetMetadataItem (band_metadata (papoBands poDS ! 2)) ''ASPECT_UNIT''
               = Some (snprintf_d (uint c2))
           \<and> GetMetadataItem (band_metadata (papoBands poDS ! 3)) ''FUEL_MODEL_OPTION''
               = Some (snprintf_d (uint c3))
           \<and> GetMetadataItem (band_metadata (papoBands poDS ! 4)) ''CANOPY_COV_UNIT''
               = Some (snprintf_d (uint c4))"
    and "if length (src_bands poSrcDS) = 8 \<or> length (src_bands poSrcDS) = 10
        then (\<exists>c5 c6 c7.
           height_unit_code (CSLFetchNameValueDef papszOptions ''CANOPY_HT_UNIT'' ''METERS_X_10'') = Some c5
           \<and> height_unit_code (CSLFetchNameValueDef papszOptions ''CBH_UNIT'' ''METERS_X_10'') = Some c6
           \<and> CBD_UNIT_code (CSLFetchNameValueDef papszOptions ''CBD_UNIT'' ''KG_PER_CUBIC_METER_X_100'') = Some c7
           \<and> CPL_LSBUINT16PTR (pachHeader poDS) 4234 = uint c5
           \<and> CPL_LSBUINT16PTR (pachHeader poDS) 4236 = uint c6
           \<and> CPL_LSBUINT16PTR (pachHeader poDS) 4238 = uint c7
           \<and> GetMetadataItem (band_metadata (papoBands poDS ! 5)) ''CANOPY_HT_UNIT''
               = Some (snprintf_d (uint c5))
           \<and> GetMetadataItem (band_metadata (papoBands poDS ! 6)) ''CBH_UNIT''
               = Some (snprintf_d (uint c6))
           \<and> GetMetadataItem (band_metadata (papoBands poDS ! 7)) ''CBD_UNIT''
               = Some (snprintf_d (uint c7)))
        else CPL_LSBUINT16PTR (pachHeader poDS) 4234 = 3 \<and> CPL_LSBUINT16PTR (pachHeader poDS) 4236 = 3 \<and> CPL_LSBUINT16PTR (pachHeader poDS) 4238 = 3"
    and "if length (src_bands poSrcDS) = 7 \<or> length (src_bands poSrcDS) = 10
        then (\<exists>c8.
           DUFF_UNIT_code (CSLFetchNameValueDef papszOptions ''DUFF_UNIT'' ''MG_PER_HECTARE_X_10'') = Some c8
           \<and> CPL_LSBUINT16PTR (pachHeader poDS) 4240 = uint c8 \<and> CPL_LSBUINT16PTR (pachHeader poDS) 4242 = 1
           \<and> GetMetadataItem (band_metadata (papoBands poDS ! (length (src_bands poSrcDS) - 2))) ''DUFF_UNIT''
               = Some (snprintf_d (uint c8))
           \<and> GetMetadataItem (band_metadata (papoBands poDS ! (length (src_bands poSrcDS) - 1))) ''CWD_OPTION''
               = Some (snprintf_d 1))
        else CPL_LSBUINT16PTR (pachHeader poDS) 4240 = 1 \<and> CPL_LSBUINT16PTR (pachHeader poDS) 4242 = 0"
    and "GetGeoTransform sv poDS =
         \<lparr>gt0 = gt0 (srcGT poSrcDS), gt1 = gt1 (srcGT poSrcDS), gt2 = 0,
          gt3 = gt3 (srcGT poSrcDS), gt4 = 0,
          gt5 = fp_mul sv (fp_of_int sv (- 1)) (fp_fabs sv (gt5 (srcGT poSrcDS)))\<rparr>"
proof -
  let ?n = "length (src_bands poSrcDS)"
  let ?cr = "?n = 8 \<or> ?n = 10"
  let ?gr = "?n = 7 \<or> ?n = 10"
  from CreateCopy_SomeD [OF r] obtain plan fp where
    p: "snd (CreateCopy_prepare sv poSrcDS bStrict papszOptions) = Inr plan"
    and op: "Open sv (GDALOpenInfo_of pszFilename fp) = Some poDS"
    and a: "stored (vsi_data fp) 0 (preamble_bytes sv poSrcDS plan)"
    and b: "stored (vsi_data fp) 4164 (geo_bytes sv poSrcDS plan)"
    by blast
  note wf = GDALOpenInfo_of_wf [of pszFilename fp]
  from Open_SomeD(1) [OF wf op] have "fpImage poDS = fp\<lparr>vsi_offset := 0\<rparr>"
    by (simp add: GDALOpenInfo_of_def)
  then have im: "vsi_data (fpImage poDS) = vsi_data fp"
    by simp
  note pp = CreateCopy_prepare_Inr [OF p]
  show n: "?n = 5 \<or> ?n = 7 \<or> ?n = 8 \<or> ?n = 10"
    using pp(1) by auto
  have cr: "bHaveCrownFuels plan = ?cr"
    using pp(2) by auto
  have gr: "bHaveGroundFuels plan = ?gr"
    using pp(3) by auto
  have keep: "\<And>i. i < 4244 \<Longrightarrow> pachHeader poDS i = vsi_data fp i"
    using Open_header_kept [OF wf op] im by simp
  have a': "stored (pachHeader poDS) 0 (preamble_bytes sv poSrcDS plan)"
    by (rule stored_cong [OF a]) (simp add: keep)
  have b': "stored (pachHeader poDS) 4164 (geo_bytes sv poSrcDS plan)"
    by (rule stored_cong [OF b]) (simp add: keep pp(5))
  show "CPL_TO_BOOL (CPL_LSBSINT32PTR (pachHeader poDS) 0 - 20) = ?cr"
    by (simp add: stored_preamble_fields(1) [OF a'] CPL_TO_BOOL_def cr [symmetric])
  show "CPL_TO_BOOL (CPL_LSBSINT32PTR (pachHeader poDS) 4 - 20) = ?gr"
    by (simp add: stored_preamble_fields(2) [OF a'] CPL_TO_BOOL_def gr [symmetric])
  show cnt: "GetRasterCount poDS = int ?n"
    using CreateCopy_header [OF r] by blast
  show "header_geo_fields poDS =
         \<lparr>dfEast = fp_add sv (gt0 (srcGT poSrcDS))
                     (fp_mul sv (gt1 (srcGT poSrcDS)) (fp_of_int sv (src_XSize poSrcDS))),
          dfWest = gt0 (srcGT poSrcDS),
          dfNorth = gt3 (srcGT poSrcDS),
          dfSouth = fp_add sv (gt3 (srcGT poSrcDS))
                      (fp_mul sv (gt5 (srcGT poSrcDS)) (fp_of_int sv (src_YSize poSrcDS))),
          dfCellX = gt1 (srcGT poSrcDS),
          dfCellY = fp_fabs sv (gt5 (srcGT poSrcDS))\<rparr>"
    by (simp add: header_geo_fields_def stored_geo_fields(3,4,5,6,8,9) [OF b'])
  show "GetGeoTransform sv poDS =
         \<lparr>gt0 = gt0 (srcGT poSrcDS), gt1 = gt1 (srcGT poSrcDS), gt2 = 0,
          gt3 = gt3 (srcGT poSrcDS), gt4 = 0,
          gt5 = fp_mul sv (fp_of_int sv (- 1)) (fp_fabs sv (gt5 (srcGT poSrcDS)))\<rparr>"
    by (simp add: GetGeoTransform_def Let_def header_geo_fields_def
          stored_geo_fields(3,4,5,6,8,9) [OF b'])
  have hd: "\<And>k. k < 10 \<Longrightarrow>
      CPL_LSBUINT16PTR (pachHeader poDS) (4224 + 2 * k) = uint (panMetadata plan ! k)"
    using stored_geo_fields(10) [OF b'] pp(5) by simp
  have fd: "\<And>k. k < 10 \<Longrightarrow>
      CPL_LSBUINT16PTR (vsi_data (fpImage poDS)) (4224 + 2 * k) = uint (panMetadata plan ! k)"
    using stored_geo_fields(10) [OF b] pp(5) by (simp add: im)
  have fl: "(CPL_LSBSINT32PTR (vsi_data (fpImage poDS)) 0 = 21) = ?cr"
    by (simp add: im stored_preamble_fields(1) [OF a] cr [symmetric])
  have bi: "GetMetadataItem (band_metadata (papoBands poDS ! k)) key
              = Some (snprintf_d (uint (panMetadata plan ! j)))"
    if "k < ?n" and "j < 10" and "b = k + 1" and "off = 4224 + 2 * j" and "cf = ?cr"
      and "\<And>hk. GetMetadataItem (snd (snd (Open_band cf b hk))) key
                   = Some (snprintf_d (CPL_LSBUINT16PTR hk off))"
    for k j b off cf key
  proof -
    have k: "int k < GetRasterCount poDS"
      using that(1) cnt by simp
    have o: "4224 + 2 * j + 1 < 4244"
      using that(2) by simp
    have u: "GetMetadataItem
               (snd (snd (Open_band (CPL_LSBSINT32PTR (vsi_data (fpImage poDS)) 0 = 21)
                            (k + 1) hk))) key
             = Some (snprintf_d (CPL_LSBUINT16PTR hk (4224 + 2 * j)))" for hk
      using that(6) [of hk] by (simp only: fl that(3,4,5))
    have "GetMetadataItem (band_metadata (papoBands poDS ! k)) key
            = Some (snprintf_d (CPL_LSBUINT16PTR (vsi_data (fpImage poDS)) (4224 + 2 * j)))"
      by (rule Open_band_unit_item [OF wf op k u o])
    then show ?thesis by (simp only: fd [OF that(2)])
  qed
  have u: "snd (unit_options ?cr ?gr papszOptions) = Inr (panMetadata plan)"
    using pp(4) by (simp only: cr gr)
  note nn = unit_options_Inr_codes [OF u]
  from nn(1,2,3,4,5) obtain c0 c1 c2 c3 c4 where
    c: "ELEVATION_UNIT_code (CSLFetchNameValueDef papszOptions ''ELEVATION_UNIT'' ''METERS'') = Some c0"
      "SLOPE_UNIT_code (CSLFetchNameValueDef papszOptions ''SLOPE_UNIT'' ''DEGREES'') = Some c1"
      "ASPECT_UNIT_code (CSLFetchNameValueDef papszOptions ''ASPECT_UNIT'' ''AZIMUTH_DEGREES'') = Some c2"
      "FUEL_MODEL_OPTION_code (CSLFetchNameValueDef papszOptions ''FUEL_MODEL_OPTION'' ''NO_CUSTOM_AND_NO_FILE'') = Some c3"
      "CANOPY_COV_UNIT_code (CSLFetchNameValueDef papszOptions ''CANOPY_COV_UNIT'' ''PERCENT'') = Some c4"
    by auto
  have "\<exists>c5 c6 c7. (?cr \<longrightarrow>
          height_unit_code (CSLFetchNameValueDef papszOptions ''CANOPY_HT_UNIT'' ''METERS_X_10'') = Some c5
          \<and> height_unit_code (CSLFetchNameValueDef papszOptions ''CBH_UNIT'' ''METERS_X_10'') = Some c6
          \<and> CBD_UNIT_code (CSLFetchNameValueDef papszOptions ''CBD_UNIT'' ''KG_PER_CUBIC_METER_X_100'') = Some c7)"
    using nn(6) by (cases ?cr) auto
  then obtain c5 c6 c7 where
    cc: "?cr \<Longrightarrow> height_unit_code (CSLFetchNameValueDef papszOptions ''CANOPY_HT_UNIT'' ''METERS_X_10'') = Some c5"
      "?cr \<Longrightarrow> height_unit_code (CSLFetchNameValueDef papszOptions ''CBH_UNIT'' ''METERS_X_10'') = Some c6"
      "?cr \<Longrightarrow> CBD_UNIT_code (CSLFetchNameValueDef papszOptions ''CBD_UNIT'' ''KG_PER_CUBIC_METER_X_100'') = Some c7"
    by blast
  have "\<exists>c8. (?gr \<longrightarrow> DUFF_UNIT_code (CSLFetchNameValueDef papszOptions ''DUFF_UNIT'' ''MG_PER_HECTARE_X_10'') = Some c8)"
    using nn(7) by (cases ?gr) auto
  then obtain c8 where
    cg: "?gr \<Longrightarrow> DUFF_UNIT_code (CSLFetchNameValueDef papszOptions ''DUFF_UNIT'' ''MG_PER_HECTARE_X_10'') = Some c8"
    by blast
  have pm: "panMetadata plan
              = [c0, c1, c2, c3, c4, if ?cr then c5 else 3, if ?cr then c6 else 3,
                 if ?cr then c7 else 3, if ?gr then c8 else 1, if ?gr then 1 else 0]"
    using unit_options_eq [OF c cc cg] u by simp
  have n5: "0 < ?n" "1 < ?n" "2 < ?n" "3 < ?n" "4 < ?n"
    using n by auto
  have i0: "GetMetadataItem (band_metadata (papoBands poDS ! 0)) ''ELEVATION_UNIT''
             = Some (snprintf_d (uint c0))"
    using bi [where k = 0 and j = 0 and b = 1 and off = 4224 and cf = "?cr",
              OF _ _ _ _ _ Open_band_unit(1)] n5 by (simp add: pm)
  have i1: "GetMetadataItem (band_metadata (papoBands poDS ! 1)) ''SLOPE_UNIT''
             = Some (snprintf_d (uint c1))"
    using bi [where k = 1 and j = 1 and b = 2 and off = 4226 and cf = "?cr",
              OF _ _ _ _ _ Open_band_unit(2)] n5 by (simp add: pm)
  have i2: "GetMetadataItem (band_metadata (papoBands poDS ! 2)) ''ASPECT_UNIT''
             = Some (snprintf_d (uint c2))"
    using bi [where k = 2 and j = 2 and b = 3 and off = 4228 and cf = "?cr",
              OF _ _ _ _ _ Open_band_unit(3)] n5 by (simp add: pm)
  have i3: "GetMetadataItem (band_metadata (papoBands poDS ! 3)) ''FUEL_MODEL_OPTION''
             = Some (snprintf_d (uint c3))"
    using bi [where k = 3 and j = 3 and b = 4 and off = 4230 and cf = "?cr",
              OF _ _ _ _ _ Open_band_unit(4)] n5 by (simp add: pm)
  have i4: "GetMetadataItem (band_metadata (papoBands poDS ! 4)) ''CANOPY_COV_UNIT''
             = Some (snprintf_d (uint c4))"
    using bi [where k = 4 and j = 4 and b = 5 and off = 4232 and cf = "?cr",
              OF _ _ _ _ _ Open_band_unit(5)] n5 by (simp add: pm)
  have h0: "CPL_LSBUINT16PTR (pachHeader poDS) 4224 = uint c0" using hd [of 0] n5 by (simp add: pm)
  have h1: "CPL_LSBUINT16PTR (pachHeader poDS) 4226 = uint c1" using hd [of 1] n5 by (simp add: pm)
  have h2: "CPL_LSBUINT16PTR (pachHeader poDS) 4228 = uint c2" using hd [of 2] n5 by (simp add: pm)
  have h3: "CPL_LSBUINT16PTR (pachHeader poDS) 4230 = uint c3" using hd [of 3] n5 by (simp add: pm)
  have h4: "CPL_LSBUINT16PTR (pachHeader poDS) 4232 = uint c4" using hd [of 4] n5 by (simp add: pm)
  have h5: "CPL_LSBUINT16PTR (pachHeader poDS) 4234 = uint (if ?cr then c5 else 3)" using hd [of 5] n5 by (simp add: pm)
  have h6: "CPL_LSBUINT16PTR (pachHeader poDS) 4236 = uint (if ?cr then c6 else 3)" using hd [of 6] n5 by (simp add: pm)
  have h7: "CPL_LSBUINT16PTR (pachHeader poDS) 4238 = uint (if ?cr then c7 else 3)" using hd [of 7] n5 by (simp add: pm)
  have h8: "CPL_LSBUINT16PTR (pachHeader poDS) 4240 = uint (if ?gr then c8 else 1)" using hd [of 8] n5 by (simp add: pm)
  have h9: "CPL_LSBUINT16PTR (pachHeader poDS) 4242 = uint (if ?gr then 1 else 0 :: GInt16)" using hd [of 9] n5 by (simp add: pm)
  show "\<exists>c0 c1 c2 c3 c4.
           ELEVATION_UNIT_code (CSLFetchNameValueDef papszOptions ''ELEVATION_UNIT'' ''METERS'') = Some c0
           \<and> SLOPE_UNIT_code (CSLFetchNameValueDef papszOptions ''SLOPE_UNIT'' ''DEGREES'') = Some c1
           \<and> ASPECT_UNIT_code (CSLFetchNameValueDef papszOptions ''ASPECT_UNIT'' ''AZIMUTH_DEGREES'') = Some c2
           \<and> FUEL_MODEL_OPTION_code (CSLFetchNameValueDef papszOptions ''FUEL_MODEL_OPTION'' ''NO_CUSTOM_AND_NO_FILE'') = Some c3
           \<and> CANOPY_COV_UNIT_code (CSLFetchNameValueDef papszOptions ''CANOPY_COV_UNIT'' ''PERCENT'') = Some c4
           \<and> CPL_LSBUINT16PTR (pachHeader poDS) 4224 = uint c0
           \<and> CPL_LSBUINT16PTR (pachHeader poDS) 4226 = uint c1
           \<and> CPL_LSBUINT16PTR (pachHeader poDS) 4228 = uint c2
           \<and> CPL_LSBUINT16PTR (pachHeader poDS) 4230 = uint c3
           \<and> CPL_LSBUINT16PTR (pachHeader poDS) 4232 = uint c4
           \<and> GetMetadataItem (band_metadata (papoBands poDS ! 0)) ''ELEVATION_UNIT''
               = Some (snprintf_d (uint c0))
           \<and> GetMetadataItem (band_metadata (papoBands poDS ! 1)) ''SLOPE_UNIT''
               = Some (snprintf_d (uint c1))
           \<and> GetMetadataItem (band_metadata (papoBands poDS ! 2)) ''ASPECT_UNIT''
               = Some (snprintf_d (uint c2))
           \<and> GetMetadataItem (band_metadata (papoBands poDS ! 3)) ''FUEL_MODEL_OPTION''
               = Some (snprintf_d (uint c3))
           \<and> GetMetadataItem (band_metadata (papoBands poDS ! 4)) ''CANOPY_COV_UNIT''
               = Some (snprintf_d (uint c4))"
    by (intro exI conjI; (rule c h0 h1 h2 h3 h4 i0 i1 i2 i3 i4))
  show "if length (src_bands poSrcDS) = 8 \<or> length (src_bands poSrcDS) = 10
        then (\<exists>c5 c6 c7.
           height_unit_code (CSLFetchNameValueDef papszOptions ''CANOPY_HT_UNIT'' ''METERS_X_10'') = Some c5
           \<and> height_unit_code (CSLFetchNameValueDef papszOptions ''CBH_UNIT'' ''METERS_X_10'') = Some c6
           \<and> CBD_UNIT_code (CSLFetchNameValueDef papszOptions ''CBD_UNIT'' ''KG_PER_CUBIC_METER_X_100'') = Some c7
           \<and> CPL_LSBUINT16PTR (pachHeader poDS) 4234 = uint c5
           \<and> CPL_LSBUINT16PTR (pachHeader poDS) 4236 = uint c6
           \<and> CPL_LSBUINT16PTR (pachHeader poDS) 4238 = uint c7
           \<and> GetMetadataItem (band_metadata (papoBands poDS ! 5)) ''CANOPY_HT_UNIT''
               = Some (snprintf_d (uint c5))
           \<and> GetMetadataItem (band_metadata (papoBands poDS ! 6)) ''CBH_UNIT''
               = Some (snprintf_d (uint c6))
           \<and> GetMetadataItem (band_metadata (papoBands poDS ! 7)) ''CBD_UNIT''
               = Some (snprintf_d (uint c7)))
        else CPL_LSBUINT16PTR (pachHeader poDS) 4234 = 3 \<and> CPL_LSBUINT16PTR (pachHeader poDS) 4236 = 3 \<and> CPL_LSBUINT16PTR (pachHeader poDS) 4238 = 3"
  proof (cases ?cr)
    case False
    then show ?thesis using h5 h6 h7 by simp
  next
    case True
    have n8: "5 < ?n" "6 < ?n" "7 < ?n"
      using True by auto
    have i5: "GetMetadataItem (band_metadata (papoBands poDS ! 5)) ''CANOPY_HT_UNIT''
             = Some (snprintf_d (uint c5))"
      using bi [where k = 5 and j = 5 and b = 6 and off = 4234 and cf = "True",
              OF _ _ _ _ _ Open_band_unit(6)] n8 True by (simp add: pm)
    have i6: "GetMetadataItem (band_metadata (papoBands poDS ! 6)) ''CBH_UNIT''
             = Some (snprintf_d (uint c6))"
      using bi [where k = 6 and j = 6 and b = 7 and off = 4236 and cf = "True",
              OF _ _ _ _ _ Open_band_unit(7)] n8 True by (simp add: pm)
    have i7: "GetMetadataItem (band_metadata (papoBands poDS ! 7)) ''CBD_UNIT''
             = Some (snprintf_d (uint c7))"
      using bi [where k = 7 and j = 7 and b = 8 and off = 4238 and cf = "?cr",
              OF _ _ _ _ _ Open_band_unit(8)] n8 True by (simp add: pm)
    have h5c: "CPL_LSBUINT16PTR (pachHeader poDS) 4234 = uint c5" using h5 True by simp
    have h6c: "CPL_LSBUINT16PTR (pachHeader poDS) 4236 = uint c6" using h6 True by simp
    have h7c: "CPL_LSBUINT16PTR (pachHeader poDS) 4238 = uint c7" using h7 True by simp
    have "\<exists>c5 c6 c7.
         height_unit_code (CSLFetchNameValueDef papszOptions ''CANOPY_HT_UNIT'' ''METERS_X_10'') = Some c5
         \<and> height_unit_code (CSLFetchNameValueDef papszOptions ''CBH_UNIT'' ''METERS_X_10'') = Some c6
         \<and> CBD_UNIT_code (CSLFetchNameValueDef papszOptions ''CBD_UNIT'' ''KG_PER_CUBIC_METER_X_100'') = Some c7
         \<and> CPL_LSBUINT16PTR (pachHeader poDS) 4234 = uint c5
         \<and> CPL_LSBUINT16PTR (pachHeader poDS) 4236 = uint c6
         \<and> CPL_LSBUINT16PTR (pachHeader poDS) 4238 = uint c7
         \<and> GetMetadataItem (band_metadata (papoBands poDS ! 5)) ''CANOPY_HT_UNIT''
             = Some (snprintf_d (uint c5))
         \<and> GetMetadataItem (band_metadata (papoBands poDS ! 6)) ''CBH_UNIT''
             = Some (snprintf_d (uint c6))
         \<and> GetMetadataItem (band_metadata (papoBands poDS ! 7)) ''CBD_UNIT''
             = Some (snprintf_d (uint c7))"
      by (intro exI conjI; (rule cc [OF True] h5c h6c h7c i5 i6 i7))
    then show ?thesis using True by simp
  qed
  show "if length (src_bands poSrcDS) = 7 \<or> length (src_bands poSrcDS) = 10
        then (\<exists>c8.
           DUFF_UNIT_code (CSLFetchNameValueDef papszOptions ''DUFF_UNIT'' ''MG_PER_HECTARE_X_10'') = Some c8
           \<and> CPL_LSBUINT16PTR (pachHeader poDS) 4240 = uint c8 \<and> CPL_LSBUINT16PTR (pachHeader poDS) 4242 = 1
           \<and> GetMetadataItem (band_metadata (papoBands poDS ! (length (src_bands poSrcDS) - 2))) ''DUFF_UNIT''
               = Some (snprintf_d (uint c8))
           \<and> GetMetadataItem (band_metadata (papoBands poDS ! (length (src_bands poSrcDS) - 1))) ''CWD_OPTION''
               = Some (snprintf_d 1))
        else CPL_LSBUINT16PTR (pachHeader poDS) 4240 = 1 \<and> CPL_LSBUINT16PTR (pachHeader poDS) 4242 = 0"
  proof (cases ?gr)
    case False
    then show ?thesis using h8 h9 by simp
  next
    case True
    have d: "GetMetadataItem (band_metadata (papoBands poDS ! (?n - 2))) ''DUFF_UNIT''
             = Some (snprintf_d (uint c8))"
    proof (cases "?n = 7")
      case s: True
      have p8: "panMetadata plan ! 8 = c8"
        using True by (simp add: pm)
      have "GetMetadataItem (band_metadata (papoBands poDS ! 5)) ''DUFF_UNIT''
              = Some (snprintf_d (uint (panMetadata plan ! 8)))"
        by (rule bi [where k = 5 and j = 8 and b = 6 and off = 4240 and cf = "False",
              OF _ _ _ _ _ Open_band_unit(9)]) (use s in simp_all)
      then have "GetMetadataItem (band_metadata (papoBands poDS ! 5)) ''DUFF_UNIT''
              = Some (snprintf_d (uint c8))"
        by (simp only: p8 uint_1)
      moreover have "?n - 2 = 5" using s by simp
      ultimately show ?thesis by (simp only:)
    next
      case False
      with True have s: "?n = 10" by simp
      have p8: "panMetadata plan ! 8 = c8"
        using True by (simp add: pm)
      have "GetMetadataItem (band_metadata (papoBands poDS ! 8)) ''DUFF_UNIT''
              = Some (snprintf_d (uint (panMetadata plan ! 8)))"
        by (rule bi [where k = 8 and j = 8 and b = 9 and off = 4240 and cf = "?cr",
              OF _ _ _ _ _ Open_band_unit(11)]) (use s in simp_all)
      then have "GetMetadataItem (band_metadata (papoBands poDS ! 8)) ''DUFF_UNIT''
              = Some (snprintf_d (uint c8))"
        by (simp only: p8 uint_1)
      moreover have "?n - 2 = 8" using s by simp
      ultimately show ?thesis by (simp only:)
    qed
    have w: "GetMetadataItem (band_metadata (papoBands poDS ! (?n - 1))) ''CWD_OPTION''
             = Some (snprintf_d 1)"
    proof (cases "?n = 7")
      case s: True
      have p9: "panMetadata plan ! 9 = 1"
        using True by (simp add: pm)
      have "GetMetadataItem (band_metadata (papoBands poDS ! 6)) ''CWD_OPTION''
              = Some (snprintf_d (uint (panMetadata plan ! 9)))"
        by (rule bi [where k = 6 and j = 9 and b = 7 and off = 4242 and cf = "False",
              OF _ _ _ _ _ Open_band_unit(10)]) (use s in simp_all)
      then have "GetMetadataItem (band_metadata (papoBands poDS ! 6)) ''CWD_OPTION''
              = Some (snprintf_d 1)"
        by (simp only: p9 uint_1)
      moreover have "?n - 1 = 6" using s by simp
      ultimately show ?thesis by (simp only:)
    next
      case False
      with True have s: "?n = 10" by simp
      have p9: "panMetadata plan ! 9 = 1"
        using True by (simp add: pm)
      have "GetMetadataItem (band_metadata (papoBands poDS ! 9)) ''CWD_OPTION''
              = Some (snprintf_d (uint (panMetadata plan ! 9)))"
        by (rule bi [where k = 9 and j = 9 and b = 10 and off = 4242 and cf = "?cr",
              OF _ _ _ _ _ Open_band_unit(12)]) (use s in simp_all)
      then have "GetMetadataItem (band_metadata (papoBands poDS ! 9)) ''CWD_OPTION''
              = Some (snprintf_d 1)"
        by (simp only: p9 uint_1)
      moreover have "?n - 1 = 9" using s by simp
      ultimately show ?thesis by (simp only:)
    qed
    have h8c: "CPL_LSBUINT16PTR (pachHeader poDS) 4240 = uint c8" using h8 True by simp
    have h9c: "CPL_LSBUINT16PTR (pachHeader poDS) 4242 = 1" using h9 True by simp
    have "\<exists>c8.
         DUFF_UNIT_code (CSLFetchNameValueDef papszOptions ''DUFF_UNIT'' ''MG_PER_HECTARE_X_10'') = Some c8
         \<and> CPL_LSBUINT16PTR (pachHeader poDS) 4240 = uint c8 \<and> CPL_LSBUINT16PTR (pachHeader poDS) 4242 = 1
         \<and> GetMetadataItem (band_metadata (papoBands poDS ! (?n - 2))) ''DUFF_UNIT''
             = Some (snprintf_d (uint c8))
         \<and> GetMetadataItem (band_metadata (papoBands poDS ! (?n - 1))) ''CWD_OPTION''
             = Some (snprintf_d 1)"
      by (intro exI conjI; (rule cg [OF True] h8c h9c d w))
    then show ?thesis using True by simp
  qed
qed

lemma example_opens: "Open example_services (example_openinfo 45) \<noteq> None"
  using Open_None_iff [OF example_openinfo_wf, of example_services 45]
  by (simp add: example_file_fields flag_band_count_def INT_MAX_def LCP_HEADER_SIZE_def
        example_openinfo_def [of 45] EQUAL_def example_services_def band_numbers_def list_all_iff)
     (simp add: example_file_def)

text \<open>
  C2. For every header \<^verbatim>\<open>Open\<close> accepts, each of the two flag fields is 20 (absent)
  or 21 (present), and the number of bands of the dataset is fixed by them: 5 for
  (absent, absent), 7 for (absent, present), 8 for (present, absent) and 10 for
  (present, present).
\<close>

theorem Open_band_count:
  assumes "openinfo_wf poOpenInfo" and "Open sv poOpenInfo = Some poDS"
  shows "(CPL_LSBSINT32PTR (vsi_data (fpImage poDS)) 0 = 20
          \<and> CPL_LSBSINT32PTR (vsi_data (fpImage poDS)) 4 = 20 \<and> GetRasterCount poDS = 5)
       \<or> (CPL_LSBSINT32PTR (vsi_data (fpImage poDS)) 0 = 20
          \<and> CPL_LSBSINT32PTR (vsi_data (fpImage poDS)) 4 = 21 \<and> GetRasterCount poDS = 7)
       \<or> (CPL_LSBSINT32PTR (vsi_data (fpImage poDS)) 0 = 21
          \<and> CPL_LSBSINT32PTR (vsi_data (fpImage poDS)) 4 = 20 \<and> GetRasterCount poDS = 8)
       \<or> (CPL_LSBSINT32PTR (vsi_data (fpImage poDS)) 0 = 21
          \<and> CPL_LSBSINT32PTR (vsi_data (fpImage poDS)) 4 = 21 \<and> GetRasterCount poDS = 10)"
  using Open_SomeD(3,4,9) [OF assms] by (auto simp add: flag_band_count_def)

theorem Open_band_count_witness:
  "openinfo_wf (example_openinfo 45)
   \<and> (\<exists>poDS. Open example_services (example_openinfo 45) = Some poDS
             \<and> fpImage poDS = example_file 45 \<and> GetRasterCount poDS = 5)"
proof -
  from example_opens obtain poDS
    where op: "Open example_services (example_openinfo 45) = Some poDS" by blast
  have fp: "fpImage poDS = example_file 45"
    using Open_SomeD(1) [OF example_openinfo_wf op] by (simp add: example_openinfo_def)
  from Open_band_count [OF example_openinfo_wf op]
  have "GetRasterCount poDS = 5" by (simp add: fp example_file_fields)
  then show ?thesis using op fp example_openinfo_wf by blast
qed

text \<open>
  C5, as the code has it. \<^verbatim>\<open>Open\<close> returns no dataset exactly when one of these
  holds: the open-info has fewer than 50 header bytes or no open file; the extension
  is not "lcp" (in any case); update access is requested; fewer than 7316 bytes can
  be read; a flag field is neither 20 nor 21; the latitude field at offset 8 is
  outside [-90, 90]; the declared width or height is not positive; the width exceeds
  \<^verbatim>\<open>INT_MAX\<close> divided by the pixel size (two bytes per band); or
  \<^verbatim>\<open>RawRasterBand::Create\<close> returns no band for one of the bands.
\<close>

theorem Open_fails_exactly_when:
  assumes "openinfo_wf poOpenInfo"
  shows "(Open sv poOpenInfo = None) =
     (nHeaderBytes poOpenInfo < 50
      \<or> \<not> EQUAL (osExtension poOpenInfo) ''lcp''
      \<or> eAccess poOpenInfo = GA_Update
      \<or> (case fpL poOpenInfo of
            None \<Rightarrow> True
          | Some fp \<Rightarrow>
              vsi_size fp < LCP_HEADER_SIZE
              \<or> (CPL_LSBSINT32PTR (vsi_data fp) 0 \<noteq> 20 \<and> CPL_LSBSINT32PTR (vsi_data fp) 0 \<noteq> 21)
              \<or> (CPL_LSBSINT32PTR (vsi_data fp) 4 \<noteq> 20 \<and> CPL_LSBSINT32PTR (vsi_data fp) 4 \<noteq> 21)
              \<or> CPL_LSBSINT32PTR (vsi_data fp) 8 < - 90
              \<or> 90 < CPL_LSBSINT32PTR (vsi_data fp) 8
              \<or> CPL_LSBSINT32PTR (vsi_data fp) 4164 \<le> 0
              \<or> CPL_LSBSINT32PTR (vsi_data fp) 4168 \<le> 0
              \<or> INT_MAX div (flag_band_count (CPL_LSBSINT32PTR (vsi_data fp) 0)
                                (CPL_LSBSINT32PTR (vsi_data fp) 4) * 2)
                    < CPL_LSBSINT32PTR (vsi_data fp) 4164
              \<or> \<not> list_all
                    (\<lambda>iBand. RawRasterBand_Create sv (int iBand)
                       (int LCP_HEADER_SIZE + (int iBand - 1) * 2)
                       (flag_band_count (CPL_LSBSINT32PTR (vsi_data fp) 0)
                          (CPL_LSBSINT32PTR (vsi_data fp) 4) * 2)
                       (flag_band_count (CPL_LSBSINT32PTR (vsi_data fp) 0)
                          (CPL_LSBSINT32PTR (vsi_data fp) 4) * 2
                        * CPL_LSBSINT32PTR (vsi_data fp) 4164))
                    (band_numbers (flag_band_count (CPL_LSBSINT32PTR (vsi_data fp) 0)
                                (CPL_LSBSINT32PTR (vsi_data fp) 4)))))"
  by (rule Open_None_iff [OF assms])

theorem Open_fails_exactly_when_witness:
  "openinfo_wf (example_openinfo 45)
   \<and> Open example_services (example_openinfo 45) \<noteq> None
   \<and> Open example_services (example_openinfo 200) = None"
proof -
  have a: "Open example_services (example_openinfo 45) \<noteq> None"
    using Open_fails_exactly_when [OF example_openinfo_wf, of example_services 45]
    by (simp add: example_file_fields flag_band_count_def INT_MAX_def LCP_HEADER_SIZE_def
          example_openinfo_def [of 45] EQUAL_def example_services_def band_numbers_def list_all_iff)
       (simp add: example_file_def)
  have b: "Open example_services (example_openinfo 200) = None"
    using Open_fails_exactly_when [OF example_openinfo_wf, of example_services 200]
    by (simp add: example_file_fields example_openinfo_def [of 200])
  show ?thesis using a b example_openinfo_wf by blast
qed

text \<open>
  C5, as the claim states it, fails: a file of 7326 bytes with both flags 20, width
  and height 1 and the latitude field 91 shows none of the listed malformations, and
  \<^verbatim>\<open>Open\<close> returns no dataset for it.
\<close>

theorem Open_refuses_latitude_91:
  "Open example_services (example_openinfo 91) = None
   \<and> LCP_HEADER_SIZE \<le> vsi_size (example_file 91)
   \<and> CPL_LSBSINT32PTR (vsi_data (example_file 91)) 0 = 20
   \<and> CPL_LSBSINT32PTR (vsi_data (example_file 91)) 4 = 20
   \<and> 0 < CPL_LSBSINT32PTR (vsi_data (example_file 91)) 4164
   \<and> 0 < CPL_LSBSINT32PTR (vsi_data (example_file 91)) 4168
   \<and> CPL_LSBSINT32PTR (vsi_data (example_file 91)) 4164 \<le> INT_MAX div (5 * 2)"
proof -
  have "\<not> Identify (example_openinfo 91)"
    by (simp add: Identify_def example_openinfo_def example_file_fields)
  then have "Open example_services (example_openinfo 91) = None"
    by (simp add: Open_def)
  then show ?thesis
    by (simp add: example_file_fields INT_MAX_def) (simp add: example_file_def LCP_HEADER_SIZE_def)
qed

text \<open>
  C10. \<^verbatim>\<open>Open\<close> returns no dataset when the open-info holds fewer than 50 header
  bytes, and none when the 32-bit latitude field at byte offset 8 of the file is
  below -90 or above 90; so the \<^verbatim>\<open>LATITUDE\<close> metadata item of every dataset it
  returns is the decimal form of that field, a value in [-90, 90].
\<close>

theorem Open_latitude_in_range:
  assumes "openinfo_wf poOpenInfo"
  shows "(nHeaderBytes poOpenInfo < 50 \<longrightarrow> Open sv poOpenInfo = None)
       \<and> (\<forall>fp. fpL poOpenInfo = Some fp
                 \<and> (CPL_LSBSINT32PTR (vsi_data fp) 8 < - 90 \<or> 90 < CPL_LSBSINT32PTR (vsi_data fp) 8)
               \<longrightarrow> Open sv poOpenInfo = None)
       \<and> (\<forall>poDS. Open sv poOpenInfo = Some poDS \<longrightarrow>
             - 90 \<le> CPL_LSBSINT32PTR (vsi_data (fpImage poDS)) 8
             \<and> CPL_LSBSINT32PTR (vsi_data (fpImage poDS)) 8 \<le> 90
             \<and> GetMetadataItem (ds_metadata poDS) ''LATITUDE''
                 = Some (snprintf_d (CPL_LSBSINT32PTR (vsi_data (fpImage poDS)) 8)))"
proof (intro conjI allI impI)
  assume "nHeaderBytes poOpenInfo < 50"
  then show "Open sv poOpenInfo = None" by (simp add: Open_def Identify_def)
next
  fix fp
  assume "fpL poOpenInfo = Some fp
    \<and> (CPL_LSBSINT32PTR (vsi_data fp) 8 < - 90 \<or> 90 < CPL_LSBSINT32PTR (vsi_data fp) 8)"
  then show "Open sv poOpenInfo = None"
    using Open_None_iff [OF assms, of sv] by auto
next
  fix poDS assume op: "Open sv poOpenInfo = Some poDS"
  show "- 90 \<le> CPL_LSBSINT32PTR (vsi_data (fpImage poDS)) 8"
    by (rule Open_SomeD(5) [OF assms op])
  show "CPL_LSBSINT32PTR (vsi_data (fpImage poDS)) 8 \<le> 90"
    by (rule Open_SomeD(6) [OF assms op])
  show "GetMetadataItem (ds_metadata poDS) ''LATITUDE''
          = Some (snprintf_d (CPL_LSBSINT32PTR (vsi_data (fpImage poDS)) 8))"
    by (rule Open_SomeD(10) [OF assms op])
qed

theorem Open_latitude_in_range_witness:
  "openinfo_wf (example_openinfo 45)
   \<and> (\<exists>poDS. Open example_services (example_openinfo 45) = Some poDS
             \<and> GetMetadataItem (ds_metadata poDS) ''LATITUDE'' = Some ''45'')
   \<and> fpL (example_openinfo 91) = Some (example_file 91)
   \<and> 90 < CPL_LSBSINT32PTR (vsi_data (example_file 91)) 8
   \<and> Open example_services (example_openinfo 91) = None"
proof -
  from example_opens obtain poDS
    where op: "Open example_services (example_openinfo 45) = Some poDS" by blast
  have fp: "fpImage poDS = example_file 45"
    using Open_SomeD(1) [OF example_openinfo_wf op] by (simp add: example_openinfo_def)
  have d: "snprintf_d 45 = ''45''"
    by (simp add: snprintf_d_def digit_char_def)
  from Open_latitude_in_range [OF example_openinfo_wf, of 45 example_services] op
  have "GetMetadataItem (ds_metadata poDS) ''LATITUDE'' = Some ''45''"
    by (simp add: fp example_file_fields d)
  moreover have f: "fpL (example_openinfo 91) = Some (example_file 91)"
    by (simp add: example_openinfo_def)
  moreover have l: "90 < CPL_LSBSINT32PTR (vsi_data (example_file 91)) 8"
    by (simp add: example_file_fields)
  moreover have "Open example_services (example_openinfo 91) = None"
    using Open_latitude_in_range [OF example_openinfo_wf, of 91 example_services] f l by blast
  ultimately show ?thesis using op example_openinfo_wf by blast
qed

section \<open>CreateCopy\<close>

text \<open>
  C1. First, \<^verbatim>\<open>CreateCopy\<close> returns the dataset \<^verbatim>\<open>Open\<close> reads from the file it wrote
  at least when the source has 5, 7, 8 or 10 bands (of type \<^verbatim>\<open>Int16\<close>, in strict mode),
  every unit and option it looks at has a code, \<^verbatim>\<open>LATITUDE\<close> is given in -90 .. 90 and
  written in that range, \<^verbatim>\<open>LINEAR_UNIT\<close> is given in strict mode, no band has more
  classes than \<^verbatim>\<open>panClasses\<close> has room for, the file can be created under the extension
  \<^verbatim>\<open>lcp\<close>, no callback asks to stop, no band is refused, the raster size is one
  \<^verbatim>\<open>Open\<close> accepts and the source is not one of 7 bands with a file list in a debug
  build. Second, every dataset \<^verbatim>\<open>CreateCopy\<close> returns reproduces what was encoded: the
  source has 5, 7, 8 or 10 bands; the two flags \<^verbatim>\<open>Open\<close> reads are those of the band count
  and the dataset has as many bands as the source; the six doubles \<^verbatim>\<open>GetGeoTransform\<close>
  reads (east, west, north, south and the two cell sizes) are the ones computed from the
  geotransform of the source, and \<^verbatim>\<open>GetGeoTransform\<close> returns the origin and the cell
  sizes of the source; and each of the ten unit and option codes at offset 4224
  of the header is the code of the option value (given or default) when its band group
  is there, and 3, 3, 3 for the crown fuels and 1, 0 for the ground fuels when it is
  not, and the band \<^verbatim>\<open>switch\<close> of \<^verbatim>\<open>Open\<close> has put the decimal form of that code into
  the metadata of the band it belongs to.
\<close>

theorem CreateCopy_Open_round_trip:
  "(((length (src_bands poSrcDS) = 5 \<or> length (src_bands poSrcDS) = 7 \<or> length (src_bands poSrcDS) = 8 \<or> length (src_bands poSrcDS) = 10)
     \<and> (bStrict \<longrightarrow> eDataType (hd (src_bands poSrcDS)) = GDT_Int16)
     \<and> (ELEVATION_UNIT_code (CSLFetchNameValueDef papszOptions ''ELEVATION_UNIT'' ''METERS'') \<noteq> None)
     \<and> (SLOPE_UNIT_code (CSLFetchNameValueDef papszOptions ''SLOPE_UNIT'' ''DEGREES'') \<noteq> None)
     \<and> (ASPECT_UNIT_code (CSLFetchNameValueDef papszOptions ''ASPECT_UNIT'' ''AZIMUTH_DEGREES'') \<noteq> None)
     \<and> (FUEL_MODEL_OPTION_code (CSLFetchNameValueDef papszOptions ''FUEL_MODEL_OPTION'' ''NO_CUSTOM_AND_NO_FILE'') \<noteq> None)
     \<and> (CANOPY_COV_UNIT_code (CSLFetchNameValueDef papszOptions ''CANOPY_COV_UNIT'' ''PERCENT'') \<noteq> None)
     \<and> (length (src_bands poSrcDS) = 8 \<or> length (src_bands poSrcDS) = 10 \<longrightarrow>
            height_unit_code (CSLFetchNameValueDef papszOptions ''CANOPY_HT_UNIT'' ''METERS_X_10'') \<noteq> None
            \<and> height_unit_code (CSLFetchNameValueDef papszOptions ''CBH_UNIT'' ''METERS_X_10'') \<noteq> None
            \<and> CBD_UNIT_code (CSLFetchNameValueDef papszOptions ''CBD_UNIT'' ''KG_PER_CUBIC_METER_X_100'') \<noteq> None)
     \<and> (length (src_bands poSrcDS) = 7 \<or> length (src_bands poSrcDS) = 10 \<longrightarrow>
            DUFF_UNIT_code (CSLFetchNameValueDef papszOptions ''DUFF_UNIT'' ''MG_PER_HECTARE_X_10'') \<noteq> None)
     \<and> (\<exists>v. CSLFetchNameValue papszOptions ''LATITUDE'' = Some v \<and> - 90 \<le> atoi v \<and> atoi v \<le> 90
            \<and> - 90 \<le> sint (fp_to_GInt32 sv (fp_add sv (fp_of_int sv (atoi v)) double_half))
            \<and> sint (fp_to_GInt32 sv (fp_add sv (fp_of_int sv (atoi v)) double_half)) \<le> 90)
     \<and> (bStrict \<longrightarrow>
            \<not> EQUAL (CSLFetchNameValueDef papszOptions ''LINEAR_UNIT'' ''SET_FROM_SRS'') ''SET_FROM_SRS'')
     \<and> (CPLFetchBool papszOptions ''CLASSIFY_DATA'' True \<longrightarrow>
            (\<forall>k<length (src_bands poSrcDS). \<forall>vals.
               snd (snd (ClassifyBandData (pixels (src_bands poSrcDS ! k)))) = Some vals
               \<longrightarrow> k * LCP_MAX_CLASSES + length vals \<le> length (src_bands poSrcDS) * LCP_MAX_CLASSES))
     \<and> (VSIFOpenL_succeeds sv pszFilename)
     \<and> (\<forall>dfComplete. pfnProgress sv dfComplete)
     \<and> (\<forall>iBand nImg nPixel nLine. RawRasterBand_Create sv iBand nImg nPixel nLine)
     \<and> (\<not> (CPLAssert_active sv \<and> length (src_bands poSrcDS) = 7 \<and> papszFileList poSrcDS \<noteq> None))
     \<and> (EQUAL (CPLGetExtension pszFilename) ''lcp'')
     \<and> (0 < src_XSize poSrcDS)
     \<and> (src_XSize poSrcDS \<le> INT_MAX div (int (length (src_bands poSrcDS)) * 2))
     \<and> (0 < src_YSize poSrcDS)
     \<and> (src_YSize poSrcDS \<le> INT_MAX))
    \<longrightarrow> (\<exists>poDS. outcome (CreateCopy sv pszFilename poSrcDS bStrict papszOptions) = Returned (Some poDS)))
   \<and> (\<forall>poDS. outcome (CreateCopy sv pszFilename poSrcDS bStrict papszOptions) = Returned (Some poDS) \<longrightarrow>
        (length (src_bands poSrcDS) = 5 \<or> length (src_bands poSrcDS) = 7 \<or> length (src_bands poSrcDS) = 8 \<or> length (src_bands poSrcDS) = 10)
        \<and> (CPL_TO_BOOL (CPL_LSBSINT32PTR (pachHeader poDS) 0 - 20) = (length (src_bands poSrcDS) = 8 \<or> length (src_bands poSrcDS) = 10))
        \<and> (CPL_TO_BOOL (CPL_LSBSINT32PTR (pachHeader poDS) 4 - 20) = (length (src_bands poSrcDS) = 7 \<or> length (src_bands poSrcDS) = 10))
        \<and> (GetRasterCount poDS = int (length (src_bands poSrcDS)))
        \<and> (header_geo_fields poDS =
               \<lparr>dfEast = fp_add sv (gt0 (srcGT poSrcDS))
                           (fp_mul sv (gt1 (srcGT poSrcDS)) (fp_of_int sv (src_XSize poSrcDS))),
                dfWest = gt0 (srcGT poSrcDS),
                dfNorth = gt3 (srcGT poSrcDS),
                dfSouth = fp_add sv (gt3 (srcGT poSrcDS))
                            (fp_mul sv (gt5 (srcGT poSrcDS)) (fp_of_int sv (src_YSize poSrcDS))),
                dfCellX = gt1 (srcGT poSrcDS),
                dfCellY = fp_fabs sv (gt5 (srcGT poSrcDS))\<rparr>)
        \<and> (\<exists>c0 c1 c2 c3 c4.
                 ELEVATION_UNIT_code (CSLFetchNameValueDef papszOptions ''ELEVATION_UNIT'' ''METERS'') = Some c0
                 \<and> SLOPE_UNIT_code (CSLFetchNameValueDef papszOptions ''SLOPE_UNIT'' ''DEGREES'') = Some c1
                 \<and> ASPECT_UNIT_code (CSLFetchNameValueDef papszOptions ''ASPECT_UNIT'' ''AZIMUTH_DEGREES'') = Some c2
                 \<and> FUEL_MODEL_OPTION_code (CSLFetchNameValueDef papszOptions ''FUEL_MODEL_OPTION'' ''NO_CUSTOM_AND_NO_FILE'') = Some c3
                 \<and> CANOPY_COV_UNIT_code (CSLFetchNameValueDef papszOptions ''CANOPY_COV_UNIT'' ''PERCENT'') = Some c4
                 \<and> CPL_LSBUINT16PTR (pachHeader poDS) 4224 = uint c0
                 \<and> CPL_LSBUINT16PTR (pachHeader poDS) 4226 = uint c1
                 \<and> CPL_LSBUINT16PTR (pachHeader poDS) 4228 = uint c2
                 \<and> CPL_LSBUINT16PTR (pachHeader poDS) 4230 = uint c3
                 \<and> CPL_LSBUINT16PTR (pachHeader poDS) 4232 = uint c4
                 \<and> GetMetadataItem (band_metadata (papoBands poDS ! 0)) ''ELEVATION_UNIT''
                     = Some (snprintf_d (uint c0))
                 \<and> GetMetadataItem (band_metadata (papoBands poDS ! 1)) ''SLOPE_UNIT''
                     = Some (snprintf_d (uint c1))
                 \<and> GetMetadataItem (band_metadata (papoBands poDS ! 2)) ''ASPECT_UNIT''
                     = Some (snprintf_d (uint c2))
                 \<and> GetMetadataItem (band_metadata (papoBands poDS ! 3)) ''FUEL_MODEL_OPTION''
                     = Some (snprintf_d (uint c3))
                 \<and> GetMetadataItem (band_metadata (papoBands poDS ! 4)) ''CANOPY_COV_UNIT''
                     = Some (snprintf_d (uint c4)))
        \<and> (if length (src_bands poSrcDS) = 8 \<or> length (src_bands poSrcDS) = 10
              then (\<exists>c5 c6 c7.
                 height_unit_code (CSLFetchNameValueDef papszOptions ''CANOPY_HT_UNIT'' ''METERS_X_10'') = Some c5
                 \<and> height_unit_code (CSLFetchNameValueDef papszOptions ''CBH_UNIT'' ''METERS_X_10'') = Some c6
                 \<and> CBD_UNIT_code (CSLFetchNameValueDef papszOptions ''CBD_UNIT'' ''KG_PER_CUBIC_METER_X_100'') = Some c7
                 \<and> CPL_LSBUINT16PTR (pachHeader poDS) 4234 = uint c5
                 \<and> CPL_LSBUINT16PTR (pachHeader poDS) 4236 = uint c6
                 \<and> CPL_LSBUINT16PTR (pachHeader poDS) 4238 = uint c7
                 \<and> GetMetadataItem (band_metadata (papoBands poDS ! 5)) ''CANOPY_HT_UNIT''
                     = Some (snprintf_d (uint c5))
                 \<and> GetMetadataItem (band_metadata (papoBands poDS ! 6)) ''CBH_UNIT''
                     = Some (snprintf_d (uint c6))
                 \<and> GetMetadataItem (band_metadata (papoBands poDS ! 7)) ''CBD_UNIT''
                     = Some (snprintf_d (uint c7)))
              else CPL_LSBUINT16PTR (pachHeader poDS) 4234 = 3 \<and> CPL_LSBUINT16PTR (pachHeader poDS) 4236 = 3 \<and> CPL_LSBUINT16PTR (pachHeader poDS) 4238 = 3)
        \<and> (if length (src_bands poSrcDS) = 7 \<or> length (src_bands poSrcDS) = 10
              then (\<exists>c8.
                 DUFF_UNIT_code (CSLFetchNameValueDef papszOptions ''DUFF_UNIT'' ''MG_PER_HECTARE_X_10'') = Some c8
                 \<and> CPL_LSBUINT16PTR (pachHeader poDS) 4240 = uint c8 \<and> CPL_LSBUINT16PTR (pachHeader poDS) 4242 = 1
                 \<and> GetMetadataItem (band_metadata (papoBands poDS ! (length (src_bands poSrcDS) - 2))) ''DUFF_UNIT''
                     = Some (snprintf_d (uint c8))
                 \<and> GetMetadataItem (band_metadata (papoBands poDS ! (length (src_bands poSrcDS) - 1))) ''CWD_OPTION''
                     = Some (snprintf_d 1))
              else CPL_LSBUINT16PTR (pachHeader poDS) 4240 = 1 \<and> CPL_LSBUINT16PTR (pachHeader poDS) 4242 = 0)
        \<and> (GetGeoTransform sv poDS =
               \<lparr>gt0 = gt0 (srcGT poSrcDS), gt1 = gt1 (srcGT poSrcDS), gt2 = 0,
                gt3 = gt3 (srcGT poSrcDS), gt4 = 0,
                gt5 = fp_mul sv (fp_of_int sv (- 1)) (fp_fabs sv (gt5 (srcGT poSrcDS)))\<rparr>))"
  apply (rule conjI)
   apply (rule impI)
   apply (elim conjE)
   apply (rule CreateCopy_returns_dataset_when; assumption)
  apply (rule allI, rule impI)
  apply (intro conjI)
          apply (erule CreateCopy_round_trip)+
  done

theorem CreateCopy_Open_round_trip_witness:
  "\<exists>poDS. outcome (CreateCopy example_services ''out.lcp'' (example_dataset 10 None None) False example_unit_options) = Returned (Some poDS)
          \<and> GetRasterCount poDS = 10
          \<and> CPL_LSBSINT32PTR (pachHeader poDS) 0 \<noteq> 20
          \<and> dfCellX (header_geo_fields poDS) = 1
          \<and> gt1 (GetGeoTransform example_services poDS) = 1
          \<and> CPL_LSBUINT16PTR (pachHeader poDS) 4224 = 1
          \<and> CPL_LSBUINT16PTR (pachHeader poDS) 4240 = 2
          \<and> GetMetadataItem (band_metadata (papoBands poDS ! 0)) ''ELEVATION_UNIT'' = Some ''1''
          \<and> GetMetadataItem (band_metadata (papoBands poDS ! 8)) ''DUFF_UNIT'' = Some ''2''
          \<and> GetMetadataItem (band_metadata (papoBands poDS ! 9)) ''CWD_OPTION'' = Some ''1''"
proof -
  have n: "length (src_bands (example_dataset 10 None None)) = 5 \<or> length (src_bands (example_dataset 10 None None)) = 7 \<or> length (src_bands (example_dataset 10 None None)) = 8 \<or> length (src_bands (example_dataset 10 None None)) = 10"
    by (simp add: example_dataset_def)
  have t: "False \<longrightarrow> eDataType (hd (src_bands (example_dataset 10 None None))) = GDT_Int16"
    by simp
  have e0: "ELEVATION_UNIT_code (CSLFetchNameValueDef example_unit_options ''ELEVATION_UNIT'' ''METERS'') \<noteq> None"
    by code_simp
  have e1: "SLOPE_UNIT_code (CSLFetchNameValueDef example_unit_options ''SLOPE_UNIT'' ''DEGREES'') \<noteq> None"
    by code_simp
  have e2: "ASPECT_UNIT_code (CSLFetchNameValueDef example_unit_options ''ASPECT_UNIT'' ''AZIMUTH_DEGREES'') \<noteq> None"
    by code_simp
  have e3: "FUEL_MODEL_OPTION_code (CSLFetchNameValueDef example_unit_options ''FUEL_MODEL_OPTION'' ''NO_CUSTOM_AND_NO_FILE'') \<noteq> None"
    by code_simp
  have e4: "CANOPY_COV_UNIT_code (CSLFetchNameValueDef example_unit_options ''CANOPY_COV_UNIT'' ''PERCENT'') \<noteq> None"
    by code_simp
  have "height_unit_code (CSLFetchNameValueDef example_unit_options ''CANOPY_HT_UNIT'' ''METERS_X_10'') \<noteq> None
       \<and> height_unit_code (CSLFetchNameValueDef example_unit_options ''CBH_UNIT'' ''METERS_X_10'') \<noteq> None
       \<and> CBD_UNIT_code (CSLFetchNameValueDef example_unit_options ''CBD_UNIT'' ''KG_PER_CUBIC_METER_X_100'') \<noteq> None"
    by code_simp
  then have ec: "length (src_bands (example_dataset 10 None None)) = 8 \<or> length (src_bands (example_dataset 10 None None)) = 10 \<longrightarrow>
           height_unit_code (CSLFetchNameValueDef example_unit_options ''CANOPY_HT_UNIT'' ''METERS_X_10'') \<noteq> None
           \<and> height_unit_code (CSLFetchNameValueDef example_unit_options ''CBH_UNIT'' ''METERS_X_10'') \<noteq> None
           \<and> CBD_UNIT_code (CSLFetchNameValueDef example_unit_options ''CBD_UNIT'' ''KG_PER_CUBIC_METER_X_100'') \<noteq> None"
    by (rule_tac impI)
  have "DUFF_UNIT_code (CSLFetchNameValueDef example_unit_options ''DUFF_UNIT'' ''MG_PER_HECTARE_X_10'') \<noteq> None"
    by code_simp
  then have eg: "length (src_bands (example_dataset 10 None None)) = 7 \<or> length (src_bands (example_dataset 10 None None)) = 10 \<longrightarrow>
           DUFF_UNIT_code (CSLFetchNameValueDef example_unit_options ''DUFF_UNIT'' ''MG_PER_HECTARE_X_10'') \<noteq> None"
    by (rule_tac impI)
  have l1: "CSLFetchNameValue example_unit_options ''LATITUDE'' = Some ''45''"
    by code_simp
  have l2: "atoi ''45'' = 45"
    by code_simp
  have lat: "\<exists>v. CSLFetchNameValue example_unit_options ''LATITUDE'' = Some v \<and> - 90 \<le> atoi v \<and> atoi v \<le> 90
           \<and> - 90 \<le> sint (fp_to_GInt32 example_services (fp_add example_services (fp_of_int example_services (atoi v)) double_half))
           \<and> sint (fp_to_GInt32 example_services (fp_add example_services (fp_of_int example_services (atoi v)) double_half)) \<le> 90"
    by (rule exI [of _ "''45''"]) (simp add: l1 l2 example_services_def double_half_def)
  have lin: "False \<longrightarrow>
           \<not> EQUAL (CSLFetchNameValueDef example_unit_options ''LINEAR_UNIT'' ''SET_FROM_SRS'') ''SET_FROM_SRS''"
    by simp
  have "\<not> CPLFetchBool example_unit_options ''CLASSIFY_DATA'' True"
    by code_simp
  then have cls: "CPLFetchBool example_unit_options ''CLASSIFY_DATA'' True \<longrightarrow>
           (\<forall>k<length (src_bands (example_dataset 10 None None)). \<forall>vals.
              snd (snd (ClassifyBandData (pixels (src_bands (example_dataset 10 None None) ! k)))) = Some vals
              \<longrightarrow> k * LCP_MAX_CLASSES + length vals \<le> length (src_bands (example_dataset 10 None None)) * LCP_MAX_CLASSES)"
    by simp
  have o: "VSIFOpenL_succeeds example_services ''out.lcp''"
    by (simp add: example_services_def)
  have pr: "\<forall>dfComplete. pfnProgress example_services dfComplete"
    by (simp add: example_services_def)
  have rb: "\<forall>iBand nImg nPixel nLine. RawRasterBand_Create example_services iBand nImg nPixel nLine"
    by (simp add: example_services_def)
  have as: "\<not> (CPLAssert_active example_services \<and> length (src_bands (example_dataset 10 None None)) = 7 \<and> papszFileList (example_dataset 10 None None) \<noteq> None)"
    by (simp add: example_dataset_def)
  have ext: "EQUAL (CPLGetExtension ''out.lcp'') ''lcp''"
    by (rule example_extension)
  have x1: "0 < src_XSize (example_dataset 10 None None)"
    by (simp add: example_dataset_def)
  have x2: "src_XSize (example_dataset 10 None None) \<le> INT_MAX div (int (length (src_bands (example_dataset 10 None None))) * 2)"
    by (simp add: example_dataset_def INT_MAX_def)
  have y1: "0 < src_YSize (example_dataset 10 None None)"
    by (simp add: example_dataset_def)
  have y2: "src_YSize (example_dataset 10 None None) \<le> INT_MAX"
    by (simp add: example_dataset_def INT_MAX_def)
  have H: "(length (src_bands (example_dataset 10 None None)) = 5 \<or> length (src_bands (example_dataset 10 None None)) = 7 \<or> length (src_bands (example_dataset 10 None None)) = 8 \<or> length (src_bands (example_dataset 10 None None)) = 10)
       \<and> (False \<longrightarrow> eDataType (hd (src_bands (example_dataset 10 None None))) = GDT_Int16)
       \<and> (ELEVATION_UNIT_code (CSLFetchNameValueDef example_unit_options ''ELEVATION_UNIT'' ''METERS'') \<noteq> None)
       \<and> (SLOPE_UNIT_code (CSLFetchNameValueDef example_unit_options ''SLOPE_UNIT'' ''DEGREES'') \<noteq> None)
       \<and> (ASPECT_UNIT_code (CSLFetchNameValueDef example_unit_options ''ASPECT_UNIT'' ''AZIMUTH_DEGREES'') \<noteq> None)
       \<and> (FUEL_MODEL_OPTION_code (CSLFetchNameValueDef example_unit_options ''FUEL_MODEL_OPTION'' ''NO_CUSTOM_AND_NO_FILE'') \<noteq> None)
       \<and> (CANOPY_COV_UNIT_code (CSLFetchNameValueDef example_unit_options ''CANOPY_COV_UNIT'' ''PERCENT'') \<noteq> None)
       \<and> (length (src_bands (example_dataset 10 None None)) = 8 \<or> length (src_bands (example_dataset 10 None None)) = 10 \<longrightarrow>
              height_unit_code (CSLFetchNameValueDef example_unit_options ''CANOPY_HT_UNIT'' ''METERS_X_10'') \<noteq> None
              \<and> height_unit_code (CSLFetchNameValueDef example_unit_options ''CBH_UNIT'' ''METERS_X_10'') \<noteq> None
              \<and> CBD_UNIT_code (CSLFetchNameValueDef example_unit_options ''CBD_UNIT'' ''KG_PER_CUBIC_METER_X_100'') \<noteq> None)
       \<and> (length (src_bands (example_dataset 10 None None)) = 7 \<or> length (src_bands (example_dataset 10 None None)) = 10 \<longrightarrow>
              DUFF_UNIT_code (CSLFetchNameValueDef example_unit_options ''DUFF_UNIT'' ''MG_PER_HECTARE_X_10'') \<noteq> None)
       \<and> (\<exists>v. CSLFetchNameValue example_unit_options ''LATITUDE'' = Some v \<and> - 90 \<le> atoi v \<and> atoi v \<le> 90
              \<and> - 90 \<le> sint (fp_to_GInt32 example_services (fp_add example_services (fp_of_int example_services (atoi v)) double_half))
              \<and> sint (fp_to_GInt32 example_services (fp_add example_services (fp_of_int example_services (atoi v)) double_half)) \<le> 90)
       \<and> (False \<longrightarrow>
              \<not> EQUAL (CSLFetchNameValueDef example_unit_options ''LINEAR_UNIT'' ''SET_FROM_SRS'') ''SET_FROM_SRS'')
       \<and> (CPLFetchBool example_unit_options ''CLASSIFY_DATA'' True \<longrightarrow>
              (\<forall>k<length (src_bands (example_dataset 10 None None)). \<forall>vals.
                 snd (snd (ClassifyBandData (pixels (src_bands (example_dataset 10 None None) ! k)))) = Some vals
                 \<longrightarrow> k * LCP_MAX_CLASSES + length vals \<le> length (src_bands (example_dataset 10 None None)) * LCP_MAX_CLASSES))
       \<and> (VSIFOpenL_succeeds example_services ''out.lcp'')
       \<and> (\<forall>dfComplete. pfnProgress example_services dfComplete)
       \<and> (\<forall>iBand nImg nPixel nLine. RawRasterBand_Create example_services iBand nImg nPixel nLine)
       \<and> (\<not> (CPLAssert_active example_services \<and> length (src_bands (example_dataset 10 None None)) = 7 \<and> papszFileList (example_dataset 10 None None) \<noteq> None))
       \<and> (EQUAL (CPLGetExtension ''out.lcp'') ''lcp'')
       \<and> (0 < src_XSize (example_dataset 10 None None))
       \<and> (src_XSize (example_dataset 10 None None) \<le> INT_MAX div (int (length (src_bands (example_dataset 10 None None))) * 2))
       \<and> (0 < src_YSize (example_dataset 10 None None))
       \<and> (src_YSize (example_dataset 10 None None) \<le> INT_MAX)"
    by (intro conjI)
       (rule n, rule t, rule e0, rule e1, rule e2, rule e3, rule e4, rule ec, rule eg, rule lat,
        rule lin, rule cls, rule o, rule pr, rule rb, rule as, rule ext, rule x1, rule x2,
        rule y1, rule y2)
  note rt = CreateCopy_Open_round_trip [where sv = example_services and pszFilename = "''out.lcp''"
      and poSrcDS = "example_dataset 10 None None" and bStrict = False
      and papszOptions = example_unit_options]
  from rt [THEN conjunct1, THEN mp, OF H] obtain poDS where
    r: "outcome (CreateCopy example_services ''out.lcp'' (example_dataset 10 None None) False example_unit_options) = Returned (Some poDS)"
    by blast
  note f = rt [THEN conjunct2, THEN spec, THEN mp, OF r]
  have n10: "length (src_bands (example_dataset 10 None None)) = 10"
    by (simp add: example_dataset_def)
  from f have "GetRasterCount poDS = int (length (src_bands (example_dataset 10 None None)))"
    by (elim conjE)
  then have 1: "GetRasterCount poDS = 10"
    by (simp add: n10)
  from f have "CPL_TO_BOOL (CPL_LSBSINT32PTR (pachHeader poDS) 0 - 20) = (length (src_bands (example_dataset 10 None None)) = 8 \<or> length (src_bands (example_dataset 10 None None)) = 10)"
    by (elim conjE)
  then have 2: "CPL_LSBSINT32PTR (pachHeader poDS) 0 \<noteq> 20"
    by (simp add: n10 CPL_TO_BOOL_def)
  from f have "header_geo_fields poDS =
         \<lparr>dfEast = fp_add example_services (gt0 (srcGT (example_dataset 10 None None)))
                     (fp_mul example_services (gt1 (srcGT (example_dataset 10 None None))) (fp_of_int example_services (src_XSize (example_dataset 10 None None)))),
          dfWest = gt0 (srcGT (example_dataset 10 None None)),
          dfNorth = gt3 (srcGT (example_dataset 10 None None)),
          dfSouth = fp_add example_services (gt3 (srcGT (example_dataset 10 None None)))
                      (fp_mul example_services (gt5 (srcGT (example_dataset 10 None None))) (fp_of_int example_services (src_YSize (example_dataset 10 None None)))),
          dfCellX = gt1 (srcGT (example_dataset 10 None None)),
          dfCellY = fp_fabs example_services (gt5 (srcGT (example_dataset 10 None None)))\<rparr>"
    by (elim conjE)
  then have 3: "dfCellX (header_geo_fields poDS) = 1"
    by (simp add: example_dataset_def)
  from f have "GetGeoTransform example_services poDS =
         \<lparr>gt0 = gt0 (srcGT (example_dataset 10 None None)), gt1 = gt1 (srcGT (example_dataset 10 None None)), gt2 = 0,
          gt3 = gt3 (srcGT (example_dataset 10 None None)), gt4 = 0,
          gt5 = fp_mul example_services (fp_of_int example_services (- 1)) (fp_fabs example_services (gt5 (srcGT (example_dataset 10 None None))))\<rparr>"
    by (elim conjE)
  then have 9: "gt1 (GetGeoTransform example_services poDS) = 1"
    by (simp add: example_dataset_def)
  have e: "ELEVATION_UNIT_code (CSLFetchNameValueDef example_unit_options ''ELEVATION_UNIT'' ''METERS'') = Some 1"
    "DUFF_UNIT_code (CSLFetchNameValueDef example_unit_options ''DUFF_UNIT'' ''MG_PER_HECTARE_X_10'') = Some 2"
    by code_simp+
  have d: "snprintf_d 1 = ''1''" "snprintf_d 2 = ''2''"
    by (simp_all add: snprintf_d_def digit_char_def)
  from f have "\<exists>c0 c1 c2 c3 c4.
           ELEVATION_UNIT_code (CSLFetchNameValueDef example_unit_options ''ELEVATION_UNIT'' ''METERS'') = Some c0
           \<and> SLOPE_UNIT_code (CSLFetchNameValueDef example_unit_options ''SLOPE_UNIT'' ''DEGREES'') = Some c1
           \<and> ASPECT_UNIT_code (CSLFetchNameValueDef example_unit_options ''ASPECT_UNIT'' ''AZIMUTH_DEGREES'') = Some c2
           \<and> FUEL_MODEL_OPTION_code (CSLFetchNameValueDef example_unit_options ''FUEL_MODEL_OPTION'' ''NO_CUSTOM_AND_NO_FILE'') = Some c3
           \<and> CANOPY_COV_UNIT_code (CSLFetchNameValueDef example_unit_options ''CANOPY_COV_UNIT'' ''PERCENT'') = Some c4
           \<and> CPL_LSBUINT16PTR (pachHeader poDS) 4224 = uint c0
           \<and> CPL_LSBUINT16PTR (pachHeader poDS) 4226 = uint c1
           \<and> CPL_LSBUINT16PTR (pachHeader poDS) 4228 = uint c2
           \<and> CPL_LSBUINT16PTR (pachHeader poDS) 4230 = uint c3
           \<and> CPL_LSBUINT16PTR (pachHeader poDS) 4232 = uint c4
           \<and> GetMetadataItem (band_metadata (papoBands poDS ! 0)) ''ELEVATION_UNIT''
               = Some (snprintf_d (uint c0))
           \<and> GetMetadataItem (band_metadata (papoBands poDS ! 1)) ''SLOPE_UNIT''
               = Some (snprintf_d (uint c1))
           \<and> GetMetadataItem (band_metadata (papoBands poDS ! 2)) ''ASPECT_UNIT''
               = Some (snprintf_d (uint c2))
           \<and> GetMetadataItem (band_metadata (papoBands poDS ! 3)) ''FUEL_MODEL_OPTION''
               = Some (snprintf_d (uint c3))
           \<and> GetMetadataItem (band_metadata (papoBands poDS ! 4)) ''CANOPY_COV_UNIT''
               = Some (snprintf_d (uint c4))"
    by (elim conjE)
  then obtain c0 where
    "ELEVATION_UNIT_code (CSLFetchNameValueDef example_unit_options ''ELEVATION_UNIT'' ''METERS'') = Some c0"
    and h0: "CPL_LSBUINT16PTR (pachHeader poDS) 4224 = uint c0"
    and i0: "GetMetadataItem (band_metadata (papoBands poDS ! 0)) ''ELEVATION_UNIT''
               = Some (snprintf_d (uint c0))"
    by blast
  then have c0: "c0 = 1"
    by (simp only: e option.inject)
  from f have "if length (src_bands (example_dataset 10 None None)) = 7 \<or> length (src_bands (example_dataset 10 None None)) = 10
        then (\<exists>c8.
           DUFF_UNIT_code (CSLFetchNameValueDef example_unit_options ''DUFF_UNIT'' ''MG_PER_HECTARE_X_10'') = Some c8
           \<and> CPL_LSBUINT16PTR (pachHeader poDS) 4240 = uint c8 \<and> CPL_LSBUINT16PTR (pachHeader poDS) 4242 = 1
           \<and> GetMetadataItem (band_metadata (papoBands poDS ! (length (src_bands (example_dataset 10 None None)) - 2))) ''DUFF_UNIT''
               = Some (snprintf_d (uint c8))
           \<and> GetMetadataItem (band_metadata (papoBands poDS ! (length (src_bands (example_dataset 10 None None)) - 1))) ''CWD_OPTION''
               = Some (snprintf_d 1))
        else CPL_LSBUINT16PTR (pachHeader poDS) 4240 = 1 \<and> CPL_LSBUINT16PTR (pachHeader poDS) 4242 = 0"
    by (elim conjE)
  then have "\<exists>c8.
         DUFF_UNIT_code (CSLFetchNameValueDef example_unit_options ''DUFF_UNIT'' ''MG_PER_HECTARE_X_10'') = Some c8
         \<and> CPL_LSBUINT16PTR (pachHeader poDS) 4240 = uint c8
         \<and> CPL_LSBUINT16PTR (pachHeader poDS) 4242 = 1
         \<and> GetMetadataItem (band_metadata (papoBands poDS ! (length (src_bands (example_dataset 10 None None)) - 2))) ''DUFF_UNIT''
             = Some (snprintf_d (uint c8))
         \<and> GetMetadataItem (band_metadata (papoBands poDS ! (length (src_bands (example_dataset 10 None None)) - 1))) ''CWD_OPTION''
             = Some (snprintf_d 1)"
    by (simp add: n10)
  then obtain c8 where
    "DUFF_UNIT_code (CSLFetchNameValueDef example_unit_options ''DUFF_UNIT'' ''MG_PER_HECTARE_X_10'') = Some c8"
    and h8: "CPL_LSBUINT16PTR (pachHeader poDS) 4240 = uint c8"
    and i8: "GetMetadataItem (band_metadata (papoBands poDS ! (length (src_bands (example_dataset 10 None None)) - 2))) ''DUFF_UNIT''
               = Some (snprintf_d (uint c8))"
    and i9: "GetMetadataItem (band_metadata (papoBands poDS ! (length (src_bands (example_dataset 10 None None)) - 1))) ''CWD_OPTION''
               = Some (snprintf_d 1)"
    by blast
  then have c8: "c8 = 2"
    by (simp only: e option.inject)
  have 4: "CPL_LSBUINT16PTR (pachHeader poDS) 4224 = 1"
    using h0 by (simp add: c0)
  have 5: "CPL_LSBUINT16PTR (pachHeader poDS) 4240 = 2"
    using h8 by (simp add: c8)
  have 6: "GetMetadataItem (band_metadata (papoBands poDS ! 0)) ''ELEVATION_UNIT'' = Some ''1''"
    using i0 by (simp add: c0 d)
  have 7: "GetMetadataItem (band_metadata (papoBands poDS ! 8)) ''DUFF_UNIT'' = Some ''2''"
    using i8 by (simp add: c8 d n10)
  have 8: "GetMetadataItem (band_metadata (papoBands poDS ! 9)) ''CWD_OPTION'' = Some ''1''"
    using i9 by (simp add: d n10)
  from r 1 2 3 9 4 5 6 7 8 show ?thesis by blast
qed

text \<open>
  C6 does not hold for every unit option: a source of 5 bands has no crown fuels, so
  \<^verbatim>\<open>CANOPY_HT_UNIT\<close> is never looked at, and \<^verbatim>\<open>CreateCopy\<close> returns a dataset although
  the value given for it has no code.
\<close>

theorem CreateCopy_ignores_unused_unit_option:
  "height_unit_code
     (CSLFetchNameValueDef ((''CANOPY_HT_UNIT'', ''BOGUS'') # example_options)
        ''CANOPY_HT_UNIT'' ''METERS_X_10'') = None
   \<and> (\<exists>poDS. outcome (CreateCopy example_services ''out.lcp'' (example_dataset 5 None None) False
                        ((''CANOPY_HT_UNIT'', ''BOGUS'') # example_options))
               = Returned (Some poDS))"
proof -
  have "height_unit_code
     (CSLFetchNameValueDef ((''CANOPY_HT_UNIT'', ''BOGUS'') # example_options)
        ''CANOPY_HT_UNIT'' ''METERS_X_10'') = None"
    by code_simp
  moreover from example_prepare_unused_option obtain plan where
    p: "snd (CreateCopy_prepare example_services (example_dataset 5 None None) False
               ((''CANOPY_HT_UNIT'', ''BOGUS'') # example_options)) = Inr plan"
    and lat: "dfLatitude plan = 45"
    by blast
  from example_returns_dataset [OF p] lat
  have "\<exists>poDS. outcome (CreateCopy example_services ''out.lcp'' (example_dataset 5 None None)
                         False ((''CANOPY_HT_UNIT'', ''BOGUS'') # example_options))
                = Returned (Some poDS)"
    by auto
  ultimately show ?thesis by blast
qed

text \<open>
  C6, as the code has it. \<^verbatim>\<open>CreateCopy\<close> returns \<^verbatim>\<open>nullptr\<close> without opening the
  output file when the source has a band count other than 5, 7, 8 and 10, or when the
  value (given or default) of one of the options it looks at has no code:
  \<^verbatim>\<open>ELEVATION_UNIT\<close>, \<^verbatim>\<open>SLOPE_UNIT\<close>, \<^verbatim>\<open>ASPECT_UNIT\<close>, \<^verbatim>\<open>FUEL_MODEL_OPTION\<close> and
  \<^verbatim>\<open>CANOPY_COV_UNIT\<close> always, \<^verbatim>\<open>CANOPY_HT_UNIT\<close>, \<^verbatim>\<open>CBH_UNIT\<close> and \<^verbatim>\<open>CBD_UNIT\<close> for
  8 or 10 bands, and \<^verbatim>\<open>DUFF_UNIT\<close> for 7 or 10 bands.
\<close>

theorem CreateCopy_validation_failure:
  assumes "(length (src_bands poSrcDS) \<noteq> 5 \<and> length (src_bands poSrcDS) \<noteq> 7
            \<and> length (src_bands poSrcDS) \<noteq> 8 \<and> length (src_bands poSrcDS) \<noteq> 10)
     \<or> ELEVATION_UNIT_code (CSLFetchNameValueDef papszOptions ''ELEVATION_UNIT'' ''METERS'') = None
     \<or> SLOPE_UNIT_code (CSLFetchNameValueDef papszOptions ''SLOPE_UNIT'' ''DEGREES'') = None
     \<or> ASPECT_UNIT_code (CSLFetchNameValueDef papszOptions ''ASPECT_UNIT'' ''AZIMUTH_DEGREES'')
         = None
     \<or> FUEL_MODEL_OPTION_code
          (CSLFetchNameValueDef papszOptions ''FUEL_MODEL_OPTION'' ''NO_CUSTOM_AND_NO_FILE'')
         = None
     \<or> CANOPY_COV_UNIT_code (CSLFetchNameValueDef papszOptions ''CANOPY_COV_UNIT'' ''PERCENT'')
         = None
     \<or> ((length (src_bands poSrcDS) = 8 \<or> length (src_bands poSrcDS) = 10)
         \<and> (height_unit_code
               (CSLFetchNameValueDef papszOptions ''CANOPY_HT_UNIT'' ''METERS_X_10'') = None
            \<or> height_unit_code
                 (CSLFetchNameValueDef papszOptions ''CBH_UNIT'' ''METERS_X_10'') = None
            \<or> CBD_UNIT_code
                 (CSLFetchNameValueDef papszOptions ''CBD_UNIT'' ''KG_PER_CUBIC_METER_X_100'')
                = None))
     \<or> ((length (src_bands poSrcDS) = 7 \<or> length (src_bands poSrcDS) = 10)
         \<and> DUFF_UNIT_code
              (CSLFetchNameValueDef papszOptions ''DUFF_UNIT'' ''MG_PER_HECTARE_X_10'') = None)"
  shows "outcome (CreateCopy sv pszFilename poSrcDS bStrict papszOptions) = Returned None
       \<and> out_file (CreateCopy sv pszFilename poSrcDS bStrict papszOptions) = None"
proof -
  let ?n = "int (length (src_bands poSrcDS))"
  have "snd (check_bands ?n) \<noteq> Inr ()
        \<or> (\<forall>pm. snd (unit_options (?n = 8 \<or> ?n = 10) (?n = 7 \<or> ?n = 10) papszOptions)
                   \<noteq> Inr pm)"
  proof (cases "snd (check_bands ?n) = Inr ()")
    case False
    then show ?thesis by simp
  next
    case True
    then have v: "?n = 5 \<or> ?n = 7 \<or> ?n = 8 \<or> ?n = 10"
      by (simp add: check_bands_def split: if_splits)
    have "snd (unit_options (?n = 8 \<or> ?n = 10) (?n = 7 \<or> ?n = 10) papszOptions) \<noteq> Inr pm"
      for pm
    proof
      assume u: "snd (unit_options (?n = 8 \<or> ?n = 10) (?n = 7 \<or> ?n = 10) papszOptions) = Inr pm"
      note codes = unit_options_Inr_codes [OF u]
      from assms v codes show False by auto
    qed
    then show ?thesis by simp
  qed
  then have "snd (CreateCopy_prepare sv poSrcDS bStrict papszOptions) = Inl (Returned None)"
    by (rule CreateCopy_prepare_invalid)
  then show ?thesis by (rule CreateCopy_prepare_Inl_no_file)
qed

theorem CreateCopy_validation_failure_witness:
  "ELEVATION_UNIT_code
     (CSLFetchNameValueDef ((''ELEVATION_UNIT'', ''BOGUS'') # example_options)
        ''ELEVATION_UNIT'' ''METERS'') = None
   \<and> outcome (CreateCopy example_services ''out.lcp'' (example_dataset 5 None None) False
                ((''ELEVATION_UNIT'', ''BOGUS'') # example_options)) = Returned None
   \<and> out_file (CreateCopy example_services ''out.lcp'' (example_dataset 5 None None) False
                 ((''ELEVATION_UNIT'', ''BOGUS'') # example_options)) = None
   \<and> length (src_bands (example_dataset 6 None None)) = 6
   \<and> outcome (CreateCopy example_services ''out.lcp'' (example_dataset 6 None None) False
                example_options) = Returned None
   \<and> out_file (CreateCopy example_services ''out.lcp'' (example_dataset 6 None None) False
                 example_options) = None"
proof -
  have e: "ELEVATION_UNIT_code
     (CSLFetchNameValueDef ((''ELEVATION_UNIT'', ''BOGUS'') # example_options)
        ''ELEVATION_UNIT'' ''METERS'') = None"
    by code_simp
  have n: "length (src_bands (example_dataset 6 None None)) = 6"
    by (simp add: example_dataset_def)
  show ?thesis
    using CreateCopy_validation_failure [of "example_dataset 5 None None"
        "(''ELEVATION_UNIT'', ''BOGUS'') # example_options" example_services "''out.lcp''" False]
      CreateCopy_validation_failure [of "example_dataset 6 None None" example_options
        example_services "''out.lcp''" False]
      e n
    by simp
qed

text \<open>
  C7 fails in the code. With no \<^verbatim>\<open>LATITUDE\<close> option and a spatial reference for which
  \<^verbatim>\<open>OGRCreateCoordinateTransformation\<close> returns \<^verbatim>\<open>nullptr\<close>, the latitude cannot be
  derived, yet \<^verbatim>\<open>CreateCopy\<close> in strict mode reports nothing and returns a dataset
  whose latitude is 0. And in strict mode a unit name of the spatial reference that
  is none of the known ones sets the linear unit to 0 without a failure.
\<close>

theorem CreateCopy_without_transformation:
  "CSLFetchNameValue example_no_stats ''LATITUDE'' = None
   \<and> OGRCreateCoordinateTransformation example_services example_srs = None
   \<and> fst (CreateCopy_prepare example_services (example_dataset 5 (Some example_srs) None) True
             example_no_stats) = []
   \<and> (\<exists>poDS. outcome (CreateCopy example_services ''out.lcp''
                        (example_dataset 5 (Some example_srs) None) True example_no_stats)
               = Returned (Some poDS)
             \<and> GetMetadataItem (ds_metadata poDS) ''LATITUDE'' = Some ''0'')
   \<and> linear_unit_step example_services
        (example_dataset 5 (Some \<lparr>UNIT_0 = Some ''furlong'', UNIT_1 = None\<rparr>) None) True
        (linear_unit_option []) = proceed 0"
proof -
  let ?ds = "example_dataset 5 (Some example_srs) None"
  let ?r = "CreateCopy example_services ''out.lcp'' ?ds True example_no_stats"
  have 1: "CSLFetchNameValue example_no_stats ''LATITUDE'' = None"
    by code_simp
  have 2: "OGRCreateCoordinateTransformation example_services example_srs = None"
    by (simp add: example_services_def)
  have 3: "fst (CreateCopy_prepare example_services ?ds True example_no_stats) = []"
    by code_simp
  from example_prepare_no_latitude obtain plan where
    p: "snd (CreateCopy_prepare example_services ?ds True example_no_stats) = Inr plan"
    and lat: "dfLatitude plan = 0"
    by blast
  from example_returns_dataset [OF p] lat obtain poDS where
    r: "outcome ?r = Returned (Some poDS)"
    by auto
  from CreateCopy_SomeD [OF r] p obtain fp where
    op: "Open example_services (GDALOpenInfo_of ''out.lcp'' fp) = Some poDS"
    and a: "stored (vsi_data fp) 0 (preamble_bytes example_services ?ds plan)"
    by auto
  note wf = GDALOpenInfo_of_wf [of "''out.lcp''" fp]
  from Open_SomeD(1) [OF wf op] have "fpImage poDS = fp\<lparr>vsi_offset := 0\<rparr>"
    by (simp add: GDALOpenInfo_of_def)
  then have im: "vsi_data (fpImage poDS) = vsi_data fp"
    by simp
  have d: "snprintf_d 0 = ''0''"
    by (simp add: snprintf_d_def digit_char_def)
  have 4: "GetMetadataItem (ds_metadata poDS) ''LATITUDE'' = Some ''0''"
    using Open_SomeD(10) [OF wf op]
    by (simp add: im stored_preamble_fields(3) [OF a] lat example_latitude(2) d)
  have o: "linear_unit_option [] = (0, True)"
    by code_simp
  have n: "srs_unit_name True 0 ''furlong'' = 0"
    by code_simp
  have 5: "linear_unit_step example_services
        (example_dataset 5 (Some \<lparr>UNIT_0 = Some ''furlong'', UNIT_1 = None\<rparr>) None) True
        (linear_unit_option []) = proceed 0"
    by (simp add: o n linear_unit_step_def example_dataset_def)
  from 1 2 3 4 5 r show ?thesis by blast
qed

text \<open>
  C8 fails in the code. After the statistics the cursor is always at 2104, 3340 or
  4164; but for a source of 7 bands that has a file list, the loop over the file names
  leaves it at 4244 + 256 * 7 = 6036, which is none of 5524, 6292 and 6804: in a
  debug build the second \<^verbatim>\<open>CPLAssert\<close> fails, whatever options pass the preparation.
\<close>

theorem CreateCopy_seven_bands_file_list:
  assumes "snd (CreateCopy_prepare sv poSrcDS bStrict papszOptions) = Inr plan"
    and "length (src_bands poSrcDS) = 7"
    and "papszFileList poSrcDS = Some name"
    and "CPLAssert_active sv"
    and "VSIFOpenL_succeeds sv pszFilename"
  shows "outcome (CreateCopy sv pszFilename poSrcDS bStrict papszOptions) = Assert_failed 6036"
proof -
  from write_header_cases [OF assms(1)] assms(2,3,4)
  have "write_header sv poSrcDS plan VSIFOpenL_wb = Inl 6036"
    by simp
  then show ?thesis
    using assms(1,5) by (simp add: CreateCopy_def CreateCopy_write_def Let_def)
qed

theorem CreateCopy_seven_bands_file_list_witness:
  "length (src_bands (example_dataset 7 None (Some ''in.tif''))) = 7
   \<and> papszFileList (example_dataset 7 None (Some ''in.tif'')) = Some ''in.tif''
   \<and> CPLAssert_active example_services
   \<and> VSIFOpenL_succeeds example_services ''out.lcp''
   \<and> outcome (CreateCopy example_services ''out.lcp'' (example_dataset 7 None (Some ''in.tif''))
                False example_options) = Assert_failed 6036"
proof -
  from example_prepare_7 obtain plan where
    p: "snd (CreateCopy_prepare example_services (example_dataset 7 None (Some ''in.tif''))
               False example_options) = Inr plan"
    by blast
  have a: "length (src_bands (example_dataset 7 None (Some ''in.tif''))) = 7"
    "papszFileList (example_dataset 7 None (Some ''in.tif'')) = Some ''in.tif''"
    "CPLAssert_active example_services"
    "VSIFOpenL_succeeds example_services ''out.lcp''"
    by (simp_all add: example_dataset_def example_services_def)
  from CreateCopy_seven_bands_file_list [OF p a] a show ?thesis by blast
qed

end
